theory Spec2Isabelle
  imports Complex_Main "HOL-Library.Monad_Syntax"
begin

section \<open>JavaScript values\<close>

text \<open>
  The plugin is TypeScript. Its values are modelled as follows.
  \<^item> A string is a \<^typ>\<open>string\<close>; a character stands for one code unit in the range
    U+0000 to U+00FF. Within that range the white space of \<open>\s\<close> and of \<open>trim()\<close> is
    TAB, LF, VT, FF, CR, SPACE and NBSP.
  \<^item> A number that comes out of \<open>parseFloat\<close> or of arithmetic on such a result is a
    \<^emph>\<open>jsnum\<close>: a real, one of the two infinities, or NaN. Reals are exact: the rounding of
    IEEE doubles, overflow of a finite literal to Infinity and the sign of zero are not
    modelled.
  \<^item> A number of the intermediate representation (a rounded pixel geometry, a font size, a
    padding) is a finite \<^typ>\<open>real\<close>: the extractor produces each of them with \<open>pf\<close>
    or \<open>Math.round\<close> from layout measurements.
  \<^item> An optional field (\<open>text?: string\<close>) is an \<^typ>\<open>'a option\<close>; a function that
    returns \<open>T | null\<close> returns an option.
\<close>

datatype jsnum = Num real | PInf | NInf | NaN

fun js_neg :: "jsnum \<Rightarrow> jsnum" where
  "js_neg (Num x) = Num (- x)"
| "js_neg PInf = NInf"
| "js_neg NInf = PInf"
| "js_neg NaN = NaN"

fun js_add :: "jsnum \<Rightarrow> jsnum \<Rightarrow> jsnum" where
  "js_add (Num x) (Num y) = Num (x + y)"
| "js_add NaN _ = NaN"
| "js_add _ NaN = NaN"
| "js_add PInf NInf = NaN"
| "js_add NInf PInf = NaN"
| "js_add PInf _ = PInf"
| "js_add _ PInf = PInf"
| "js_add NInf _ = NInf"
| "js_add _ NInf = NInf"

definition js_sub :: "jsnum \<Rightarrow> jsnum \<Rightarrow> jsnum" where
  "js_sub x y = js_add x (js_neg y)"

definition signed_inf :: "bool \<Rightarrow> jsnum" where
  "signed_inf positive = (if positive then PInf else NInf)"

fun js_mul :: "jsnum \<Rightarrow> jsnum \<Rightarrow> jsnum" where
  "js_mul (Num x) (Num y) = Num (x * y)"
| "js_mul NaN _ = NaN"
| "js_mul _ NaN = NaN"
| "js_mul PInf (Num y) = (if y = 0 then NaN else signed_inf (0 < y))"
| "js_mul NInf (Num y) = (if y = 0 then NaN else signed_inf (y < 0))"
| "js_mul (Num x) PInf = (if x = 0 then NaN else signed_inf (0 < x))"
| "js_mul (Num x) NInf = (if x = 0 then NaN else signed_inf (x < 0))"
| "js_mul PInf PInf = PInf"
| "js_mul NInf NInf = PInf"
| "js_mul PInf NInf = NInf"
| "js_mul NInf PInf = NInf"

fun js_div :: "jsnum \<Rightarrow> jsnum \<Rightarrow> jsnum" where
  "js_div (Num x) (Num y) =
     (if y = 0 then (if x = 0 then NaN else signed_inf (0 < x)) else Num (x / y))"
| "js_div NaN _ = NaN"
| "js_div _ NaN = NaN"
| "js_div (Num x) PInf = Num 0"
| "js_div (Num x) NInf = Num 0"
| "js_div PInf (Num y) = signed_inf (0 \<le> y)"
| "js_div NInf (Num y) = signed_inf (y < 0)"
| "js_div PInf PInf = NaN"
| "js_div PInf NInf = NaN"
| "js_div NInf PInf = NaN"
| "js_div NInf NInf = NaN"

fun js_lt :: "jsnum \<Rightarrow> jsnum \<Rightarrow> bool" where
  "js_lt (Num x) (Num y) = (x < y)"
| "js_lt NaN _ = False"
| "js_lt _ NaN = False"
| "js_lt (Num x) PInf = True"
| "js_lt (Num x) NInf = False"
| "js_lt PInf _ = False"
| "js_lt NInf (Num y) = True"
| "js_lt NInf PInf = True"
| "js_lt NInf NInf = False"

text \<open>\<open>x <= y\<close>.\<close>

fun js_le :: "jsnum \<Rightarrow> jsnum \<Rightarrow> bool" where
  "js_le (Num x) (Num y) = (x \<le> y)"
| "js_le NaN _ = False"
| "js_le _ NaN = False"
| "js_le (Num x) PInf = True"
| "js_le (Num x) NInf = False"
| "js_le PInf (Num y) = False"
| "js_le PInf PInf = True"
| "js_le PInf NInf = False"
| "js_le NInf _ = True"

fun js_cos :: "jsnum \<Rightarrow> jsnum" where
  "js_cos (Num x) = Num (cos x)"
| "js_cos _ = NaN"

fun js_sin :: "jsnum \<Rightarrow> jsnum" where
  "js_sin (Num x) = Num (sin x)"
| "js_sin _ = NaN"

text \<open>\<open>Math.round\<close> rounds to the nearest integer, a half towards plus infinity.\<close>

definition math_round :: "real \<Rightarrow> real" where
  "math_round x = of_int \<lfloor>x + 1 / 2\<rfloor>"

fun js_round :: "jsnum \<Rightarrow> jsnum" where
  "js_round (Num x) = Num (math_round x)"
| "js_round v = v"

definition js_isNaN :: "jsnum \<Rightarrow> bool" where
  "js_isNaN v = (v = NaN)"

subsection \<open>Characters and strings\<close>

definition isSpace :: "char \<Rightarrow> bool" where
  "isSpace c = (c \<in> set [CHR 0x09, CHR 0x0A, CHR 0x0B, CHR 0x0C, CHR 0x0D, CHR 0x20, CHR 0xA0])"

definition isLineTerminator :: "char \<Rightarrow> bool" where
  "isLineTerminator c = (c = CHR 0x0A \<or> c = CHR 0x0D)"

definition isDigit :: "char \<Rightarrow> bool" where
  "isDigit c = (c \<in> set ''0123456789'')"

text \<open>The character class \<open>[\d.]\<close>.\<close>

definition isNumCh :: "char \<Rightarrow> bool" where
  "isNumCh c = (isDigit c \<or> c = CHR ''.'')"

text \<open>The character class \<open>[\da-fA-F]\<close> and the value of a digit in radix 16.\<close>

definition hexTable :: "(char \<times> nat) list" where
  "hexTable = zip ''0123456789abcdefABCDEF''
     [0, 1, 2, 3, 4, 5, 6, 7, 8, 9, 10, 11, 12, 13, 14, 15, 10, 11, 12, 13, 14, 15]"

definition isHexDigit :: "char \<Rightarrow> bool" where
  "isHexDigit c = (map_of hexTable c \<noteq> None)"

definition hexVal :: "char \<Rightarrow> nat" where
  "hexVal c = (case map_of hexTable c of Some v \<Rightarrow> v | None \<Rightarrow> 0)"

definition digitVal :: "char \<Rightarrow> nat" where
  "digitVal c = hexVal c"

definition caseTable :: "(char \<times> char) list" where
  "caseTable = zip
     (''ABCDEFGHIJKLMNOPQRSTUVWXYZ'' @
      [CHR 0xC0, CHR 0xC1, CHR 0xC2, CHR 0xC3, CHR 0xC4, CHR 0xC5, CHR 0xC6, CHR 0xC7,
       CHR 0xC8, CHR 0xC9, CHR 0xCA, CHR 0xCB, CHR 0xCC, CHR 0xCD, CHR 0xCE, CHR 0xCF,
       CHR 0xD0, CHR 0xD1, CHR 0xD2, CHR 0xD3, CHR 0xD4, CHR 0xD5, CHR 0xD6,
       CHR 0xD8, CHR 0xD9, CHR 0xDA, CHR 0xDB, CHR 0xDC, CHR 0xDD, CHR 0xDE])
     (''abcdefghijklmnopqrstuvwxyz'' @
      [CHR 0xE0, CHR 0xE1, CHR 0xE2, CHR 0xE3, CHR 0xE4, CHR 0xE5, CHR 0xE6, CHR 0xE7,
       CHR 0xE8, CHR 0xE9, CHR 0xEA, CHR 0xEB, CHR 0xEC, CHR 0xED, CHR 0xEE, CHR 0xEF,
       CHR 0xF0, CHR 0xF1, CHR 0xF2, CHR 0xF3, CHR 0xF4, CHR 0xF5, CHR 0xF6,
       CHR 0xF8, CHR 0xF9, CHR 0xFA, CHR 0xFB, CHR 0xFC, CHR 0xFD, CHR 0xFE])"

definition lowerChar :: "char \<Rightarrow> char" where
  "lowerChar c = (case map_of caseTable c of Some l \<Rightarrow> l | None \<Rightarrow> c)"

definition toLowerCase :: "string \<Rightarrow> string" where
  "toLowerCase s = map lowerChar s"

text \<open>
  Matching under the flag \<open>i\<close>: a pattern of ASCII characters matches a text character
  when both have the same ASCII lower case (a non-ASCII character never folds to an ASCII one
  in a regular expression without the flag \<open>u\<close>).
\<close>

definition asciiLower :: "char \<Rightarrow> char" where
  "asciiLower c = (if c \<in> set ''ABCDEFGHIJKLMNOPQRSTUVWXYZ'' then lowerChar c else c)"

definition trimStart :: "string \<Rightarrow> string" where
  "trimStart s = dropWhile isSpace s"

definition trim :: "string \<Rightarrow> string" where
  "trim s = rev (dropWhile isSpace (rev (dropWhile isSpace s)))"

fun stripPrefix :: "string \<Rightarrow> string \<Rightarrow> string option" where
  "stripPrefix [] s = Some s"
| "stripPrefix (p # ps) [] = None"
| "stripPrefix (p # ps) (c # cs) = (if p = c then stripPrefix ps cs else None)"

fun stripPrefixCI :: "string \<Rightarrow> string \<Rightarrow> string option" where
  "stripPrefixCI [] s = Some s"
| "stripPrefixCI (p # ps) [] = None"
| "stripPrefixCI (p # ps) (c # cs) =
     (if asciiLower p = asciiLower c then stripPrefixCI ps cs else None)"

definition startsWith :: "string \<Rightarrow> string \<Rightarrow> bool" where
  "startsWith s p = (stripPrefix p s \<noteq> None)"

definition endsWith :: "string \<Rightarrow> string \<Rightarrow> bool" where
  "endsWith s p = (stripPrefix (rev p) (rev s) \<noteq> None)"

text \<open>\<open>s.includes(p)\<close>.\<close>

fun includesStr :: "string \<Rightarrow> string \<Rightarrow> bool" where
  "includesStr [] p = (p = [])"
| "includesStr (c # cs) p = (startsWith (c # cs) p \<or> includesStr cs p)"

text \<open>\<open>s.replace(p, r)\<close> with a string pattern replaces the first occurrence only.\<close>

fun replaceFirst :: "string \<Rightarrow> string \<Rightarrow> string \<Rightarrow> string" where
  "replaceFirst p r [] = (if p = [] then r else [])"
| "replaceFirst p r (c # cs) =
     (case stripPrefix p (c # cs) of
        Some rest \<Rightarrow> r @ rest
      | None \<Rightarrow> c # replaceFirst p r cs)"

text \<open>\<open>s.split(',')\<close>: the empty string splits into one empty part.\<close>

fun splitOn :: "char \<Rightarrow> string \<Rightarrow> string list" where
  "splitOn d [] = [[]]"
| "splitOn d (c # cs) =
     (case splitOn d cs of
        [] \<Rightarrow> [[c]]
      | p # ps \<Rightarrow> (if c = d then [] # p # ps else (c # p) # ps))"

subsection \<open>parseFloat and parseInt\<close>

definition decimalValue :: "string \<Rightarrow> nat" where
  "decimalValue ds = foldl (\<lambda>acc c. 10 * acc + digitVal c) 0 ds"

definition hexValue :: "string \<Rightarrow> nat" where
  "hexValue ds = foldl (\<lambda>acc c. 16 * acc + hexVal c) 0 ds"

text \<open>
  The exponent part of a decimal literal, \<open>e\<close> or \<open>E\<close>, an optional sign and at least one
  digit; without a digit nothing is consumed and the exponent is 0.
\<close>

definition exponentPart :: "string \<Rightarrow> int" where
  "exponentPart s =
     (case s of
        [] \<Rightarrow> 0
      | c # r \<Rightarrow>
          if c = CHR ''e'' \<or> c = CHR ''E'' then
            (let (neg, r1) = (case r of
                                [] \<Rightarrow> (False, r)
                              | x # r' \<Rightarrow> if x = CHR ''-'' then (True, r')
                                          else if x = CHR ''+'' then (False, r')
                                          else (False, r));
                 ds = takeWhile isDigit r1
             in if ds = [] then 0
                else if neg then - int (decimalValue ds) else int (decimalValue ds))
          else 0)"

definition scale10 :: "real \<Rightarrow> int \<Rightarrow> real" where
  "scale10 m e = (if 0 \<le> e then m * 10 ^ nat e else m / 10 ^ nat (- e))"

text \<open>
  \<open>parseFloat\<close>: leading white space is skipped, then the longest prefix that is a decimal
  literal (an optional sign, \<open>Infinity\<close>, or digits with an optional fraction and an optional
  exponent) is read; NaN when there is none.
\<close>

definition parseFloat :: "string \<Rightarrow> jsnum" where
  "parseFloat s =
     (let s1 = trimStart s;
          (neg, s2) = (case s1 of
                         [] \<Rightarrow> (False, s1)
                       | x # r \<Rightarrow> if x = CHR ''-'' then (True, r)
                                  else if x = CHR ''+'' then (False, r)
                                  else (False, s1))
      in if startsWith s2 ''Infinity'' then signed_inf (\<not> neg)
         else
           (let ip = takeWhile isDigit s2;
                r1 = dropWhile isDigit s2;
                (fp, r2) = (case r1 of
                              [] \<Rightarrow> ([], r1)
                            | x # r \<Rightarrow> if x = CHR ''.''
                                       then (takeWhile isDigit r, dropWhile isDigit r)
                                       else ([], r1))
            in if ip = [] \<and> fp = [] then NaN
               else
                 (let mant = real (decimalValue ip)
                             + real (decimalValue fp) / 10 ^ length fp;
                      v = scale10 mant (exponentPart r2)
                  in Num (if neg then - v else v))))"

text \<open>
  \<open>parseInt(s)\<close> without a radix: leading white space and a sign are skipped, a prefix
  \<open>0x\<close> or \<open>0X\<close> selects radix 16, and the longest prefix of digits is read; \<open>None\<close> is NaN.
  The value is the exact integer.
\<close>

definition parseInt :: "string \<Rightarrow> int option" where
  "parseInt s =
     (let s1 = trimStart s;
          (neg, s2) = (case s1 of
                         [] \<Rightarrow> (False, s1)
                       | x # r \<Rightarrow> if x = CHR ''-'' then (True, r)
                                  else if x = CHR ''+'' then (False, r)
                                  else (False, s1));
          hex = (case stripPrefixCI ''0x'' s2 of Some r \<Rightarrow> Some r | None \<Rightarrow> None);
          ds = (case hex of Some r \<Rightarrow> takeWhile isHexDigit r | None \<Rightarrow> takeWhile isDigit s2);
          v = (case hex of Some r \<Rightarrow> hexValue ds | None \<Rightarrow> decimalValue ds)
      in if ds = [] then None
         else Some (if neg then - int v else int v))"

text \<open>\<open>parseInt(s, 16)\<close> on a string of two hexadecimal digits, as \<open>parseHexColor\<close> calls it.\<close>

definition parseInt16 :: "string \<Rightarrow> int option" where
  "parseInt16 s =
     (let s1 = trimStart s;
          (neg, s2) = (case s1 of
                         [] \<Rightarrow> (False, s1)
                       | x # r \<Rightarrow> if x = CHR ''-'' then (True, r)
                                  else if x = CHR ''+'' then (False, r)
                                  else (False, s1));
          s3 = (case stripPrefixCI ''0x'' s2 of Some r \<Rightarrow> r | None \<Rightarrow> s2);
          ds = takeWhile isHexDigit s3
      in if ds = [] then None
         else Some (if neg then - int (hexValue ds) else int (hexValue ds)))"

definition int_to_jsnum :: "int option \<Rightarrow> jsnum" where
  "int_to_jsnum v = (case v of None \<Rightarrow> NaN | Some n \<Rightarrow> Num (real_of_int n))"


section \<open>Colour utilities (code.ts)\<close>

text \<open>
  \<open>RGB\<close> has the fields \<open>r\<close>, \<open>g\<close>, \<open>b\<close> and \<open>ParsedColor\<close> the fields \<open>rgb\<close> and \<open>a\<close>;
  the one-letter names are prefixed here.
\<close>

record RGB =
  rgb_r :: jsnum
  rgb_g :: jsnum
  rgb_b :: jsnum

record ParsedColor =
  pc_rgb :: RGB
  pc_a :: jsnum

subsection \<open>The regular expressions of parseColor\<close>

text \<open>
  Each of the three expressions is anchored at both ends and built from character classes
  that exclude what follows them, so the greedy match is the only one and backtracking never
  finds another. They are written as deterministic parsers in the option monad:
  \<open>None\<close> is no match, \<open>Some\<close> carries the capture groups (\<open>None\<close> in a group is
  \<open>undefined\<close>).
\<close>

text \<open>One given character.\<close>

definition expectCh :: "char \<Rightarrow> string \<Rightarrow> string option" where
  "expectCh c s = (case s of [] \<Rightarrow> None | x # r \<Rightarrow> if x = c then Some r else None)"

text \<open>\<open>\s*\<close> and \<open>\s+\<close>.\<close>

definition ws0 :: "string \<Rightarrow> string" where
  "ws0 s = dropWhile isSpace s"

definition ws1 :: "string \<Rightarrow> string option" where
  "ws1 s = (case s of [] \<Rightarrow> None | x # r \<Rightarrow> if isSpace x then Some (dropWhile isSpace r) else None)"

text \<open>\<open>([\d.]+)\<close>.\<close>

definition numTok :: "string \<Rightarrow> (string \<times> string) option" where
  "numTok s = (if takeWhile isNumCh s = [] then None
               else Some (takeWhile isNumCh s, dropWhile isNumCh s))"

text \<open>\<open>([\d.]+%?)\<close>.\<close>

definition numPctTok :: "string \<Rightarrow> (string \<times> string) option" where
  "numPctTok s =
     (case numTok s of
        None \<Rightarrow> None
      | Some (n, r) \<Rightarrow>
          (case r of
             [] \<Rightarrow> Some (n, r)
           | x # r' \<Rightarrow> if x = CHR ''%'' then Some (n @ ''%'', r') else Some (n, r)))"

text \<open>\<open>\s*\)$\<close>.\<close>

definition closeParenEnd :: "string \<Rightarrow> bool" where
  "closeParenEnd s = (ws0 s = '')'')"

text \<open>\<open>^rgba?\(\<close>.\<close>

definition rgbOpen :: "string \<Rightarrow> string option" where
  "rgbOpen s =
     (case stripPrefix ''rgb'' s of
        None \<Rightarrow> None
      | Some r \<Rightarrow>
          (case r of
             [] \<Rightarrow> None
           | x # r' \<Rightarrow> if x = CHR ''a'' then expectCh (CHR ''('') r'
                       else expectCh (CHR ''('') r))"

text \<open>
  \<open>/^rgba?\(\s*([\d.]+)\s*,\s*([\d.]+)\s*,\s*([\d.]+)(?:\s*,\s*([\d.]+))?\s*\)$/\<close>
\<close>

definition matchLegacy :: "string \<Rightarrow> (string \<times> string \<times> string \<times> string option) option" where
  "matchLegacy css =
     do {
       s \<leftarrow> rgbOpen css;
       (m1, s) \<leftarrow> numTok (ws0 s);
       s \<leftarrow> expectCh (CHR '','') (ws0 s);
       (m2, s) \<leftarrow> numTok (ws0 s);
       s \<leftarrow> expectCh (CHR '','') (ws0 s);
       (m3, s) \<leftarrow> numTok (ws0 s);
       (m4, s) \<leftarrow> (case expectCh (CHR '','') (ws0 s) of
                     None \<Rightarrow> Some (None, s)
                   | Some s' \<Rightarrow> do { (m, s'') \<leftarrow> numTok (ws0 s'); Some (Some m, s'') });
       if closeParenEnd s then Some (m1, m2, m3, m4) else None
     }"

text \<open>\<open>\s+([\d.]+)\s+([\d.]+)\s+([\d.]+)(?:\s*\/\s*([\d.]+%?))?\s*\)$\<close>, the common tail of the
  modern and of the \<open>color(srgb\<close> expression, but for the first separator.\<close>

definition matchSpaced :: "string \<Rightarrow> (string \<times> string \<times> string \<times> string option) option" where
  "matchSpaced s0 =
     do {
       (m1, s) \<leftarrow> numTok s0;
       s \<leftarrow> ws1 s;
       (m2, s) \<leftarrow> numTok s;
       s \<leftarrow> ws1 s;
       (m3, s) \<leftarrow> numTok s;
       (m4, s) \<leftarrow> (case expectCh (CHR ''/'') (ws0 s) of
                     None \<Rightarrow> Some (None, s)
                   | Some s' \<Rightarrow> do { (m, s'') \<leftarrow> numPctTok (ws0 s'); Some (Some m, s'') });
       if closeParenEnd s then Some (m1, m2, m3, m4) else None
     }"

text \<open>
  \<open>/^rgba?\(\s*([\d.]+)\s+([\d.]+)\s+([\d.]+)(?:\s*\/\s*([\d.]+%?))?\s*\)$/\<close>
\<close>

definition matchModern :: "string \<Rightarrow> (string \<times> string \<times> string \<times> string option) option" where
  "matchModern css = do { s \<leftarrow> rgbOpen css; matchSpaced (ws0 s) }"

text \<open>
  \<open>/^color\(srgb\s+([\d.]+)\s+([\d.]+)\s+([\d.]+)(?:\s*\/\s*([\d.]+%?))?\s*\)$/\<close>
\<close>

definition matchSrgb :: "string \<Rightarrow> (string \<times> string \<times> string \<times> string option) option" where
  "matchSrgb css = do { s \<leftarrow> stripPrefix ''color(srgb'' css; s \<leftarrow> ws1 s; matchSpaced s }"

text \<open>The alpha of the modern forms: a percentage is divided by 100.\<close>

definition alphaOf :: "string option \<Rightarrow> jsnum" where
  "alphaOf m4 =
     (case m4 of
        None \<Rightarrow> Num 1
      | Some m \<Rightarrow> if endsWith m ''%'' then js_div (parseFloat m) (Num 100) else parseFloat m)"

definition parseColor :: "string \<Rightarrow> ParsedColor option" where
  "parseColor css =
     (if css = [] \<or> css = ''transparent'' \<or> css = ''none'' then None
      else
        (case matchLegacy css of
           Some (m1, m2, m3, m4) \<Rightarrow>
             Some \<lparr>pc_rgb = \<lparr>rgb_r = js_div (parseFloat m1) (Num 255),
                              rgb_g = js_div (parseFloat m2) (Num 255),
                              rgb_b = js_div (parseFloat m3) (Num 255)\<rparr>,
                   pc_a = (case m4 of Some m \<Rightarrow> parseFloat m | None \<Rightarrow> Num 1)\<rparr>
         | None \<Rightarrow>
             (case matchModern css of
                Some (m1, m2, m3, m4) \<Rightarrow>
                  Some \<lparr>pc_rgb = \<lparr>rgb_r = js_div (parseFloat m1) (Num 255),
                                   rgb_g = js_div (parseFloat m2) (Num 255),
                                   rgb_b = js_div (parseFloat m3) (Num 255)\<rparr>,
                        pc_a = alphaOf m4\<rparr>
              | None \<Rightarrow>
                  (case matchSrgb css of
                     Some (m1, m2, m3, m4) \<Rightarrow>
                       Some \<lparr>pc_rgb = \<lparr>rgb_r = parseFloat m1,
                                        rgb_g = parseFloat m2,
                                        rgb_b = parseFloat m3\<rparr>,
                             pc_a = alphaOf m4\<rparr>
                   | None \<Rightarrow> None))))"

definition isTransparent :: "string \<Rightarrow> bool" where
  "isTransparent css =
     (if css = [] \<or> css = ''transparent'' \<or> css = ''none'' \<or> css = [] then True
      else (case parseColor css of
              None \<Rightarrow> False
            | Some c \<Rightarrow> js_lt (pc_a c) (Num (1 / 100))))"

text \<open>
  A paint is a solid paint (\<open>type: 'SOLID'\<close>, a colour and an optional opacity) or a linear
  gradient (\<open>type: 'GRADIENT_LINEAR'\<close>, the 2 by 3 transform, the stops and an opacity).
\<close>

record RGBA = RGB +
  rgb_a :: jsnum

record ColorStop =
  position :: jsnum
  stop_color :: RGBA

type_synonym Transform = "(jsnum \<times> jsnum \<times> jsnum) \<times> (jsnum \<times> jsnum \<times> jsnum)"

datatype Paint =
    SOLID (color: RGB) (opacity: "jsnum option")
  | GRADIENT_LINEAR (gradientTransform: Transform) (gradientStops: "ColorStop list")
      (gradientOpacity: jsnum)

definition toSolidPaint :: "string \<Rightarrow> Paint option" where
  "toSolidPaint css =
     (case parseColor css of
        None \<Rightarrow> None
      | Some c \<Rightarrow> if js_lt (pc_a c) (Num (1 / 100)) then None
                  else Some (SOLID (pc_rgb c) (Some (pc_a c))))"

section \<open>Font utilities (code.ts)\<close>

definition FONT_MAP :: "(string \<times> string) list" where
  "FONT_MAP =
     [(''inter'', ''Inter''),
      (''roboto'', ''Roboto''),
      (''open sans'', ''Open Sans''),
      (''noto sans'', ''Noto Sans''),
      (''lato'', ''Lato''),
      (''montserrat'', ''Montserrat''),
      (''poppins'', ''Poppins''),
      (''nunito'', ''Nunito''),
      (''raleway'', ''Raleway''),
      (''ubuntu'', ''Ubuntu''),
      (''source sans pro'', ''Source Sans Pro''),
      (''playfair display'', ''Playfair Display''),
      (''merriweather'', ''Merriweather''),
      (''georgia'', ''Georgia''),
      (''times new roman'', ''Times New Roman''),
      (''courier new'', ''Courier New''),
      (''roboto mono'', ''Roboto Mono''),
      (''source code pro'', ''Source Code Pro''),
      (''fira code'', ''Fira Code''),
      (''jetbrains mono'', ''JetBrains Mono''),
      (''pretendard'', ''Pretendard''),
      (''pretendard variable'', ''Pretendard''),
      (''noto sans kr'', ''Noto Sans KR''),
      (''noto sans cjk kr'', ''Noto Sans KR''),
      (''apple sd gothic neo'', ''Noto Sans KR''),
      (''malgun gothic'', ''Noto Sans KR''),
      (''nanumgothic'', ''Noto Sans KR''),
      (''nanum gothic'', ''Noto Sans KR''),
      (''sans-serif'', ''Inter''),
      (''serif'', ''Merriweather''),
      (''monospace'', ''Roboto Mono''),
      (''system-ui'', ''Inter''),
      (''-apple-system'', ''Inter''),
      (''blinkmacsystemfont'', ''Inter''),
      (''segoe ui'', ''Inter''),
      (''helvetica neue'', ''Inter''),
      (''helvetica'', ''Inter''),
      (''arial'', ''Inter''),
      (''apple system'', ''Inter'')]"

text \<open>
  The families of the list, each trimmed, stripped of quotes and lower-cased; the first one
  that is a key of the table decides (the table is looked up by its own keys only).
\<close>

definition isQuote :: "char \<Rightarrow> bool" where
  "isQuote c = (c = CHR 0x27 \<or> c = CHR 0x22)"

fun firstMapped :: "string list \<Rightarrow> string option" where
  "firstMapped [] = None"
| "firstMapped (fam # fams) =
     (case map_of FONT_MAP fam of
        Some f \<Rightarrow> Some f
      | None \<Rightarrow> firstMapped fams)"

definition mapFontFamily :: "string \<Rightarrow> string" where
  "mapFontFamily cssFontFamily =
     (let families = map (\<lambda>f. toLowerCase (filter (\<lambda>c. \<not> isQuote c) (trim f)))
                         (splitOn (CHR '','') cssFontFamily)
      in case firstMapped families of Some f \<Rightarrow> f | None \<Rightarrow> ''Inter'')"

text \<open>\<open>parseInt(weight) || 400\<close>: NaN and 0 are falsy.\<close>

definition weightOr400 :: "string \<Rightarrow> int" where
  "weightOr400 weight =
     (case parseInt weight of
        None \<Rightarrow> 400
      | Some n \<Rightarrow> if n = 0 then 400 else n)"

definition weightToFigmaStyle :: "string \<Rightarrow> bool \<Rightarrow> string" where
  "weightToFigmaStyle weight italic =
     (let w = weightOr400 weight;
          style = (if w \<ge> 900 then ''Black''
                   else if w \<ge> 800 then ''ExtraBold''
                   else if w \<ge> 700 then ''Bold''
                   else if w \<ge> 600 then ''SemiBold''
                   else if w \<ge> 500 then ''Medium''
                   else if w \<ge> 300 then ''Light''
                   else if w \<ge> 200 then ''ExtraLight''
                   else if w \<ge> 100 then ''Thin''
                   else ''Regular'')
      in if italic then style @ '' Italic'' else style)"


section \<open>Gradient parsing (code.ts)\<close>

text \<open>
  \<open>splitTopLevelCommas\<close>: the loop over the characters keeps the nesting depth and the part
  read since the last top-level comma (here in reverse); every part is trimmed.
\<close>

fun splitLoop :: "string \<Rightarrow> int \<Rightarrow> string \<Rightarrow> string list" where
  "splitLoop [] depth cur = [trim (rev cur)]"
| "splitLoop (c # cs) depth cur =
     (if c = CHR ''('' then splitLoop cs (depth + 1) (c # cur)
      else if c = CHR '')'' then splitLoop cs (depth - 1) (c # cur)
      else if c = CHR '','' \<and> depth = 0 then trim (rev cur) # splitLoop cs depth []
      else splitLoop cs depth (c # cur))"

definition splitTopLevelCommas :: "string \<Rightarrow> string list" where
  "splitTopLevelCommas s = splitLoop s 0 []"

text \<open>
  \<open>parseHexColor\<close>: \<open>/^#([\da-fA-F]{3,8})$/\<close> on the trimmed string, three digits doubled,
  six digits completed with \<open>ff\<close>, and anything but eight digits rejected.
\<close>

definition matchHex :: "string \<Rightarrow> string option" where
  "matchHex s =
     (case s of
        [] \<Rightarrow> None
      | x # h \<Rightarrow> if x = CHR ''#'' \<and> 3 \<le> length h \<and> length h \<le> 8 \<and> list_all isHexDigit h
                 then Some h else None)"

definition hexByte :: "string \<Rightarrow> jsnum" where
  "hexByte s = js_div (int_to_jsnum (parseInt16 s)) (Num 255)"

definition parseHexColor :: "string \<Rightarrow> ParsedColor option" where
  "parseHexColor hex =
     (case matchHex (trim hex) of
        None \<Rightarrow> None
      | Some h0 \<Rightarrow>
          (let h1 = (if length h0 = 3
                     then [h0 ! 0, h0 ! 0, h0 ! 1, h0 ! 1, h0 ! 2, h0 ! 2] else h0);
               h = (if length h1 = 6 then h1 @ ''ff'' else h1)
           in if length h \<noteq> 8 then None
              else Some \<lparr>pc_rgb = \<lparr>rgb_r = hexByte (take 2 h),
                                    rgb_g = hexByte (take 2 (drop 2 h)),
                                    rgb_b = hexByte (take 2 (drop 4 h))\<rparr>,
                         pc_a = hexByte (take 2 (drop 6 h))\<rparr>))"

text \<open>
  \<open>/^linear-gradient\(([\s\S]+)\)$/i\<close>: the prefix without regard to case, a last character
  \<open>)\<close>, and at least one character between them, which is group 1.
\<close>

definition matchLinearGradient :: "string \<Rightarrow> string option" where
  "matchLinearGradient css =
     (case stripPrefixCI ''linear-gradient('' css of
        None \<Rightarrow> None
      | Some r \<Rightarrow>
          (case rev r of
             [] \<Rightarrow> None
           | x # body \<Rightarrow> if x = CHR '')'' \<and> body \<noteq> [] then Some (rev body) else None))"

text \<open>\<open>/deg$/i\<close> and \<open>/^to\s/i\<close>.\<close>

definition endsWithDeg :: "string \<Rightarrow> bool" where
  "endsWithDeg s = (stripPrefixCI (rev ''deg'') (rev s) \<noteq> None)"

definition startsWithTo :: "string \<Rightarrow> bool" where
  "startsWithTo s =
     (case stripPrefixCI ''to'' s of
        None \<Rightarrow> False
      | Some r \<Rightarrow> (case r of [] \<Rightarrow> False | x # _ \<Rightarrow> isSpace x))"

text \<open>The angle in degrees and the index of the first stop.\<close>

definition gradientAngle :: "string list \<Rightarrow> jsnum \<times> nat" where
  "gradientAngle parts =
     (let angleStr = trim (parts ! 0)
      in if endsWithDeg angleStr then (parseFloat angleStr, 1)
         else if startsWithTo angleStr then
           (let dir = toLowerCase angleStr
            in (if dir = ''to top'' then Num 0
                else if dir = ''to right'' then Num 90
                else if dir = ''to bottom'' then Num 180
                else if dir = ''to left'' then Num 270
                else if dir = ''to top right'' then Num 45
                else if dir = ''to bottom right'' then Num 135
                else if dir = ''to bottom left'' then Num 225
                else if dir = ''to top left'' then Num 315
                else Num 180, 1))
         else (Num 180, 0))"

definition angleTransform :: "jsnum \<Rightarrow> Transform" where
  "angleTransform angleDeg =
     (let rad = js_div (js_mul angleDeg (Num pi)) (Num 180);
          cosA = js_cos rad;
          sinA = js_sin rad
      in ((sinA, cosA, js_mul (Num (1 / 2)) (js_sub (Num 1) sinA)),
          (js_neg cosA, sinA, js_mul (Num (1 / 2)) (js_add (Num 1) cosA))))"

text \<open>
  \<open>/(.+?)\s+([\d.]+)%\s*$/\<close>, read from the end of the string: trailing white space, the
  percent sign, the run of \<open>[\d.]\<close> before it (group 2) and the run of white space before
  that. Group 1 is lazy and starts as far left as a match allows: it is what stands before
  that white space, after the last line terminator there (the dot matches none). When
  nothing stands before the white space, group 1 is the first character of the white space
  that is no line terminator and not its last character.
\<close>

definition posMatch :: "string \<Rightarrow> (string \<times> string) option" where
  "posMatch part =
     (case dropWhile isSpace (rev part) of
        [] \<Rightarrow> None
      | x # r2 \<Rightarrow>
          if x \<noteq> CHR ''%'' then None
          else
            (let num = takeWhile isNumCh r2;
                 r3 = dropWhile isNumCh r2;
                 sp = takeWhile isSpace r3;
                 r4 = dropWhile isSpace r3
             in if num = [] \<or> sp = [] then None
                else if r4 \<noteq> [] then
                  Some (rev (takeWhile (\<lambda>c. \<not> isLineTerminator c) r4), rev num)
                else
                  (case filter (\<lambda>c. \<not> isLineTerminator c) (butlast (rev sp)) of
                     [] \<Rightarrow> None
                   | c # _ \<Rightarrow> Some ([c], rev num))))"

text \<open>\<open>parseColor(colorStr) ?? parseHexColor(colorStr)\<close>.\<close>

definition parseStopColor :: "string \<Rightarrow> ParsedColor option" where
  "parseStopColor colorStr =
     (case parseColor colorStr of
        Some c \<Rightarrow> Some c
      | None \<Rightarrow> parseHexColor colorStr)"

text \<open>
  One round of the loop over \<open>stopParts\<close>: the stop of the part at index \<open>i\<close> of \<open>n\<close> parts,
  or \<open>None\<close> when the round ends in \<open>continue\<close>.
\<close>

definition stopColorStr :: "string \<Rightarrow> string" where
  "stopColorStr part = (case posMatch part of Some (g1, g2) \<Rightarrow> trim g1 | None \<Rightarrow> part)"

definition stopPosition :: "nat \<Rightarrow> nat \<Rightarrow> string \<Rightarrow> jsnum" where
  "stopPosition n i part =
     (case posMatch part of
        Some (g1, g2) \<Rightarrow> js_div (parseFloat g2) (Num 100)
      | None \<Rightarrow> Num (real i / real_of_int (max (int n - 1) 1)))"

definition resolveStop :: "nat \<Rightarrow> nat \<Rightarrow> string \<Rightarrow> ColorStop option" where
  "resolveStop n i p =
     (let part = trim p
      in case parseStopColor (stopColorStr part) of
           None \<Rightarrow> None
         | Some parsed \<Rightarrow>
             Some \<lparr>position = stopPosition n i part,
                   stop_color = \<lparr>rgb_r = rgb_r (pc_rgb parsed), rgb_g = rgb_g (pc_rgb parsed),
                                 rgb_b = rgb_b (pc_rgb parsed), rgb_a = pc_a parsed\<rparr>\<rparr>)"

fun stopsLoop :: "nat \<Rightarrow> nat \<Rightarrow> string list \<Rightarrow> ColorStop list" where
  "stopsLoop n i [] = []"
| "stopsLoop n i (p # ps) =
     (case resolveStop n i p of
        None \<Rightarrow> stopsLoop n (i + 1) ps
      | Some st \<Rightarrow> st # stopsLoop n (i + 1) ps)"

definition parseLinearGradient :: "string \<Rightarrow> Paint option" where
  "parseLinearGradient css =
     (case matchLinearGradient css of
        None \<Rightarrow> None
      | Some m1 \<Rightarrow>
          (let parts = splitTopLevelCommas m1
           in if length parts < 2 then None
              else
                (let (angleDeg, stopStart) = gradientAngle parts;
                     stopParts = drop stopStart parts;
                     stops = stopsLoop (length stopParts) 0 stopParts
                 in if length stops < 2 then None
                    else Some (GRADIENT_LINEAR (angleTransform angleDeg) stops (Num 1)))))"


section \<open>The intermediate representation (types.ts)\<close>

record DomStyleData =
  backgroundColor :: string
  backgroundImage :: string
  color_css :: string
  fontSize :: real
  fontWeight :: string
  fontFamily :: string
  fontStyle :: string
  lineHeight :: string
  textAlign :: string
  letterSpacing :: string
  textDecoration :: string
  borderTopLeftRadius :: real
  borderTopRightRadius :: real
  borderBottomRightRadius :: real
  borderBottomLeftRadius :: real
  borderTopWidth :: real
  borderRightWidth :: real
  borderBottomWidth :: real
  borderLeftWidth :: real
  borderColor :: string
  borderStyle :: string
  opacity_css :: real
  boxShadow :: string
  overflow :: string
  display :: string
  flexDirection :: string
  alignItems :: string
  justifyContent :: string
  rowGap :: real
  columnGap :: real
  paddingTop :: real
  paddingRight :: real
  paddingBottom :: real
  paddingLeft :: real
  position_css :: string

text \<open>
  The fields \<open>color\<close>, \<open>opacity\<close> and \<open>position\<close> of the style carry the suffix \<open>_css\<close>,
  the fields \<open>x\<close>, \<open>y\<close>, \<open>width\<close> and \<open>height\<close> of a rectangle the prefix \<open>rect_\<close>, and
  the field \<open>text\<close> of a node and of a segment a prefix of its own.
\<close>

record Rect =
  rect_x :: real
  rect_y :: real
  rect_width :: real
  rect_height :: real

record TextSegment =
  seg_text :: string
  seg_bold :: "bool option"
  seg_color :: "string option"

datatype DomNodeData =
  DomNodeData
    (tagName: string)
    (node_text: "string option")
    (textSegments: "TextSegment list option")
    (imageUrl: "string option")
    (svgHtml: "string option")
    (rect: Rect)
    (visible: bool)
    (style: DomStyleData)
    (children: "DomNodeData list")

text \<open>An optional string is truthy when it is present and not empty.\<close>

definition truthy :: "string option \<Rightarrow> bool" where
  "truthy v = (case v of None \<Rightarrow> False | Some t \<Rightarrow> t \<noteq> [])"

section \<open>The canvas (the Figma plugin API)\<close>

text \<open>
  The nodes the plugin creates are modelled by the properties it sets on them. A text node
  records the calls of \<open>resize\<close>, \<open>setRangeFontName\<close> and \<open>setRangeFills\<close> as well. The drop
  shadow (\<open>frame.effects\<close>, from \<open>parseBoxShadow\<close>) is not part of the model.
\<close>

record FontName =
  family :: string
  font_style :: string

datatype AutoResize = HEIGHT | WIDTH_AND_HEIGHT

record TextNode =
  t_fontName :: FontName
  t_fontSize :: real
  t_characters :: string
  t_fills :: "Paint list option"
  t_textAlignHorizontal :: string
  t_lineHeight :: "jsnum option"
  t_letterSpacing :: "jsnum option"
  t_textDecoration :: "string option"
  t_textAutoResize :: AutoResize
  t_resized :: "(real \<times> real) option"
  t_x :: real
  t_y :: real
  t_visible :: bool
  t_rangeFontNames :: "(nat \<times> nat \<times> FontName) list"
  t_rangeFills :: "(nat \<times> nat \<times> Paint list) list"

datatype Corners = NoCorners | Uniform real | PerCorner real real real real

datatype StrokeWeights = UniformWeight real | SideWeights real real real real

record Stroke =
  strokes :: "Paint list"
  strokeAlign :: string
  strokeWeights :: StrokeWeights

record FrameNode =
  f_name :: string
  f_width :: real
  f_height :: real
  f_x :: real
  f_y :: real
  f_fills :: "Paint list"
  f_corners :: Corners
  f_opacity :: "real option"
  f_stroke :: "Stroke option"
  f_clipsContent :: bool
  f_visible :: bool

record RectangleNode =
  r_name :: string
  r_width :: real
  r_height :: real
  r_x :: real
  r_y :: real
  r_fills :: "Paint list"
  r_corners :: Corners
  r_opacity :: "real option"
  r_visible :: bool

record SvgNode =
  s_markup :: string
  s_name :: string
  s_width :: real
  s_height :: real
  s_x :: real
  s_y :: real
  s_fills :: "Paint list"
  s_opacity :: "real option"
  s_visible :: bool

datatype FigNode =
    TEXT TextNode
  | FRAME FrameNode "FigNode list"
  | RECTANGLE RectangleNode
  | SVG SvgNode

text \<open>
  What the plugin cannot decide by itself is a parameter: whether \<open>figma.loadFontAsync\<close>
  resolves for a font, the size Figma gives a text node in its current state (\<open>t.width\<close>,
  \<open>t.height\<close>), whether \<open>figma.createNodeFromSvg\<close> accepts a markup (and then the size of
  the frame it returns), and the centre of the viewport.
\<close>

record FigmaEnv =
  loadFontAsync :: "FontName \<Rightarrow> bool"
  textWidth :: "TextNode \<Rightarrow> real"
  textHeight :: "TextNode \<Rightarrow> real"
  createNodeFromSvg :: "string \<Rightarrow> (real \<times> real) option"
  viewportCenter :: "real \<times> real"

datatype error = CannotLoadAnyFont

definition createFrame :: FrameNode where
  "createFrame =
     \<lparr>f_name = ''Frame'', f_width = 100, f_height = 100, f_x = 0, f_y = 0,
      f_fills = [SOLID \<lparr>rgb_r = Num 1, rgb_g = Num 1, rgb_b = Num 1\<rparr> None],
      f_corners = NoCorners, f_opacity = None, f_stroke = None,
      f_clipsContent = True, f_visible = True\<rparr>"

definition createRectangle :: RectangleNode where
  "createRectangle =
     \<lparr>r_name = ''Rectangle'', r_width = 100, r_height = 100, r_x = 0, r_y = 0,
      r_fills = [SOLID \<lparr>rgb_r = Num (85 / 100), rgb_g = Num (85 / 100), rgb_b = Num (85 / 100)\<rparr> None],
      r_corners = NoCorners, r_opacity = None, r_visible = True\<rparr>"

subsection \<open>loadBestFont\<close>

definition KOREAN_FAMILIES :: "string list" where
  "KOREAN_FAMILIES =
     [''Pretendard'', ''Noto Sans KR'', ''Apple SD Gothic Neo'', ''Malgun Gothic'', ''NanumGothic'']"

definition fontCandidates :: "string \<Rightarrow> string \<Rightarrow> FontName list" where
  "fontCandidates fam sty =
     (let spaced = replaceFirst ''ExtraLight'' ''Extra Light''
                     (replaceFirst ''ExtraBold'' ''Extra Bold''
                        (replaceFirst ''SemiBold'' ''Semi Bold'' sty));
          compact = replaceFirst ''Extra Light'' ''ExtraLight''
                      (replaceFirst ''Extra Bold'' ''ExtraBold''
                         (replaceFirst ''Semi Bold'' ''SemiBold'' sty))
      in [\<lparr>family = fam, font_style = sty\<rparr>]
         @ (if spaced \<noteq> sty then [\<lparr>family = fam, font_style = spaced\<rparr>] else [])
         @ (if compact \<noteq> sty then [\<lparr>family = fam, font_style = compact\<rparr>] else [])
         @ [\<lparr>family = fam, font_style = replaceFirst '' Italic'' [] sty\<rparr>,
            \<lparr>family = fam, font_style = ''Regular''\<rparr>]
         @ (if fam \<noteq> ''Noto Sans KR'' \<and> fam \<in> set KOREAN_FAMILIES
            then [\<lparr>family = ''Noto Sans KR'', font_style = sty\<rparr>,
                  \<lparr>family = ''Noto Sans KR'', font_style = replaceFirst '' Italic'' [] sty\<rparr>,
                  \<lparr>family = ''Noto Sans KR'', font_style = ''Regular''\<rparr>]
            else [])
         @ [\<lparr>family = ''Inter'', font_style = ''Regular''\<rparr>])"

text \<open>The loop over the candidates: the first one that loads is returned; none throws.\<close>

fun tryFonts :: "FigmaEnv \<Rightarrow> FontName list \<Rightarrow> error + FontName" where
  "tryFonts env [] = Inl CannotLoadAnyFont"
| "tryFonts env (fn # fns) = (if loadFontAsync env fn then Inr fn else tryFonts env fns)"

definition loadBestFont :: "FigmaEnv \<Rightarrow> string \<Rightarrow> string \<Rightarrow> error + FontName" where
  "loadBestFont env fam sty = tryFonts env (fontCandidates fam sty)"

subsection \<open>Style helpers\<close>

definition applyCornerRadius :: "DomStyleData \<Rightarrow> Corners" where
  "applyCornerRadius s =
     (let tl = borderTopLeftRadius s; tr = borderTopRightRadius s;
          br = borderBottomRightRadius s; bl = borderBottomLeftRadius s
      in if tl = tr \<and> tr = br \<and> br = bl
         then (if tl > 0 then Uniform (math_round tl) else NoCorners)
         else PerCorner (math_round tl) (math_round tr) (math_round br) (math_round bl))"

definition maxBorderWidth :: "DomStyleData \<Rightarrow> real" where
  "maxBorderWidth s =
     max (max (max (borderTopWidth s) (borderRightWidth s)) (borderBottomWidth s))
         (borderLeftWidth s)"

definition applyStrokes :: "DomStyleData \<Rightarrow> Stroke option" where
  "applyStrokes s =
     (let maxW = maxBorderWidth s
      in if maxW \<le> 0 \<or> borderStyle s = ''none'' \<or> isTransparent (borderColor s) then None
         else
           (case toSolidPaint (borderColor s) of
              None \<Rightarrow> None
            | Some paint \<Rightarrow>
                Some \<lparr>strokes = [paint], strokeAlign = ''INSIDE'',
                      strokeWeights =
                        (if borderTopWidth s = borderRightWidth s
                            \<and> borderRightWidth s = borderBottomWidth s
                            \<and> borderBottomWidth s = borderLeftWidth s
                         then UniformWeight maxW
                         else SideWeights (borderTopWidth s) (borderRightWidth s)
                                (borderBottomWidth s) (borderLeftWidth s))\<rparr>))"

text \<open>The fills of \<open>applyFrameStyle\<close>: a gradient first, the solid background colour else.\<close>

definition frameFills :: "DomStyleData \<Rightarrow> Paint list" where
  "frameFills s =
     (if backgroundImage s \<noteq> [] \<and> backgroundImage s \<noteq> ''none'' \<and> backgroundImage s \<noteq> []
      then (case parseLinearGradient (backgroundImage s) of
              Some grad \<Rightarrow> [grad]
            | None \<Rightarrow> (case toSolidPaint (backgroundColor s) of
                         Some solid \<Rightarrow> [solid]
                       | None \<Rightarrow> []))
      else (case toSolidPaint (backgroundColor s) of
              Some solid \<Rightarrow> [solid]
            | None \<Rightarrow> []))"

definition applyFrameStyle :: "FrameNode \<Rightarrow> DomStyleData \<Rightarrow> FrameNode" where
  "applyFrameStyle frame s =
     frame\<lparr>f_fills := frameFills s,
           f_corners := (case applyCornerRadius s of
                           NoCorners \<Rightarrow> f_corners frame
                         | c \<Rightarrow> c),
           f_opacity := (if opacity_css s < 1 then Some (opacity_css s) else f_opacity frame),
           f_stroke := (case applyStrokes s of None \<Rightarrow> f_stroke frame | Some st \<Rightarrow> Some st),
           f_clipsContent := (overflow s = ''hidden'' \<or> overflow s = ''clip'')\<rparr>"


section \<open>The recursive node builder (code.ts)\<close>

text \<open>
  The two counters of the module and the lines written with \<open>console.error\<close> are the state
  that \<open>buildTree\<close> threads through the traversal.
\<close>

record BuildState =
  frameCount :: nat
  textCount :: nat
  console :: "(string \<times> error) list"

definition createText :: TextNode where
  "createText =
     \<lparr>t_fontName = \<lparr>family = ''Inter'', font_style = ''Regular''\<rparr>, t_fontSize = 12,
      t_characters = [], t_fills = None, t_textAlignHorizontal = ''LEFT'',
      t_lineHeight = None, t_letterSpacing = None, t_textDecoration = None,
      t_textAutoResize = WIDTH_AND_HEIGHT, t_resized = None, t_x = 0, t_y = 0,
      t_visible = True, t_rangeFontNames = [], t_rangeFills = []\<rparr>"

definition alignMap :: "(string \<times> string) list" where
  "alignMap = [(''left'', ''LEFT''), (''center'', ''CENTER''), (''right'', ''RIGHT''),
               (''justify'', ''JUSTIFIED'')]"

text \<open>
  \<open>makeText(tx, ty, fixedWidth)\<close>, the closure of \<open>buildTree\<close> over the node and the loaded
  font: a positive \<open>fixedWidth\<close> selects the mode \<open>HEIGHT\<close> with a fixed width, zero the mode
  \<open>WIDTH_AND_HEIGHT\<close>.
\<close>

definition makeText :: "DomNodeData \<Rightarrow> FontName \<Rightarrow> real \<Rightarrow> real \<Rightarrow> real \<Rightarrow> TextNode" where
  "makeText node fontName tx ty fixedWidth =
     (let sty = style node;
          lh = parseFloat (lineHeight sty);
          ls = parseFloat (letterSpacing sty)
      in createText
           \<lparr>t_fontName := fontName,
            t_fontSize := max (fontSize sty) 1,
            t_characters := (case node_text node of Some t \<Rightarrow> t | None \<Rightarrow> []),
            t_fills := (case toSolidPaint (color_css sty) of
                          Some textPaint \<Rightarrow> Some [textPaint]
                        | None \<Rightarrow> None),
            t_textAlignHorizontal := (case map_of alignMap (textAlign sty) of
                                        Some al \<Rightarrow> al
                                      | None \<Rightarrow> ''LEFT''),
            t_lineHeight := (if \<not> js_isNaN lh \<and> js_lt (Num 0) lh \<and> lineHeight sty \<noteq> ''normal''
                             then Some (js_round lh) else None),
            t_letterSpacing := (if \<not> js_isNaN ls \<and> letterSpacing sty \<noteq> ''normal''
                                   \<and> letterSpacing sty \<noteq> ''0px''
                                then Some ls else None),
            t_textDecoration := (if includesStr (textDecoration sty) ''underline''
                                 then Some ''UNDERLINE''
                                 else if includesStr (textDecoration sty) ''line-through''
                                 then Some ''STRIKETHROUGH''
                                 else None),
            t_textAutoResize := (if fixedWidth > 0 then HEIGHT else WIDTH_AND_HEIGHT),
            t_resized := (if fixedWidth > 0 then Some (max fixedWidth 10, 20) else None),
            t_x := tx,
            t_y := ty\<rparr>)"

text \<open>
  \<open>applyBoldSegments\<close>: the loop over the segments with the running offset. Loading the
  bold font may throw.
\<close>

fun segmentsLoop ::
  "FigmaEnv \<Rightarrow> string \<Rightarrow> bool \<Rightarrow> TextSegment list \<Rightarrow> nat \<Rightarrow> TextNode \<Rightarrow> error + TextNode" where
  "segmentsLoop env fam isItalic [] offset t = Inr t"
| "segmentsLoop env fam isItalic (seg # segs) offset t =
     (let len = length (seg_text seg)
      in if len > 0 \<and> offset + len \<le> length (t_characters t) then
           (case (if seg_bold seg = Some True
                  then (case loadBestFont env fam (weightToFigmaStyle ''700'' isItalic) of
                          Inl err \<Rightarrow> Inl err
                        | Inr boldFont \<Rightarrow>
                            Inr (t\<lparr>t_rangeFontNames :=
                                     t_rangeFontNames t @ [(offset, offset + len, boldFont)]\<rparr>))
                  else Inr t) of
              Inl err \<Rightarrow> Inl err
            | Inr t1 \<Rightarrow>
                segmentsLoop env fam isItalic segs (offset + len)
                  (if truthy (seg_color seg)
                   then (case toSolidPaint (the (seg_color seg)) of
                           Some segPaint \<Rightarrow>
                             t1\<lparr>t_rangeFills :=
                                  t_rangeFills t1 @ [(offset, offset + len, [segPaint])]\<rparr>
                         | None \<Rightarrow> t1)
                   else t1))
         else segmentsLoop env fam isItalic segs (offset + len) t)"

definition applyBoldSegments ::
  "FigmaEnv \<Rightarrow> string \<Rightarrow> bool \<Rightarrow> TextSegment list option \<Rightarrow> TextNode \<Rightarrow> error + TextNode" where
  "applyBoldSegments env fam isItalic segs t =
     (case segs of
        None \<Rightarrow> Inr t
      | Some ss \<Rightarrow> segmentsLoop env fam isItalic ss 0 t)"

definition isItalicStyle :: "DomStyleData \<Rightarrow> bool" where
  "isItalicStyle sty = (fontStyle sty = ''italic'' \<or> fontStyle sty = ''oblique'')"

definition hasBorder :: "DomStyleData \<Rightarrow> bool" where
  "hasBorder sty =
     (maxBorderWidth sty > 0 \<and> borderStyle sty \<noteq> ''none'' \<and> \<not> isTransparent (borderColor sty))"

definition hasBg :: "DomStyleData \<Rightarrow> bool" where
  "hasBg sty =
     (\<not> isTransparent (backgroundColor sty)
      \<or> (backgroundImage sty \<noteq> [] \<and> backgroundImage sty \<noteq> ''none''))"

text \<open>\<open>w\<close> and \<open>h\<close>, the size of the node clamped to at least 1.\<close>

definition nodeW :: "DomNodeData \<Rightarrow> real" where
  "nodeW node = max (rect_width (rect node)) 1"

definition nodeH :: "DomNodeData \<Rightarrow> real" where
  "nodeH node = max (rect_height (rect node)) 1"

definition isSingleLine :: "DomNodeData \<Rightarrow> bool" where
  "isSingleLine node = (nodeH node < fontSize (style node) * (7 / 2))"

definition calcFixedWidth :: "DomNodeData \<Rightarrow> real \<Rightarrow> real" where
  "calcFixedWidth node containerW =
     (let estMin = fontSize (style node)
                   * real (case node_text node of Some t \<Rightarrow> length t | None \<Rightarrow> 1)
      in if containerW > estMin * (3 / 2) then containerW else 0)"

text \<open>\<open>/^(block|flex|grid|list-item|table)/\<close>.\<close>

definition isBlockDisplay :: "string \<Rightarrow> bool" where
  "isBlockDisplay d =
     (startsWith d ''block'' \<or> startsWith d ''flex'' \<or> startsWith d ''grid''
      \<or> startsWith d ''list-item'' \<or> startsWith d ''table'')"

definition centerX :: "FigmaEnv \<Rightarrow> real \<Rightarrow> TextNode \<Rightarrow> TextNode" where
  "centerX env w t = t\<lparr>t_x := math_round ((w - textWidth env t) / 2)\<rparr>"

definition centerY :: "FigmaEnv \<Rightarrow> real \<Rightarrow> TextNode \<Rightarrow> TextNode" where
  "centerY env h t = t\<lparr>t_y := math_round ((h - textHeight env t) / 2)\<rparr>"

definition alignVertically :: "FigmaEnv \<Rightarrow> DomNodeData \<Rightarrow> TextNode \<Rightarrow> TextNode" where
  "alignVertically env node t =
     (if includesStr (display (style node)) ''flex'' \<and> alignItems (style node) = ''center''
      then centerY env (nodeH node) t
      else if tagName node = ''button'' \<or> tagName node = ''a''
      then centerY env (nodeH node) t
      else t)"

definition alignHorizontally :: "FigmaEnv \<Rightarrow> DomNodeData \<Rightarrow> TextNode \<Rightarrow> TextNode" where
  "alignHorizontally env node t =
     (if includesStr (display (style node)) ''flex'' \<and> justifyContent (style node) = ''center''
      then centerX env (nodeW node) t
      else if textAlign (style node) = ''center''
      then centerX env (nodeW node) t
      else t)"

text \<open>The text node inside the frame of a boxed text leaf.\<close>

definition boxedText :: "FigmaEnv \<Rightarrow> DomNodeData \<Rightarrow> string \<Rightarrow> FontName \<Rightarrow> error + TextNode" where
  "boxedText env node fam fontName =
     (let sty = style node
      in if isSingleLine node then
           (case applyBoldSegments env fam (isItalicStyle sty) (textSegments node)
                   (makeText node fontName (paddingLeft sty) (paddingTop sty) 0) of
              Inl err \<Rightarrow> Inl err
            | Inr t \<Rightarrow> Inr (alignVertically env node (alignHorizontally env node t)))
         else
           (let textAreaW = max (nodeW node - paddingLeft sty - paddingRight sty) 10
            in case applyBoldSegments env fam (isItalicStyle sty) (textSegments node)
                      (makeText node fontName (paddingLeft sty) (paddingTop sty) textAreaW) of
                 Inl err \<Rightarrow> Inl err
               | Inr t \<Rightarrow> Inr (alignVertically env node t)))"

definition boxFrame :: "DomNodeData \<Rightarrow> FrameNode" where
  "boxFrame node =
     (let frame = applyFrameStyle
                    (createFrame\<lparr>f_name := tagName node, f_width := nodeW node,
                                 f_height := nodeH node, f_x := rect_x (rect node),
                                 f_y := rect_y (rect node)\<rparr>)
                    (style node)
      in if \<not> visible node then frame\<lparr>f_visible := False\<rparr> else frame)"

definition hideText :: "DomNodeData \<Rightarrow> TextNode \<Rightarrow> TextNode" where
  "hideText node t = (if \<not> visible node then t\<lparr>t_visible := False\<rparr> else t)"

text \<open>The text of a plain leaf, by alignment and by the single-line test.\<close>

definition plainText :: "FigmaEnv \<Rightarrow> DomNodeData \<Rightarrow> string \<Rightarrow> FontName \<Rightarrow> error + TextNode" where
  "plainText env node fam fontName =
     (let sty = style node; rc = rect node
      in if textAlign sty = ''center'' \<or> textAlign sty = ''right'' then
           (case applyBoldSegments env fam (isItalicStyle sty) (textSegments node)
                   (makeText node fontName 0 (rect_y rc) 0) of
              Inl err \<Rightarrow> Inl err
            | Inr t \<Rightarrow>
                Inr (hideText node
                  (if textAlign sty = ''center''
                   then t\<lparr>t_x := math_round (rect_x rc + rect_width rc / 2 - textWidth env t / 2)\<rparr>
                   else t\<lparr>t_x := math_round (rect_x rc + rect_width rc - textWidth env t)\<rparr>)))
         else if isSingleLine node then
           (case applyBoldSegments env fam (isItalicStyle sty) (textSegments node)
                   (makeText node fontName (rect_x rc) (rect_y rc) 0) of
              Inl err \<Rightarrow> Inl err
            | Inr t \<Rightarrow> Inr (hideText node t))
         else
           (let fixedW = (if isBlockDisplay (display sty)
                          then calcFixedWidth node (nodeW node) else 0)
            in case applyBoldSegments env fam (isItalicStyle sty) (textSegments node)
                      (makeText node fontName (rect_x rc) (rect_y rc) fixedW) of
                 Inl err \<Rightarrow> Inl err
               | Inr t \<Rightarrow> Inr (hideText node t)))"

text \<open>The branch of \<open>buildTree\<close> for a text leaf (\<open>text && children.length === 0\<close>).\<close>

definition buildTextLeaf ::
  "FigmaEnv \<Rightarrow> DomNodeData \<Rightarrow> BuildState \<Rightarrow> (error + FigNode) \<times> BuildState" where
  "buildTextLeaf env node st =
     (let sty = style node;
          fam = mapFontFamily (fontFamily sty);
          figmaStyle = weightToFigmaStyle (fontWeight sty) (isItalicStyle sty)
      in case loadBestFont env fam figmaStyle of
           Inl err \<Rightarrow> (Inl err, st)
         | Inr fontName \<Rightarrow>
             if hasBorder sty \<or> hasBg sty then
               (case boxedText env node fam fontName of
                  Inl err \<Rightarrow> (Inl err, st)
                | Inr t \<Rightarrow>
                    (Inr (FRAME (boxFrame node) [TEXT t]),
                     st\<lparr>frameCount := frameCount st + 1, textCount := textCount st + 1\<rparr>))
             else
               (case plainText env node fam fontName of
                  Inl err \<Rightarrow> (Inl err, st)
                | Inr t \<Rightarrow> (Inr (TEXT t), st\<lparr>textCount := textCount st + 1\<rparr>)))"

text \<open>
  The branch for \<open>svg\<close>: the vector frame when the markup is there and Figma accepts it
  (the counter of frames is incremented), the grey placeholder rectangle else.
\<close>

definition svgPlaceholder :: "DomNodeData \<Rightarrow> RectangleNode" where
  "svgPlaceholder node =
     createRectangle
       \<lparr>r_name := ''svg-placeholder'', r_width := nodeW node, r_height := nodeH node,
        r_x := rect_x (rect node), r_y := rect_y (rect node),
        r_fills := [SOLID \<lparr>rgb_r = Num (7 / 10), rgb_g = Num (7 / 10), rgb_b = Num (7 / 10)\<rparr>
                      (Some (Num (4 / 10)))],
        r_opacity := (if opacity_css (style node) < 1 then Some (opacity_css (style node))
                      else None),
        r_visible := visible node\<rparr>"

definition svgIcon :: "DomNodeData \<Rightarrow> string \<Rightarrow> real \<times> real \<Rightarrow> SvgNode" where
  "svgIcon node markup sz =
     (let resize = (\<bar>fst sz - nodeW node\<bar> > 1 \<or> \<bar>snd sz - nodeH node\<bar> > 1)
      in \<lparr>s_markup = markup, s_name = ''svg-icon'',
          s_width = (if resize then nodeW node else fst sz),
          s_height = (if resize then nodeH node else snd sz),
          s_x = rect_x (rect node), s_y = rect_y (rect node), s_fills = [],
          s_opacity = (if opacity_css (style node) < 1 then Some (opacity_css (style node))
                       else None),
          s_visible = visible node\<rparr>)"

definition buildSvg ::
  "FigmaEnv \<Rightarrow> DomNodeData \<Rightarrow> BuildState \<Rightarrow> (error + FigNode) \<times> BuildState" where
  "buildSvg env node st =
     (case (if truthy (svgHtml node) then createNodeFromSvg env (the (svgHtml node)) else None) of
        Some sz \<Rightarrow>
          (Inr (SVG (svgIcon node (the (svgHtml node)) sz)),
           st\<lparr>frameCount := frameCount st + 1\<rparr>)
      | None \<Rightarrow> (Inr (RECTANGLE (svgPlaceholder node)), st))"

text \<open>The branch for \<open>img\<close>: always a placeholder rectangle.\<close>

definition buildImg :: "DomNodeData \<Rightarrow> BuildState \<Rightarrow> (error + FigNode) \<times> BuildState" where
  "buildImg node st =
     (Inr (RECTANGLE
        (createRectangle
           \<lparr>r_name := (if truthy (imageUrl node) then ''img'' else ''img (placeholder)''),
            r_width := nodeW node, r_height := nodeH node,
            r_x := rect_x (rect node), r_y := rect_y (rect node),
            r_fills := [SOLID \<lparr>rgb_r = Num (88 / 100), rgb_g = Num (9 / 10),
                                 rgb_b = Num (92 / 100)\<rparr> None],
            r_corners := applyCornerRadius (style node),
            r_visible := visible node\<rparr>)),
      st\<lparr>frameCount := frameCount st + 1\<rparr>)"

text \<open>
  The frame of a container, grown to the extent of its children before the style is
  applied.
\<close>

fun childExtent :: "real \<times> real \<Rightarrow> DomNodeData list \<Rightarrow> real \<times> real" where
  "childExtent (frameW, frameH) [] = (frameW, frameH)"
| "childExtent (frameW, frameH) (child # rest) =
     childExtent
       (max frameW (rect_x (rect child) + rect_width (rect child)),
        max frameH (rect_y (rect child) + rect_height (rect child))) rest"

definition containerFrame :: "DomNodeData \<Rightarrow> FrameNode" where
  "containerFrame node =
     (let ext = childExtent (nodeW node, nodeH node) (children node);
          frame = applyFrameStyle
                    (createFrame\<lparr>f_width := fst ext, f_height := snd ext,
                                 f_x := rect_x (rect node), f_y := rect_y (rect node)\<rparr>)
                    (style node)
      in (if \<not> visible node then frame\<lparr>f_visible := False\<rparr> else frame)
           \<lparr>f_name := tagName node\<rparr>)"

text \<open>
  \<open>buildTree\<close> returns the node it appends to its parent, or the exception it throws. The
  loop over the children of a container catches the exception of a child, writes it to the
  console and goes on with the next child. The handler of the message runs the same loop
  over the children of the root, with a console line of its own; the line is a parameter of
  the loop.
\<close>

fun buildTree ::
      "FigmaEnv \<Rightarrow> DomNodeData \<Rightarrow> BuildState \<Rightarrow> (error + FigNode) \<times> BuildState"
  and buildChildren ::
      "FigmaEnv \<Rightarrow> string \<Rightarrow> DomNodeData list \<Rightarrow> BuildState \<Rightarrow> FigNode list \<times> BuildState" where
  "buildTree env (DomNodeData tag txt segs img svg rc vis sty kids) st =
     (if truthy txt \<and> kids = []
      then buildTextLeaf env (DomNodeData tag txt segs img svg rc vis sty kids) st
      else if tag = ''svg''
      then buildSvg env (DomNodeData tag txt segs img svg rc vis sty kids) st
      else if tag = ''img''
      then buildImg (DomNodeData tag txt segs img svg rc vis sty kids) st
      else
        (case buildChildren env ''[html-importer] buildTree error:'' kids st of
           (built, st1) \<Rightarrow>
             (Inr (FRAME (containerFrame (DomNodeData tag txt segs img svg rc vis sty kids)) built),
              st1\<lparr>frameCount := frameCount st1 + 1\<rparr>)))"
| "buildChildren env line [] st = ([], st)"
| "buildChildren env line (child # rest) st =
     (case buildTree env child st of
        (Inr built, st1) \<Rightarrow>
          (case buildChildren env line rest st1 of (others, st2) \<Rightarrow> (built # others, st2))
      | (Inl err, st1) \<Rightarrow>
          buildChildren env line rest (st1\<lparr>console := console st1 @ [(line, err)]\<rparr>))"

section \<open>The message handler (code.ts)\<close>

datatype MainToUIMessage = ImportDone nat nat | ImportError string

definition emptyState :: BuildState where
  "emptyState = \<lparr>frameCount = 0, textCount = 0, console = []\<rparr>"

definition rootFrame :: "FigmaEnv \<Rightarrow> DomNodeData \<Rightarrow> FrameNode" where
  "rootFrame env data =
     (let frame = applyFrameStyle
                    (createFrame\<lparr>f_name := ''HTML Import'',
                                 f_width := max (rect_width (rect data)) 1,
                                 f_height := max (rect_height (rect data)) 1\<rparr>)
                    (style data)
      in frame\<lparr>f_x := math_round (fst (viewportCenter env) - f_width frame / 2),
               f_y := math_round (snd (viewportCenter env) - f_height frame / 2)\<rparr>)"

text \<open>
  The handler for a message \<open>import-dom\<close>: the counters are reset, the root frame is created
  and the children of the root are built. It returns the reply posted to the UI, the root
  frame on the page and the console. Every call of \<open>buildTree\<close> stands in a
  \<open>try\<close> of its own, and no other statement of the handler throws in this model, so the
  outer \<open>catch\<close> with its reply \<open>import-error\<close> has no path to it.
\<close>

definition onmessage ::
  "FigmaEnv \<Rightarrow> DomNodeData \<Rightarrow> MainToUIMessage \<times> FigNode \<times> (string \<times> error) list" where
  "onmessage env data =
     (case buildChildren env ''[html-importer] child error:'' (children data) emptyState of
        (built, st) \<Rightarrow>
          (ImportDone (frameCount st) (textCount st), FRAME (rootFrame env data) built,
           console st))"

section \<open>The extractor (domSerializer.ts)\<close>

text \<open>
  The rendered document is a tree of nodes. An element carries what the rendering engine
  reports for it: its computed style (a map from property names to strings), its bounding
  rectangle, the computed styles of its pseudo-elements, its form value and placeholder
  attribute, its image source and the markup \<open>serializeSvg\<close> produces for it (that function
  only rewrites markup and is not modelled). For an element with \<open>position: fixed\<close> the
  extractor measures while the inline position is \<open>absolute\<close>; the style and the rectangle
  the engine reports in that state are fields of their own. A text node carries its data and
  the rectangle of a range over it. A computed style of a pseudo-element is \<open>None\<close> when
  \<open>getComputedStyle\<close> throws.
\<close>

type_synonym css = "string \<Rightarrow> string"

record DOMRect =
  dr_left :: real
  dr_top :: real
  dr_width :: real
  dr_height :: real

record ElementData =
  el_tagName :: string
  el_style :: css
  el_rect :: DOMRect
  el_styleAsAbsolute :: css
  el_rectAsAbsolute :: DOMRect
  el_before :: "css option"
  el_after :: "css option"
  el_placeholderStyle :: "css option"
  el_value :: "string option"
  el_placeholder :: "string option"
  el_src :: string
  el_svg :: string

datatype DomNode =
    DomElement ElementData "DomNode list"
  | DomText string DOMRect
  | DomOther

text \<open>
  The pixel a 1 by 1 canvas holds after it was cleared and filled with a colour string
  (red, green, blue, alpha, each below 256); \<open>None\<close> when the canvas throws.
\<close>

record DomEnv =
  canvasPixel :: "string \<Rightarrow> (nat \<times> nat \<times> nat \<times> nat) option"

definition SKIP_TAGS :: "string list" where
  "SKIP_TAGS = [''script'', ''style'', ''meta'', ''link'', ''head'', ''noscript'',
                ''br'', ''template'', ''canvas'', ''video'', ''audio'']"

definition INLINE_TEXT_TAGS :: "string list" where
  "INLINE_TEXT_TAGS = [''strong'', ''em'', ''b'', ''i'', ''a'', ''span'', ''small'', ''mark'',
                       ''sub'', ''sup'', ''abbr'', ''cite'', ''code'', ''kbd'', ''label'',
                       ''time'', ''u'', ''s'', ''del'', ''ins'']"

text \<open>
  \<open>pf\<close>: \<open>parseFloat\<close> with NaN replaced by 0. A computed length is finite; the two
  infinities, which no computed length denotes, are mapped like NaN.
\<close>

definition pf :: "string \<Rightarrow> real" where
  "pf val = (case parseFloat val of Num n \<Rightarrow> n | _ \<Rightarrow> 0)"

subsection \<open>normalizeCssColor\<close>

fun showNat :: "nat \<Rightarrow> string" where
  "showNat n = (if n < 10 then [''0123456789'' ! n]
                else showNat (n div 10) @ [''0123456789'' ! (n mod 10)])"

text \<open>
  \<open>+(a / 255).toFixed(3)\<close> in a template string, for an alpha byte from 1 to 254: the
  thousandths nearest to \<open>a / 255\<close> (no such quotient lies half-way between two of them),
  printed without trailing zeros.
\<close>

definition showAlpha :: "nat \<Rightarrow> string" where
  "showAlpha a =
     (let k = (a * 2000 + 255) div 510;
          ds = [''0123456789'' ! (k div 100), ''0123456789'' ! ((k div 10) mod 10),
                ''0123456789'' ! (k mod 10)]
      in ''0.'' @ rev (dropWhile (\<lambda>c. c = CHR ''0'') (rev ds)))"

text \<open>\<open>/^rgba?\(\s*\d+\s*,/\<close>.\<close>

definition isLegacyColor :: "string \<Rightarrow> bool" where
  "isLegacyColor css =
     (case rgbOpen css of
        None \<Rightarrow> False
      | Some s \<Rightarrow> takeWhile isDigit (ws0 s) \<noteq> []
                  \<and> expectCh (CHR '','') (ws0 (dropWhile isDigit (ws0 s))) \<noteq> None)"

definition normalizeCssColor :: "DomEnv \<Rightarrow> string \<Rightarrow> string" where
  "normalizeCssColor env css =
     (if css = [] \<or> css = ''transparent'' \<or> css = ''none'' then css
      else if isLegacyColor css then css
      else
        (case canvasPixel env css of
           None \<Rightarrow> css
         | Some (r, g, b, a) \<Rightarrow>
             if a = 0 then ''transparent''
             else if a = 255
             then ''rgb('' @ showNat r @ '', '' @ showNat g @ '', '' @ showNat b @ '')''
             else ''rgba('' @ showNat r @ '', '' @ showNat g @ '', '' @ showNat b @ '', ''
                  @ showAlpha a @ '')''))"

fun firstOpaque :: "DomEnv \<Rightarrow> string list \<Rightarrow> string option" where
  "firstOpaque env [] = None"
| "firstOpaque env (v # vs) =
     (let n = normalizeCssColor env v
      in if n \<noteq> [] \<and> n \<noteq> ''transparent'' then Some n else firstOpaque env vs)"

definition effectiveBorderColor :: "DomEnv \<Rightarrow> css \<Rightarrow> string" where
  "effectiveBorderColor env cs =
     (case firstOpaque env [cs ''borderTopColor'', cs ''borderRightColor'',
                            cs ''borderBottomColor'', cs ''borderLeftColor''] of
        Some n \<Rightarrow> n
      | None \<Rightarrow> normalizeCssColor env (cs ''borderColor''))"

definition effectiveBorderStyle :: "css \<Rightarrow> string" where
  "effectiveBorderStyle cs =
     (case filter (\<lambda>v. v \<noteq> [] \<and> v \<noteq> ''none'')
             [cs ''borderTopStyle'', cs ''borderRightStyle'', cs ''borderBottomStyle'',
              cs ''borderLeftStyle''] of
        v # _ \<Rightarrow> v
      | [] \<Rightarrow> cs ''borderStyle'')"

text \<open>\<open>pf(v) || d\<close>.\<close>

definition pfOr :: "string \<Rightarrow> real \<Rightarrow> real" where
  "pfOr val d = (if pf val = 0 then d else pf val)"

definition extractStyle :: "DomEnv \<Rightarrow> css \<Rightarrow> DomStyleData" where
  "extractStyle env cs =
     \<lparr>backgroundColor = normalizeCssColor env (cs ''backgroundColor''),
      backgroundImage = cs ''backgroundImage'',
      color_css = normalizeCssColor env (cs ''color''),
      fontSize = pfOr (cs ''fontSize'') 14,
      fontWeight = cs ''fontWeight'',
      fontFamily = cs ''fontFamily'',
      fontStyle = cs ''fontStyle'',
      lineHeight = cs ''lineHeight'',
      textAlign = cs ''textAlign'',
      letterSpacing = cs ''letterSpacing'',
      textDecoration = cs ''textDecoration'',
      borderTopLeftRadius = pf (cs ''borderTopLeftRadius''),
      borderTopRightRadius = pf (cs ''borderTopRightRadius''),
      borderBottomRightRadius = pf (cs ''borderBottomRightRadius''),
      borderBottomLeftRadius = pf (cs ''borderBottomLeftRadius''),
      borderTopWidth = pf (cs ''borderTopWidth''),
      borderRightWidth = pf (cs ''borderRightWidth''),
      borderBottomWidth = pf (cs ''borderBottomWidth''),
      borderLeftWidth = pf (cs ''borderLeftWidth''),
      borderColor = effectiveBorderColor env cs,
      borderStyle = effectiveBorderStyle cs,
      opacity_css = pfOr (cs ''opacity'') 1,
      boxShadow = cs ''boxShadow'',
      overflow = cs ''overflow'',
      display = cs ''display'',
      flexDirection = cs ''flexDirection'',
      alignItems = cs ''alignItems'',
      justifyContent = cs ''justifyContent'',
      rowGap = pf (cs ''rowGap''),
      columnGap = pf (cs ''columnGap''),
      paddingTop = pf (cs ''paddingTop''),
      paddingRight = pf (cs ''paddingRight''),
      paddingBottom = pf (cs ''paddingBottom''),
      paddingLeft = pf (cs ''paddingLeft''),
      position_css = cs ''position''\<rparr>"

text \<open>
  The style of a synthetic \<open>#text\<close> child: the style of the element without background,
  border and padding.
\<close>

definition textStyle :: "DomEnv \<Rightarrow> css \<Rightarrow> DomStyleData" where
  "textStyle env cs =
     (extractStyle env cs)
       \<lparr>backgroundColor := ''transparent'',
        backgroundImage := [],
        borderTopWidth := 0,
        borderRightWidth := 0,
        borderBottomWidth := 0,
        borderLeftWidth := 0,
        borderColor := ''transparent'',
        borderStyle := ''none'',
        paddingTop := 0,
        paddingRight := 0,
        paddingBottom := 0,
        paddingLeft := 0\<rparr>"

subsection \<open>extractPseudoElement\<close>

text \<open>\<open>/^"(.*)"$/\<close>: group 1, between the first and the last quote, holds no line
  terminator.\<close>

definition quotedContent :: "string \<Rightarrow> string option" where
  "quotedContent content =
     (case content of
        [] \<Rightarrow> None
      | q # r \<Rightarrow>
          (case rev r of
             [] \<Rightarrow> None
           | q' # m \<Rightarrow>
               if q = CHR 0x22 \<and> q' = CHR 0x22 \<and> \<not> list_ex isLineTerminator m
               then Some (rev m) else None))"

definition extractPseudoElement ::
  "DomEnv \<Rightarrow> css \<Rightarrow> css option \<Rightarrow> string \<Rightarrow> DomNodeData option" where
  "extractPseudoElement env elCs pseudoCs pseudo =
     (case pseudoCs of
        None \<Rightarrow> None
      | Some pcs \<Rightarrow>
          (let content = pcs ''content'';
               w = pf (pcs ''width'');
               h = pf (pcs ''height'');
               positioned = (pcs ''position'' = ''absolute'' \<or> pcs ''position'' = ''fixed'');
               x = (if positioned
                    then pf (elCs ''borderLeftWidth'')
                         + (if pcs ''left'' \<noteq> ''auto'' then pf (pcs ''left'') else 0)
                    else 0);
               y = (if positioned
                    then pf (elCs ''borderTopWidth'')
                         + (if pcs ''top'' \<noteq> ''auto'' then pf (pcs ''top'') else 0)
                    else 0)
           in if content = [] \<or> content = ''none'' \<or> content = ''normal'' then None
              else if pcs ''display'' = ''none'' then None
              else if w < 1 \<or> h < 1 then None
              else Some (DomNodeData pseudo
                     (case quotedContent content of
                        None \<Rightarrow> None
                      | Some t \<Rightarrow> if t \<noteq> [] then Some t else None)
                     None None None
                     \<lparr>rect_x = math_round x, rect_y = math_round y,
                      rect_width = math_round w, rect_height = math_round h\<rparr>
                     True (extractStyle env pcs) [])))"


subsection \<open>serializeDom\<close>

definition tagOf :: "ElementData \<Rightarrow> string" where
  "tagOf el = toLowerCase (el_tagName el)"

text \<open>\<open>node.textContent\<close>: the data of a text node, the text of all descendants of an
  element.\<close>

fun textContent :: "DomNode \<Rightarrow> string" where
  "textContent (DomText d tr) = d"
| "textContent (DomElement el kids) = concat (map textContent kids)"
| "textContent DomOther = []"

definition isKeptElement :: "DomNode \<Rightarrow> bool" where
  "isKeptElement n = (case n of DomElement e ks \<Rightarrow> tagOf e \<notin> set SKIP_TAGS | _ \<Rightarrow> False)"

definition elementChildren :: "DomNode list \<Rightarrow> DomNode list" where
  "elementChildren kids = filter isKeptElement kids"

definition hasSignificantTextNodes :: "DomNode list \<Rightarrow> bool" where
  "hasSignificantTextNodes kids =
     list_ex (\<lambda>n. case n of DomText d tr \<Rightarrow> trim d \<noteq> [] | _ \<Rightarrow> False) kids"

definition hasBr :: "DomNode list \<Rightarrow> bool" where
  "hasBr kids = list_ex (\<lambda>n. case n of DomElement e ks \<Rightarrow> tagOf e = ''br'' | _ \<Rightarrow> False) kids"

definition isInlineTextElement :: "DomNode \<Rightarrow> bool" where
  "isInlineTextElement n =
     (case n of DomElement e ks \<Rightarrow> tagOf e \<in> set INLINE_TEXT_TAGS | _ \<Rightarrow> False)"

definition extractTextSegments :: "DomNode list \<Rightarrow> TextSegment list" where
  "extractTextSegments kids =
     concat (map (\<lambda>n. case n of
                         DomText d tr \<Rightarrow>
                           if d \<noteq> [] then [\<lparr>seg_text = d, seg_bold = None, seg_color = None\<rparr>]
                           else []
                       | DomElement e ks \<Rightarrow>
                           (let isBold = (case parseInt (el_style e ''fontWeight'') of
                                            Some w \<Rightarrow> w \<ge> 700
                                          | None \<Rightarrow> False);
                                childText = textContent n
                            in if childText \<noteq> []
                               then [\<lparr>seg_text = childText,
                                      seg_bold = (if isBold then Some True else None),
                                      seg_color = None\<rparr>]
                               else [])
                       | DomOther \<Rightarrow> []) kids)"

text \<open>
  The text of the element and its segments: a leaf without element children
  and without a line break, or mixed content whose element children are all inline.
\<close>

definition mergedText ::
  "ElementData \<Rightarrow> DomNode list \<Rightarrow> string option \<times> TextSegment list option" where
  "mergedText el kids =
     (let t = trim (textContent (DomElement el kids))
      in if elementChildren kids = [] \<and> \<not> hasBr kids then
           (if t \<noteq> [] then (Some t, None) else (None, None))
         else if hasSignificantTextNodes kids then
           (if list_all isInlineTextElement (elementChildren kids) \<and> \<not> hasBr kids
            then (if t \<noteq> [] then (Some t, Some (extractTextSegments kids)) else (None, None))
            else (None, None))
         else (None, None))"

text \<open>A form control without text takes its value, or else its placeholder.\<close>

definition formText :: "string \<Rightarrow> ElementData \<Rightarrow> string option \<Rightarrow> string option \<times> bool" where
  "formText tag el txt =
     (if \<not> truthy txt \<and> (tag = ''input'' \<or> tag = ''textarea'' \<or> tag = ''select'') then
        (let val = map_option trim (el_value el);
             ph = map_option trim (el_placeholder el)
         in if truthy val then (val, False)
            else if truthy ph then (ph, True)
            else (txt, False))
      else (txt, False))"

definition relativeRect :: "DOMRect \<Rightarrow> DOMRect \<Rightarrow> Rect" where
  "relativeRect r parentRect =
     \<lparr>rect_x = math_round (dr_left r - dr_left parentRect),
      rect_y = math_round (dr_top r - dr_top parentRect),
      rect_width = math_round (dr_width r),
      rect_height = math_round (dr_height r)\<rparr>"

text \<open>A significant text node of mixed content, measured by a range, as a child \<open>#text\<close>.\<close>

definition textChild :: "DomEnv \<Rightarrow> css \<Rightarrow> DOMRect \<Rightarrow> string \<Rightarrow> DOMRect \<Rightarrow> DomNodeData list" where
  "textChild env cs r d textRect =
     (if trim d = [] then []
      else if dr_width textRect < 1 \<or> dr_height textRect < 1 then []
      else [DomNodeData ''#text'' (Some (trim d)) None None None
              (relativeRect textRect r) True (textStyle env cs) []])"

definition svgNode :: "DomEnv \<Rightarrow> ElementData \<Rightarrow> DOMRect \<Rightarrow> DOMRect \<Rightarrow> DomNodeData" where
  "svgNode env el r parentRect =
     DomNodeData ''svg'' None None None (Some (el_svg el)) (relativeRect r parentRect) True
       (extractStyle env (el_style el)) []"

definition withPseudo ::
  "DomEnv \<Rightarrow> ElementData \<Rightarrow> css \<Rightarrow> DomNodeData list \<Rightarrow> DomNodeData list" where
  "withPseudo env el cs kids =
     (case extractPseudoElement env cs (el_before el) ''::before'' of
        Some pseudoBefore \<Rightarrow> [pseudoBefore]
      | None \<Rightarrow> [])
     @ kids
     @ (case extractPseudoElement env cs (el_after el) ''::after'' of
          Some pseudoAfter \<Rightarrow> [pseudoAfter]
        | None \<Rightarrow> [])"

text \<open>
  When the text and children coexist, the text becomes a last child \<open>#text\<close> inside the
  padding box and the text of the element is cleared.
\<close>

definition demotedChild ::
  "DomEnv \<Rightarrow> css \<Rightarrow> DOMRect \<Rightarrow> string option \<Rightarrow> TextSegment list option \<Rightarrow> DomNodeData" where
  "demotedChild env cs r txt segs =
     (let pl = pf (cs ''paddingLeft''); pt = pf (cs ''paddingTop'')
      in DomNodeData ''#text'' txt segs None None
           \<lparr>rect_x = math_round pl,
            rect_y = math_round pt,
            rect_width = math_round (dr_width r - pl - pf (cs ''paddingRight'')),
            rect_height = math_round (dr_height r - pt - pf (cs ''paddingBottom''))\<rparr>
           True (textStyle env cs) [])"

definition demoteText ::
  "DomEnv \<Rightarrow> css \<Rightarrow> DOMRect \<Rightarrow> string option \<Rightarrow> TextSegment list option \<Rightarrow> DomNodeData list
     \<Rightarrow> string option \<times> TextSegment list option \<times> DomNodeData list" where
  "demoteText env cs r txt segs kids =
     (if truthy txt \<and> kids \<noteq> []
      then (None, None, kids @ [demotedChild env cs r txt segs])
      else (txt, segs, kids))"

definition nodeStyle :: "DomEnv \<Rightarrow> ElementData \<Rightarrow> css \<Rightarrow> bool \<Rightarrow> DomStyleData" where
  "nodeStyle env el cs isPlaceholder =
     (if isPlaceholder then
        (case el_placeholderStyle el of
           None \<Rightarrow> extractStyle env cs
         | Some phCs \<Rightarrow>
             (let phColor = normalizeCssColor env (phCs ''color'')
              in if phColor \<noteq> [] \<and> phColor \<noteq> ''transparent''
                 then (extractStyle env cs)\<lparr>color_css := phColor\<rparr>
                 else extractStyle env cs))
      else extractStyle env cs)"

text \<open>The end of \<open>serializeDom\<close>, from the pseudo-elements to the returned node.\<close>

definition finishNode ::
  "DomEnv \<Rightarrow> ElementData \<Rightarrow> string \<Rightarrow> css \<Rightarrow> DOMRect \<Rightarrow> DOMRect \<Rightarrow> string option
     \<Rightarrow> TextSegment list option \<Rightarrow> bool \<Rightarrow> DomNodeData list \<Rightarrow> DomNodeData" where
  "finishNode env el tag cs r parentRect txt segs isPlaceholder kids =
     (case demoteText env cs r txt segs (withPseudo env el cs kids) of
        (txt', segs', kids') \<Rightarrow>
          DomNodeData tag txt' segs'
            (if tag = ''img'' \<and> el_src el \<noteq> [] then Some (el_src el) else None)
            None (relativeRect r parentRect)
            (el_style el ''visibility'' \<noteq> ''hidden'')
            (nodeStyle env el cs isPlaceholder) kids')"

text \<open>
  An element that is \<open>fixed\<close> and not the root is measured while its inline position is
  \<open>absolute\<close> (\<open>fixedConverted\<close>); the position is restored before \<open>serializeDom\<close> returns.
  These are the rectangle and the computed style the function works with after that step.
\<close>

definition fixedConverted :: "ElementData \<Rightarrow> bool \<Rightarrow> bool" where
  "fixedConverted el isRoot = (\<not> isRoot \<and> el_style el ''position'' = ''fixed'')"

definition measuredRect :: "ElementData \<Rightarrow> bool \<Rightarrow> DOMRect" where
  "measuredRect el isRoot =
     (if fixedConverted el isRoot then el_rectAsAbsolute el else el_rect el)"

definition measuredStyle :: "ElementData \<Rightarrow> bool \<Rightarrow> css" where
  "measuredStyle el isRoot =
     (if fixedConverted el isRoot then el_styleAsAbsolute el else el_style el)"

text \<open>
  \<open>serializeDom(el, parentRect, isRoot)\<close>. The children are serialized only when the
  element has no text of its own: node by node for mixed content or with a line break, the
  element children else.
\<close>

fun serializeDom :: "DomEnv \<Rightarrow> DomNode \<Rightarrow> DOMRect \<Rightarrow> bool \<Rightarrow> DomNodeData option" where
  "serializeDom env (DomElement el kids) parentRect isRoot =
     (if tagOf el \<in> set SKIP_TAGS then None
      else if el_style el ''display'' = ''none'' then None
      else if el_style el ''visibility'' = ''hidden'' then None
      else if dr_width (measuredRect el isRoot) < 1 \<or> dr_height (measuredRect el isRoot) < 1
      then None
      else if tagOf el = ''svg''
      then Some (svgNode env el (measuredRect el isRoot) parentRect)
      else
        (let r = measuredRect el isRoot;
             cs = measuredStyle el isRoot;
             merged = mergedText el kids;
             form = formText (tagOf el) el (fst merged);
             kidsData =
               (if truthy (fst form) then []
                else if hasSignificantTextNodes kids
                        \<and> (elementChildren kids \<noteq> [] \<or> hasBr kids)
                then concat (map (\<lambda>n. case n of
                                         DomText d textRect \<Rightarrow> textChild env cs r d textRect
                                       | DomElement e ks \<Rightarrow>
                                           if tagOf e \<in> set SKIP_TAGS then []
                                           else (case serializeDom env n r False of
                                                   Some childData \<Rightarrow> [childData]
                                                 | None \<Rightarrow> [])
                                       | DomOther \<Rightarrow> []) kids)
                else concat (map (\<lambda>n. if isKeptElement n
                                       then (case serializeDom env n r False of
                                               Some childData \<Rightarrow> [childData]
                                             | None \<Rightarrow> [])
                                       else []) kids))
         in Some (finishNode env el (tagOf el) cs r parentRect (fst form) (snd merged)
                    (snd form) kidsData)))"
| "serializeDom env (DomText d textRect) parentRect isRoot = None"
| "serializeDom env DomOther parentRect isRoot = None"


section \<open>Notions of the statements\<close>

text \<open>A text leaf is a node with a text and without children; it is boxed when it has a
  border or a background.\<close>

definition isTextLeaf :: "DomNodeData \<Rightarrow> bool" where
  "isTextLeaf node = (truthy (node_text node) \<and> children node = [])"

definition isBoxedLeaf :: "DomNodeData \<Rightarrow> bool" where
  "isBoxedLeaf node = (isTextLeaf node \<and> (hasBorder (style node) \<or> hasBg (style node)))"

text \<open>
  The nodes \<open>buildTree\<close> is called on when it is called on a node, in the order of the
  calls: the node itself and, for a container, what its children bring.
\<close>

fun traversed :: "DomNodeData \<Rightarrow> DomNodeData list" where
  "traversed (DomNodeData tag txt segs img svg rc vis sty kids) =
     DomNodeData tag txt segs img svg rc vis sty kids
     # (if (truthy txt \<and> kids = []) \<or> tag = ''svg'' \<or> tag = ''img'' then []
        else concat (map traversed kids))"

definition traversedAll :: "DomNodeData list \<Rightarrow> DomNodeData list" where
  "traversedAll nodes = concat (map traversed nodes)"

text \<open>A node that takes the branch for \<open>svg\<close> ends in the placeholder when it has no
  markup or Figma rejects the markup.\<close>

definition svgFallsBack :: "FigmaEnv \<Rightarrow> DomNodeData \<Rightarrow> bool" where
  "svgFallsBack env node =
     (if isTextLeaf node \<or> tagName node \<noteq> ''svg'' then False
      else if truthy (svgHtml node) then createNodeFromSvg env (the (svgHtml node)) = None
      else True)"

text \<open>The text node of what a text leaf becomes: the node itself, or the one child of its
  frame.\<close>

fun leafText :: "FigNode \<Rightarrow> TextNode option" where
  "leafText (TEXT t) = Some t"
| "leafText (FRAME f [TEXT t]) = Some t"
| "leafText _ = None"

text \<open>
  The point \<open>[x, y]\<close> under a transform \<open>[[a, b, tx], [c, d, ty]]\<close>. The comment in
  \<open>parseLinearGradient\<close> reads the image of \<open>[0, 0]\<close> as the place of the stop at 0% and
  the image of \<open>[1, 0]\<close> as the place of the stop at 100%.
\<close>

definition transformPoint :: "Transform \<Rightarrow> real \<times> real \<Rightarrow> jsnum \<times> jsnum" where
  "transformPoint tr pt =
     (case tr of
        ((a, b, tx), (c, d, ty)) \<Rightarrow>
          (js_add (js_add (js_mul a (Num (fst pt))) (js_mul b (Num (snd pt)))) tx,
           js_add (js_add (js_mul c (Num (fst pt))) (js_mul d (Num (snd pt)))) ty))"

text \<open>No node of the tree has both a text and children.\<close>

fun textXorChildren :: "DomNodeData \<Rightarrow> bool" where
  "textXorChildren (DomNodeData tag txt segs img svg rc vis sty kids) =
     (\<not> (truthy txt \<and> kids \<noteq> []) \<and> list_all textXorChildren kids)"

text \<open>The text an element has of its own, before its children are looked at.\<close>

definition ownText :: "ElementData \<Rightarrow> DomNode list \<Rightarrow> string option" where
  "ownText el kids = fst (formText (tagOf el) el (fst (mergedText el kids)))"

text \<open>
  A button of 100 by 40 pixels at (10, 20) with the text \<open>OK\<close>, a padding of 4 and 12 pixels
  and a pseudo-element \<open>::before\<close> of 8 by 8 pixels; the container it is measured against.
\<close>

definition buttonStyle :: css where
  "buttonStyle =
     (\<lambda>property. [])
       (''display'' := ''inline-block'', ''visibility'' := ''visible'',
        ''position'' := ''relative'', ''backgroundColor'' := ''rgb(0, 0, 255)'',
        ''color'' := ''rgb(255, 255, 255)'', ''fontSize'' := ''16px'',
        ''paddingTop'' := ''4px'', ''paddingRight'' := ''12px'',
        ''paddingBottom'' := ''4px'', ''paddingLeft'' := ''12px'')"

definition dotStyle :: css where
  "dotStyle =
     (\<lambda>property. [])
       (''content'' := ''url(dot.png)'', ''display'' := ''block'', ''width'' := ''8px'',
        ''height'' := ''8px'', ''position'' := ''absolute'', ''left'' := ''2px'',
        ''top'' := ''auto'', ''backgroundColor'' := ''rgb(255, 0, 0)'')"

definition okButtonData :: ElementData where
  "okButtonData =
     \<lparr>el_tagName = ''BUTTON'', el_style = buttonStyle,
      el_rect = \<lparr>dr_left = 10, dr_top = 20, dr_width = 100, dr_height = 40\<rparr>,
      el_styleAsAbsolute = buttonStyle,
      el_rectAsAbsolute = \<lparr>dr_left = 10, dr_top = 20, dr_width = 100, dr_height = 40\<rparr>,
      el_before = Some dotStyle, el_after = None, el_placeholderStyle = None,
      el_value = None, el_placeholder = None, el_src = [], el_svg = []\<rparr>"

definition okButtonText :: "DomNode list" where
  "okButtonText =
     [DomText ''  OK '' \<lparr>dr_left = 22, dr_top = 24, dr_width = 20, dr_height = 18\<rparr>]"

definition okButton :: DomNode where
  "okButton = DomElement okButtonData okButtonText"

definition pageRect :: DOMRect where
  "pageRect = \<lparr>dr_left = 0, dr_top = 0, dr_width = 400, dr_height = 300\<rparr>"

definition directCanvas :: DomEnv where
  "directCanvas = \<lparr>canvasPixel = (\<lambda>colour. None)\<rparr>"

text \<open>The counters and the console of one state added to those of another.\<close>

definition shift :: "BuildState \<Rightarrow> BuildState \<Rightarrow> BuildState" where
  "shift st d =
     \<lparr>frameCount = frameCount st + frameCount d, textCount = textCount st + textCount d,
      console = console st @ console d\<rparr>"

text \<open>A style without background, border and padding, for the examples.\<close>

definition plainStyle :: DomStyleData where
  "plainStyle =
     \<lparr>backgroundColor = ''rgba(0, 0, 0, 0)'', backgroundImage = ''none'',
      color_css = ''rgb(0, 0, 0)'', fontSize = 16, fontWeight = ''400'',
      fontFamily = ''Inter, sans-serif'', fontStyle = ''normal'', lineHeight = ''24px'',
      textAlign = ''start'', letterSpacing = ''normal'', textDecoration = ''none'',
      borderTopLeftRadius = 0, borderTopRightRadius = 0, borderBottomRightRadius = 0,
      borderBottomLeftRadius = 0, borderTopWidth = 0, borderRightWidth = 0,
      borderBottomWidth = 0, borderLeftWidth = 0, borderColor = ''rgb(0, 0, 0)'',
      borderStyle = ''none'', opacity_css = 1, boxShadow = ''none'', overflow = ''visible'',
      display = ''block'', flexDirection = ''row'', alignItems = ''normal'',
      justifyContent = ''normal'', rowGap = 0, columnGap = 0, paddingTop = 0,
      paddingRight = 0, paddingBottom = 0, paddingLeft = 0, position_css = ''static''\<rparr>"

text \<open>
  An environment for the examples: the fonts that load are a parameter, a text measures 40
  by 20, and every markup but the empty one is accepted as a vector of 24 by 24.
\<close>

definition sampleEnv :: "(FontName \<Rightarrow> bool) \<Rightarrow> FigmaEnv" where
  "sampleEnv fonts =
     \<lparr>loadFontAsync = fonts, textWidth = (\<lambda>t. 40), textHeight = (\<lambda>t. 20),
      createNodeFromSvg = (\<lambda>markup. if markup = [] then None else Some (24, 24)),
      viewportCenter = (0, 0)\<rparr>"

definition allFonts :: "FontName \<Rightarrow> bool" where
  "allFonts fn = True"

definition noFonts :: "FontName \<Rightarrow> bool" where
  "noFonts fn = False"

text \<open>A leaf of 100 pixels by the given height, and a container of 200 by 100.\<close>

definition leafNode :: "string \<Rightarrow> string option \<Rightarrow> DomStyleData \<Rightarrow> real \<Rightarrow> DomNodeData" where
  "leafNode tag txt sty h =
     DomNodeData tag txt None None None
       \<lparr>rect_x = 0, rect_y = 0, rect_width = 100, rect_height = h\<rparr> True sty []"

definition boxNode :: "string \<Rightarrow> DomNodeData list \<Rightarrow> DomNodeData" where
  "boxNode tag kids =
     DomNodeData tag None None None None
       \<lparr>rect_x = 0, rect_y = 0, rect_width = 200, rect_height = 100\<rparr> True plainStyle kids"

text \<open>
  A text leaf throws when its branch of \<open>buildTree\<close> ends in an exception (which does not
  depend on the counters). The nodes of a list that are built are those that do not throw.
\<close>

definition leafThrows :: "FigmaEnv \<Rightarrow> DomNodeData \<Rightarrow> bool" where
  "leafThrows env node = (isTextLeaf node \<and> isl (fst (buildTextLeaf env node emptyState)))"

definition builtNodes :: "FigmaEnv \<Rightarrow> DomNodeData list \<Rightarrow> DomNodeData list" where
  "builtNodes env nodes = filter (\<lambda>n. \<not> leafThrows env n) nodes"

definition thrownNodes :: "FigmaEnv \<Rightarrow> DomNodeData list \<Rightarrow> DomNodeData list" where
  "thrownNodes env nodes = filter (leafThrows env) nodes"

text \<open>
  The canvas node \<open>buildTree\<close> appends for a node that does not throw, when the node is
  built on its own.
\<close>

definition builtNode :: "FigmaEnv \<Rightarrow> DomNodeData \<Rightarrow> FigNode" where
  "builtNode env node = projr (fst (buildTree env node emptyState))"

text \<open>
  What one round of the loop over the children adds to the state: the line of the console
  for a child that throws, and else what the child adds when it is built on its own.
\<close>

definition childEffect :: "FigmaEnv \<Rightarrow> string \<Rightarrow> DomNodeData \<Rightarrow> BuildState" where
  "childEffect env line child =
     (if leafThrows env child
      then \<lparr>frameCount = 0, textCount = 0, console = [(line, CannotLoadAnyFont)]\<rparr>
      else snd (buildTree env child emptyState))"

text \<open>The counters a traversal is to reach: a frame for every node that is no text leaf and
  for every boxed text leaf, a text for every text leaf.\<close>

definition countedFrames :: "DomNodeData list \<Rightarrow> nat" where
  "countedFrames nodes =
     length (filter (\<lambda>n. \<not> isTextLeaf n) nodes) + length (filter isBoxedLeaf nodes)"

definition countedTexts :: "DomNodeData list \<Rightarrow> nat" where
  "countedTexts nodes = length (filter isTextLeaf nodes)"

text \<open>What a traversal of a list of nodes adds to the state of the builder.\<close>

definition tally :: "FigmaEnv \<Rightarrow> DomNodeData list \<Rightarrow> BuildState \<Rightarrow> BuildState \<Rightarrow> bool" where
  "tally env nodes st st' =
     (frameCount st' = frameCount st + countedFrames (builtNodes env nodes)
      \<and> textCount st' = textCount st + countedTexts (builtNodes env nodes)
      \<and> length (console st') = length (console st) + length (thrownNodes env nodes))"

text \<open>
  Examples: a paragraph, a button with a blue background, an image and a vector; a page
  with the button as its only node below the root; a page of five nodes below the root.
\<close>

definition helloParagraph :: "real \<Rightarrow> DomNodeData" where
  "helloParagraph h = leafNode ''p'' (Some ''Hello'') plainStyle h"

definition blueButton :: DomNodeData where
  "blueButton = leafNode ''button'' (Some ''OK'')
                  (plainStyle\<lparr>backgroundColor := ''rgb(0, 0, 255)''\<rparr>) 20"

text \<open>The button at a given height, and a paragraph with a short text.\<close>

definition tallButton :: "real \<Rightarrow> DomNodeData" where
  "tallButton h = leafNode ''button'' (Some ''OK'')
                    (plainStyle\<lparr>backgroundColor := ''rgb(0, 0, 255)''\<rparr>) h"

definition shortParagraph :: "real \<Rightarrow> DomNodeData" where
  "shortParagraph h = leafNode ''p'' (Some ''Hi'') plainStyle h"

definition oklchBadge :: DomNodeData where
  "oklchBadge = leafNode ''span'' (Some ''New'')
                  (plainStyle\<lparr>backgroundColor := ''oklch(0.6 0.2 30)'',
                              backgroundImage := []\<rparr>) 20"

definition sampleImage :: DomNodeData where
  "sampleImage = leafNode ''img'' None plainStyle 50"

definition sampleVector :: "string option \<Rightarrow> DomNodeData" where
  "sampleVector markup =
     DomNodeData ''svg'' None None None markup
       \<lparr>rect_x = 0, rect_y = 0, rect_width = 24, rect_height = 24\<rparr> True plainStyle []"

definition buttonPage :: DomNodeData where
  "buttonPage = boxNode ''div'' [blueButton]"

definition mixedPage :: DomNodeData where
  "mixedPage =
     boxNode ''div''
       [helloParagraph 20, blueButton, boxNode ''section'' [sampleImage, sampleVector (Some ''<svg></svg>'')]]"

text \<open>
  A page whose first child is a section with a paragraph and an image, followed by a
  paragraph and a vector.
\<close>

definition nestedPage :: DomNodeData where
  "nestedPage =
     boxNode ''div''
       [boxNode ''section'' [helloParagraph 20, sampleImage], helloParagraph 20,
        sampleVector (Some ''<svg></svg>'')]"

section \<open>Verification\<close>

subsection \<open>Evaluation of the string functions\<close>

lemmas char_defs = isSpace_def isDigit_def isNumCh_def hexTable_def isHexDigit_def hexVal_def
  digitVal_def caseTable_def lowerChar_def toLowerCase_def asciiLower_def isLineTerminator_def

lemmas string_defs = trimStart_def trim_def startsWith_def endsWith_def

lemmas number_defs = decimalValue_def hexValue_def exponentPart_def scale10_def parseFloat_def
  parseInt_def parseInt16_def int_to_jsnum_def signed_inf_def

lemmas colour_defs = expectCh_def ws0_def ws1_def numTok_def numPctTok_def closeParenEnd_def
  rgbOpen_def matchLegacy_def matchSpaced_def matchModern_def matchSrgb_def alphaOf_def
  parseColor_def

lemma js_le_not_lt: "js_le x y \<Longrightarrow> \<not> js_lt y x"
  by (cases x; cases y) auto

subsection \<open>The alpha threshold of toSolidPaint\<close>

lemma parseColor_below_threshold:
  "parseColor ''rgba(255, 0, 0, 0.009)'' =
     Some \<lparr>pc_rgb = \<lparr>rgb_r = Num 1, rgb_g = Num 0, rgb_b = Num 0\<rparr>, pc_a = Num (9 / 1000)\<rparr>"
  by (simp add: colour_defs char_defs string_defs number_defs)

lemma parseColor_at_threshold:
  "parseColor ''rgba(255, 0, 0, 0.01)'' =
     Some \<lparr>pc_rgb = \<lparr>rgb_r = Num 1, rgb_g = Num 0, rgb_b = Num 0\<rparr>, pc_a = Num (1 / 100)\<rparr>"
  by (simp add: colour_defs char_defs string_defs number_defs)

text \<open>
  Claim C3. For every colour string that \<open>parseColor\<close> parses with an alpha below 0.01,
  \<open>toSolidPaint\<close> returns no paint; for every colour string it parses with an alpha of at
  least 0.01, \<open>toSolidPaint\<close> returns the solid paint of the parsed colour, with the alpha as
  its opacity.
\<close>

theorem toSolidPaint_alpha_threshold:
  "(parseColor css = Some c \<and> js_lt (pc_a c) (Num (1 / 100)) \<longrightarrow> toSolidPaint css = None)
   \<and> (parseColor css = Some c \<and> js_le (Num (1 / 100)) (pc_a c)
        \<longrightarrow> toSolidPaint css = Some (SOLID (pc_rgb c) (Some (pc_a c))))"
  by (auto simp: toSolidPaint_def dest: js_le_not_lt)

theorem toSolidPaint_alpha_threshold_witness:
  "toSolidPaint ''rgba(255, 0, 0, 0.009)'' = None
   \<and> toSolidPaint ''rgba(255, 0, 0, 0.01)''
       = Some (SOLID \<lparr>rgb_r = Num 1, rgb_g = Num 0, rgb_b = Num 0\<rparr> (Some (Num (1 / 100))))"
  using toSolidPaint_alpha_threshold [of "''rgba(255, 0, 0, 0.009)''"
          "\<lparr>pc_rgb = \<lparr>rgb_r = Num 1, rgb_g = Num 0, rgb_b = Num 0\<rparr>, pc_a = Num (9 / 1000)\<rparr>"]
        toSolidPaint_alpha_threshold [of "''rgba(255, 0, 0, 0.01)''"
          "\<lparr>pc_rgb = \<lparr>rgb_r = Num 1, rgb_g = Num 0, rgb_b = Num 0\<rparr>, pc_a = Num (1 / 100)\<rparr>"]
  by (simp add: parseColor_below_threshold parseColor_at_threshold)

subsection \<open>The style of a font weight\<close>

lemmas weight_defs = weightToFigmaStyle_def weightOr400_def number_defs char_defs string_defs

text \<open>
  Claim C4. \<open>weightToFigmaStyle\<close> maps the weights 100, 200, 300, 500, 600, 700, 800 and 900
  to Thin, ExtraLight, Light, Medium, SemiBold, Bold, ExtraBold and Black and appends
  \<open>Italic\<close> for an italic font; the weight 400, which the claim maps to Regular, it maps to
  Light, for the chain of comparisons has no branch for 400 and the branch for 300 takes it.
\<close>

theorem weightToFigmaStyle_400_is_Light:
  "weightToFigmaStyle ''400'' False = ''Light''
   \<and> weightToFigmaStyle ''400'' True = ''Light Italic''
   \<and> map (\<lambda>w. weightToFigmaStyle w False)
        [''100'', ''200'', ''300'', ''500'', ''600'', ''700'', ''800'', ''900'']
     = [''Thin'', ''ExtraLight'', ''Light'', ''Medium'', ''SemiBold'', ''Bold'', ''ExtraBold'',
        ''Black'']"
  by (simp add: weight_defs)


subsection \<open>The gradient\<close>

lemmas gradient_defs = matchLinearGradient_def splitTopLevelCommas_def gradientAngle_def
  endsWithDeg_def startsWithTo_def posMatch_def parseStopColor_def stopColorStr_def
  stopPosition_def resolveStop_def matchHex_def hexByte_def parseHexColor_def

lemmas gradient_eval = parseLinearGradient_def gradient_defs colour_defs char_defs string_defs
  number_defs

lemma angleTransform_Num:
  "angleTransform (Num d) =
     ((Num (sin (d * pi / 180)), Num (cos (d * pi / 180)),
       Num (1 / 2 * (1 - sin (d * pi / 180)))),
      (Num (- cos (d * pi / 180)), Num (sin (d * pi / 180)),
       Num (1 / 2 * (1 + cos (d * pi / 180)))))"
  by (simp add: angleTransform_def js_sub_def Let_def)

lemma start_point:
  "transformPoint (angleTransform (Num d)) (0, 0) =
     (Num (1 / 2 - 1 / 2 * sin (d * pi / 180)), Num (1 / 2 + 1 / 2 * cos (d * pi / 180)))"
  by (simp add: angleTransform_Num transformPoint_def algebra_simps)

lemma end_point:
  "transformPoint (angleTransform (Num d)) (1, 0) =
     (Num (1 / 2 + 1 / 2 * sin (d * pi / 180)), Num (1 / 2 - 1 / 2 * cos (d * pi / 180)))"
  by (simp add: angleTransform_Num transformPoint_def algebra_simps)

lemma sin_three_half_pi: "sin (3 * pi / 2) = - 1"
  using sin_3over2_pi by (simp add: mult.commute)

lemma cos_three_half_pi: "cos (3 * pi / 2) = 0"
  using cos_3over2_pi by (simp add: mult.commute)

lemma canonical_angles:
  "transformPoint (angleTransform (Num 0)) (0, 0) = (Num (1 / 2), Num 1)"
  "transformPoint (angleTransform (Num 0)) (1, 0) = (Num (1 / 2), Num 0)"
  "transformPoint (angleTransform (Num 90)) (0, 0) = (Num 0, Num (1 / 2))"
  "transformPoint (angleTransform (Num 90)) (1, 0) = (Num 1, Num (1 / 2))"
  "transformPoint (angleTransform (Num 180)) (0, 0) = (Num (1 / 2), Num 0)"
  "transformPoint (angleTransform (Num 180)) (1, 0) = (Num (1 / 2), Num 1)"
  "transformPoint (angleTransform (Num 270)) (0, 0) = (Num 1, Num (1 / 2))"
  "transformPoint (angleTransform (Num 270)) (1, 0) = (Num 0, Num (1 / 2))"
  by (simp_all add: start_point end_point sin_three_half_pi cos_three_half_pi)

lemma gradient_uses_angle:
  "parseLinearGradient css = Some p \<Longrightarrow>
   \<exists>m. matchLinearGradient css = Some m
      \<and> gradientTransform p = angleTransform (fst (gradientAngle (splitTopLevelCommas m)))"
  by (auto simp: parseLinearGradient_def Let_def split: option.splits if_splits prod.splits)

text \<open>
  Claim C5. \<open>parseLinearGradient\<close> turns the angle \<open>d\<close> (in degrees, \<open>\<theta> = d\<pi>/180\<close>) into the
  transform \<open>[[sin \<theta>, cos \<theta>, 0.5 (1 - sin \<theta>)], [- cos \<theta>, sin \<theta>, 0.5 (1 + cos \<theta>)]]\<close>; the
  stop at 0% lies at \<open>(0.5 - 0.5 sin \<theta>, 0.5 + 0.5 cos \<theta>)\<close> and the stop at 100% at
  \<open>(0.5 + 0.5 sin \<theta>, 0.5 - 0.5 cos \<theta>)\<close>. With the vertical axis pointing down, the axis
  runs from bottom to top at 0 degrees, from left to right at 90, from top to bottom at 180
  and from right to left at 270. A first argument that ends in \<open>deg\<close> is the angle; a first
  argument that neither ends in \<open>deg\<close> nor starts with \<open>to\<close> and white space is a colour
  stop, and the angle is 180 degrees.
\<close>

theorem gradient_transform_of_angle:
  "angleTransform (Num d) =
     ((Num (sin (d * pi / 180)), Num (cos (d * pi / 180)),
       Num (1 / 2 * (1 - sin (d * pi / 180)))),
      (Num (- cos (d * pi / 180)), Num (sin (d * pi / 180)),
       Num (1 / 2 * (1 + cos (d * pi / 180)))))
   \<and> transformPoint (angleTransform (Num d)) (0, 0) =
       (Num (1 / 2 - 1 / 2 * sin (d * pi / 180)), Num (1 / 2 + 1 / 2 * cos (d * pi / 180)))
   \<and> transformPoint (angleTransform (Num d)) (1, 0) =
       (Num (1 / 2 + 1 / 2 * sin (d * pi / 180)), Num (1 / 2 - 1 / 2 * cos (d * pi / 180)))
   \<and> transformPoint (angleTransform (Num 0)) (0, 0) = (Num (1 / 2), Num 1)
   \<and> transformPoint (angleTransform (Num 0)) (1, 0) = (Num (1 / 2), Num 0)
   \<and> transformPoint (angleTransform (Num 90)) (0, 0) = (Num 0, Num (1 / 2))
   \<and> transformPoint (angleTransform (Num 90)) (1, 0) = (Num 1, Num (1 / 2))
   \<and> transformPoint (angleTransform (Num 180)) (0, 0) = (Num (1 / 2), Num 0)
   \<and> transformPoint (angleTransform (Num 180)) (1, 0) = (Num (1 / 2), Num 1)
   \<and> transformPoint (angleTransform (Num 270)) (0, 0) = (Num 1, Num (1 / 2))
   \<and> transformPoint (angleTransform (Num 270)) (1, 0) = (Num 0, Num (1 / 2))
   \<and> (endsWithDeg (trim (parts ! 0))
        \<longrightarrow> gradientAngle parts = (parseFloat (trim (parts ! 0)), 1))
   \<and> (\<not> endsWithDeg (trim (parts ! 0)) \<and> \<not> startsWithTo (trim (parts ! 0))
        \<longrightarrow> gradientAngle parts = (Num 180, 0))
   \<and> (parseLinearGradient css = Some p
        \<longrightarrow> (\<exists>m. matchLinearGradient css = Some m
               \<and> gradientTransform p
                   = angleTransform (fst (gradientAngle (splitTopLevelCommas m)))))"
  by (intro conjI impI;
      (rule angleTransform_Num start_point end_point canonical_angles
       | (rule gradient_uses_angle, assumption)
       | simp add: gradientAngle_def))

lemma gradient_without_angle:
  "parseLinearGradient ''linear-gradient(rgb(255, 0, 0), rgb(0, 0, 255))'' =
     Some (GRADIENT_LINEAR (angleTransform (Num 180))
       [\<lparr>position = Num 0,
         stop_color = \<lparr>rgb_r = Num 1, rgb_g = Num 0, rgb_b = Num 0, rgb_a = Num 1\<rparr>\<rparr>,
        \<lparr>position = Num 1,
         stop_color = \<lparr>rgb_r = Num 0, rgb_g = Num 0, rgb_b = Num 1, rgb_a = Num 1\<rparr>\<rparr>]
       (Num 1))"
  by (simp add: gradient_eval)

theorem gradient_transform_of_angle_witness:
  "gradientAngle [''90deg'', ''rgb(255, 0, 0)'', ''rgb(0, 0, 255)''] = (Num 90, 1)
   \<and> gradientAngle [''rgb(255, 0, 0)'', ''rgb(0, 0, 255)''] = (Num 180, 0)
   \<and> gradientTransform
        (the (parseLinearGradient ''linear-gradient(rgb(255, 0, 0), rgb(0, 0, 255))''))
      = angleTransform (Num 180)
   \<and> transformPoint (angleTransform (Num 45)) (0, 0) =
       (Num (1 / 2 - 1 / 2 * sin (45 * pi / 180)), Num (1 / 2 + 1 / 2 * cos (45 * pi / 180)))"
  using gradient_transform_of_angle
          [of 45 "[''90deg'', ''rgb(255, 0, 0)'', ''rgb(0, 0, 255)'']"
              "''linear-gradient(rgb(255, 0, 0), rgb(0, 0, 255))''"
              "the (parseLinearGradient ''linear-gradient(rgb(255, 0, 0), rgb(0, 0, 255))'')"]
        gradient_transform_of_angle
          [of 45 "[''rgb(255, 0, 0)'', ''rgb(0, 0, 255)'']" "[]" undefined]
  by (simp add: gradient_without_angle gradient_defs char_defs string_defs number_defs)

subsection \<open>The stops of a gradient\<close>

lemma stopsLoop_enumerate:
  "stopsLoop n i ps = List.map_filter (\<lambda>(k, q). resolveStop n k q) (enumerate i ps)"
  by (induction ps arbitrary: i) (auto simp: List.map_filter_simps split: option.splits)

lemma resolveStop_even:
  "posMatch (trim q) = None \<Longrightarrow> parseStopColor (trim q) = Some c \<Longrightarrow>
   resolveStop n i q =
     Some \<lparr>position = Num (real i / real_of_int (max (int n - 1) 1)),
           stop_color = \<lparr>rgb_r = rgb_r (pc_rgb c), rgb_g = rgb_g (pc_rgb c),
                         rgb_b = rgb_b (pc_rgb c), rgb_a = pc_a c\<rparr>\<rparr>"
  by (simp add: resolveStop_def stopColorStr_def stopPosition_def)

lemma gradient_stops_of_parts:
  "parseLinearGradient css = Some p \<Longrightarrow>
   \<exists>m. matchLinearGradient css = Some m
      \<and> gradientStops p =
          stopsLoop (length (drop (snd (gradientAngle (splitTopLevelCommas m)))
                               (splitTopLevelCommas m))) 0
            (drop (snd (gradientAngle (splitTopLevelCommas m))) (splitTopLevelCommas m))"
  by (auto simp: parseLinearGradient_def Let_def split: option.splits if_splits prod.splits)

text \<open>
  Claim C6, as stated, at its own example: no stop of \<open>linear-gradient(0deg, red, blue)\<close>
  is resolved, for neither \<open>parseColor\<close> nor \<open>parseHexColor\<close> knows a colour keyword, and
  the gradient is \<open>null\<close>.
\<close>

theorem keyword_stops_counterexample:
  "parseLinearGradient ''linear-gradient(0deg, red, blue)'' = None"
  by (simp add: gradient_eval)

text \<open>
  Claim C6, amended. A stop argument without a percentage whose colour is resolved gets the
  position \<open>i / max (n - 1) 1\<close>, where \<open>i\<close> is its index among the \<open>n\<close> stop arguments (so a
  single stop gets 0); the stops of a gradient are the resolved stop arguments, each with its
  own index. The input \<open>linear-gradient(0deg, rgb(255, 0, 0), rgb(0, 0, 255))\<close>, the form a
  computed style has, yields exactly two stops, red at 0 and blue at 1.
\<close>

theorem even_stop_positions:
  "(posMatch (trim q) = None \<and> parseStopColor (trim q) = Some c
      \<longrightarrow> resolveStop n i q =
            Some \<lparr>position = Num (real i / real_of_int (max (int n - 1) 1)),
                  stop_color = \<lparr>rgb_r = rgb_r (pc_rgb c), rgb_g = rgb_g (pc_rgb c),
                                rgb_b = rgb_b (pc_rgb c), rgb_a = pc_a c\<rparr>\<rparr>)
   \<and> (posMatch (trim q) = None \<and> parseStopColor (trim q) = Some c
      \<longrightarrow> position (the (resolveStop 1 0 q)) = Num 0)
   \<and> stopsLoop n i ps = List.map_filter (\<lambda>(k, q). resolveStop n k q) (enumerate i ps)
   \<and> (parseLinearGradient css = Some p
      \<longrightarrow> (\<exists>m. matchLinearGradient css = Some m
             \<and> gradientStops p =
                 stopsLoop (length (drop (snd (gradientAngle (splitTopLevelCommas m)))
                                      (splitTopLevelCommas m))) 0
                   (drop (snd (gradientAngle (splitTopLevelCommas m)))
                      (splitTopLevelCommas m))))
   \<and> parseLinearGradient ''linear-gradient(0deg, rgb(255, 0, 0), rgb(0, 0, 255))'' =
       Some (GRADIENT_LINEAR (angleTransform (Num 0))
         [\<lparr>position = Num 0,
           stop_color = \<lparr>rgb_r = Num 1, rgb_g = Num 0, rgb_b = Num 0, rgb_a = Num 1\<rparr>\<rparr>,
          \<lparr>position = Num 1,
           stop_color = \<lparr>rgb_r = Num 0, rgb_g = Num 0, rgb_b = Num 1, rgb_a = Num 1\<rparr>\<rparr>]
         (Num 1))"
proof -
  have example:
    "parseLinearGradient ''linear-gradient(0deg, rgb(255, 0, 0), rgb(0, 0, 255))'' =
       Some (GRADIENT_LINEAR (angleTransform (Num 0))
         [\<lparr>position = Num 0,
           stop_color = \<lparr>rgb_r = Num 1, rgb_g = Num 0, rgb_b = Num 0, rgb_a = Num 1\<rparr>\<rparr>,
          \<lparr>position = Num 1,
           stop_color = \<lparr>rgb_r = Num 0, rgb_g = Num 0, rgb_b = Num 1, rgb_a = Num 1\<rparr>\<rparr>]
         (Num 1))"
    by (simp add: gradient_eval)
  show ?thesis
    using gradient_stops_of_parts [of css p] resolveStop_even [of q c]
    by (simp add: example stopsLoop_enumerate)
qed

theorem even_stop_positions_witness:
  "resolveStop 3 1 '' rgb(0, 128, 0) '' =
     Some \<lparr>position = Num (1 / 2),
           stop_color = \<lparr>rgb_r = Num 0, rgb_g = Num (128 / 255), rgb_b = Num 0,
                         rgb_a = Num 1\<rparr>\<rparr>
   \<and> position (the (resolveStop 1 0 '' rgb(0, 128, 0) '')) = Num 0
   \<and> map position
        (gradientStops
           (the (parseLinearGradient
                   ''linear-gradient(to right, rgb(255, 0, 0), #00f, rgb(0, 0, 255))'')))
      = [Num 0, Num (1 / 2), Num 1]"
proof -
  have m: "posMatch (trim '' rgb(0, 128, 0) '') = None"
    by (simp add: gradient_defs char_defs string_defs)
  have c: "parseStopColor (trim '' rgb(0, 128, 0) '') =
             Some \<lparr>pc_rgb = \<lparr>rgb_r = Num 0, rgb_g = Num (128 / 255), rgb_b = Num 0\<rparr>,
                   pc_a = Num 1\<rparr>"
    by (simp add: gradient_defs colour_defs char_defs string_defs number_defs)
  have g: "parseLinearGradient
             ''linear-gradient(to right, rgb(255, 0, 0), #00f, rgb(0, 0, 255))'' =
           Some (GRADIENT_LINEAR (angleTransform (Num 90))
             [\<lparr>position = Num 0,
               stop_color = \<lparr>rgb_r = Num 1, rgb_g = Num 0, rgb_b = Num 0, rgb_a = Num 1\<rparr>\<rparr>,
              \<lparr>position = Num (1 / 2),
               stop_color = \<lparr>rgb_r = Num 0, rgb_g = Num 0, rgb_b = Num 1, rgb_a = Num 1\<rparr>\<rparr>,
              \<lparr>position = Num 1,
               stop_color = \<lparr>rgb_r = Num 0, rgb_g = Num 0, rgb_b = Num 1, rgb_a = Num 1\<rparr>\<rparr>]
             (Num 1))"
    by (simp add: gradient_eval)
  show ?thesis
    using even_stop_positions
            [of "'' rgb(0, 128, 0) ''"
                "\<lparr>pc_rgb = \<lparr>rgb_r = Num 0, rgb_g = Num (128 / 255), rgb_b = Num 0\<rparr>,
                  pc_a = Num 1\<rparr>"
                3 1 "[]"
                "''linear-gradient(to right, rgb(255, 0, 0), #00f, rgb(0, 0, 255))''"
                "the (parseLinearGradient
                        ''linear-gradient(to right, rgb(255, 0, 0), #00f, rgb(0, 0, 255))'')"]
    by (simp add: m c g)
qed


subsection \<open>Failure of a gradient or of a colour\<close>

lemma gradient_has_two_stops:
  "parseLinearGradient css = Some p \<Longrightarrow>
   p = GRADIENT_LINEAR (gradientTransform p) (gradientStops p) (Num 1)
   \<and> 2 \<le> length (gradientStops p)"
  by (auto simp: parseLinearGradient_def Let_def split: option.splits if_splits prod.splits)

lemma gradient_few_stops:
  "matchLinearGradient css = Some m \<Longrightarrow>
   length (stopsLoop (length (drop (snd (gradientAngle (splitTopLevelCommas m)))
                                (splitTopLevelCommas m))) 0
             (drop (snd (gradientAngle (splitTopLevelCommas m))) (splitTopLevelCommas m))) < 2
   \<Longrightarrow> parseLinearGradient css = None"
  by (auto simp: parseLinearGradient_def Let_def split: option.splits if_splits prod.splits)

lemma unresolved_stop_skipped:
  "parseStopColor (stopColorStr (trim q)) = None \<Longrightarrow>
   stopsLoop n i (q # qs) = stopsLoop n (i + 1) qs"
  by (simp add: resolveStop_def)

lemma transparent_no_paint:
  "isTransparent css \<or> parseColor css = None \<Longrightarrow> toSolidPaint css = None"
  by (auto simp: isTransparent_def toSolidPaint_def parseColor_def split: option.splits if_splits)

lemma fills_fall_back:
  "parseLinearGradient (backgroundImage sty) = None \<Longrightarrow>
   f_fills (applyFrameStyle frame sty) =
     (case toSolidPaint (backgroundColor sty) of Some solid \<Rightarrow> [solid] | None \<Rightarrow> [])"
  by (simp add: applyFrameStyle_def frameFills_def)

text \<open>
  Claim C8. \<open>parseLinearGradient\<close> returns a gradient with at least two stops or \<open>null\<close>:
  it returns \<open>null\<close> whenever fewer than two stop arguments are resolved, and a stop argument
  whose colour is not parsed is skipped. In \<open>applyFrameStyle\<close>, when the gradient of the
  background image is \<open>null\<close>, the fills are the solid paint of the background colour, and
  no fill at all when that colour is transparent or not parsed. All these functions return a
  value on every input; none of them has an exception among its results.
\<close>

theorem gradient_failure_falls_back:
  "(parseLinearGradient css = Some p
      \<longrightarrow> p = GRADIENT_LINEAR (gradientTransform p) (gradientStops p) (Num 1)
          \<and> 2 \<le> length (gradientStops p))
   \<and> (matchLinearGradient css = Some m
        \<and> length (stopsLoop (length (drop (snd (gradientAngle (splitTopLevelCommas m)))
                                       (splitTopLevelCommas m))) 0
                    (drop (snd (gradientAngle (splitTopLevelCommas m)))
                       (splitTopLevelCommas m))) < 2
      \<longrightarrow> parseLinearGradient css = None)
   \<and> (parseStopColor (stopColorStr (trim q)) = None
      \<longrightarrow> stopsLoop n i (q # qs) = stopsLoop n (i + 1) qs)
   \<and> (parseLinearGradient (backgroundImage sty) = None
      \<longrightarrow> f_fills (applyFrameStyle frame sty) =
            (case toSolidPaint (backgroundColor sty) of Some solid \<Rightarrow> [solid] | None \<Rightarrow> []))
   \<and> (parseLinearGradient (backgroundImage sty) = None
        \<and> (isTransparent (backgroundColor sty) \<or> parseColor (backgroundColor sty) = None)
      \<longrightarrow> f_fills (applyFrameStyle frame sty) = [])"
  using gradient_has_two_stops [of css p] gradient_few_stops [of css m]
        unresolved_stop_skipped [of q n i qs] fills_fall_back [of sty frame]
        transparent_no_paint [of "backgroundColor sty"]
  by auto

theorem gradient_failure_falls_back_witness:
  "parseLinearGradient ''linear-gradient(0deg, red, rgb(0, 0, 255))'' = None
   \<and> stopsLoop 2 0 [''red'', ''rgb(0, 0, 255)''] = stopsLoop 2 (0 + 1) [''rgb(0, 0, 255)'']
   \<and> f_fills (applyFrameStyle createFrame
        (plainStyle\<lparr>backgroundImage := ''linear-gradient(0deg, red, rgb(0, 0, 255))'',
                    backgroundColor := ''rgb(255, 0, 0)''\<rparr>))
      = [SOLID \<lparr>rgb_r = Num 1, rgb_g = Num 0, rgb_b = Num 0\<rparr> (Some (Num 1))]
   \<and> f_fills (applyFrameStyle createFrame
        (plainStyle\<lparr>backgroundImage := ''linear-gradient(0deg, red, rgb(0, 0, 255))'',
                    backgroundColor := ''oklch(0.6 0.2 30)''\<rparr>))
      = []
   \<and> 2 \<le> length (gradientStops
         (the (parseLinearGradient ''linear-gradient(rgb(255, 0, 0), rgb(0, 0, 255))'')))"
proof -
  let ?css = "''linear-gradient(0deg, red, rgb(0, 0, 255))''"
  let ?m = "''0deg, red, rgb(0, 0, 255)''"
  let ?red = "plainStyle\<lparr>backgroundImage := ?css, backgroundColor := ''rgb(255, 0, 0)''\<rparr>"
  let ?ok = "plainStyle\<lparr>backgroundImage := ?css, backgroundColor := ''oklch(0.6 0.2 30)''\<rparr>"
  let ?good = "''linear-gradient(rgb(255, 0, 0), rgb(0, 0, 255))''"
  note first = gradient_failure_falls_back
                 [of ?css undefined ?m "''red''" 2 0 "[''rgb(0, 0, 255)'']" ?red createFrame]
  note second = gradient_failure_falls_back
                  [of ?good "the (parseLinearGradient ?good)" "[]" "''red''" 2 0 "[]" ?ok
                      createFrame]
  have few:
    "matchLinearGradient ?css = Some ?m
     \<and> length (stopsLoop (length (drop (snd (gradientAngle (splitTopLevelCommas ?m)))
                                    (splitTopLevelCommas ?m))) 0
                 (drop (snd (gradientAngle (splitTopLevelCommas ?m)))
                    (splitTopLevelCommas ?m))) < 2"
    by (simp add: gradient_defs colour_defs char_defs string_defs number_defs)
  from first few have none: "parseLinearGradient ?css = None"
    by blast
  have red: "parseStopColor (stopColorStr (trim ''red'')) = None"
    by (simp add: gradient_defs colour_defs char_defs string_defs number_defs)
  from first red
  have skip: "stopsLoop 2 0 [''red'', ''rgb(0, 0, 255)''] = stopsLoop 2 (0 + 1) [''rgb(0, 0, 255)'']"
    by blast
  have img1: "parseLinearGradient (backgroundImage ?red) = None"
    using none by simp
  have solid: "toSolidPaint (backgroundColor ?red)
                 = Some (SOLID \<lparr>rgb_r = Num 1, rgb_g = Num 0, rgb_b = Num 0\<rparr> (Some (Num 1)))"
    by (simp add: toSolidPaint_def colour_defs char_defs string_defs number_defs)
  from first img1
  have "f_fills (applyFrameStyle createFrame ?red) =
          (case toSolidPaint (backgroundColor ?red) of Some solid \<Rightarrow> [solid] | None \<Rightarrow> [])"
    by blast
  then have fill1: "f_fills (applyFrameStyle createFrame ?red)
                      = [SOLID \<lparr>rgb_r = Num 1, rgb_g = Num 0, rgb_b = Num 0\<rparr> (Some (Num 1))]"
    by (simp only: solid option.case)
  have img2: "parseLinearGradient (backgroundImage ?ok) = None
              \<and> (isTransparent (backgroundColor ?ok) \<or> parseColor (backgroundColor ?ok) = None)"
    using none by (simp add: colour_defs char_defs string_defs number_defs)
  from second img2 have fill2: "f_fills (applyFrameStyle createFrame ?ok) = []"
    by blast
  have "parseLinearGradient ?good = Some (the (parseLinearGradient ?good))"
    by (simp add: gradient_without_angle)
  with second have two: "2 \<le> length (gradientStops (the (parseLinearGradient ?good)))"
    by blast
  show ?thesis
    using none skip fill1 fill2 two by blast
qed


subsection \<open>Text leaves\<close>

lemma segmentsLoop_mode:
  "segmentsLoop env fam it segs off t = Inr t' \<Longrightarrow>
   t_textAutoResize t' = t_textAutoResize t \<and> t_resized t' = t_resized t"
proof (induction segs arbitrary: off t)
  case Nil
  then show ?case by simp
next
  case (Cons seg segs)
  then show ?case
    by (auto simp: Let_def split: if_splits sum.splits option.splits)
qed

lemma applyBoldSegments_mode:
  "applyBoldSegments env fam it segs t = Inr t' \<Longrightarrow>
   t_textAutoResize t' = t_textAutoResize t \<and> t_resized t' = t_resized t"
  by (auto simp: applyBoldSegments_def split: option.splits dest: segmentsLoop_mode)

lemma align_mode:
  "t_textAutoResize (alignVertically env node t) = t_textAutoResize t"
  "t_textAutoResize (alignHorizontally env node t) = t_textAutoResize t"
  "t_textAutoResize (hideText node t) = t_textAutoResize t"
  "t_resized (alignVertically env node t) = t_resized t"
  "t_resized (alignHorizontally env node t) = t_resized t"
  "t_resized (hideText node t) = t_resized t"
  by (simp_all add: alignVertically_def alignHorizontally_def hideText_def centerX_def centerY_def)

lemma makeText_auto:
  "t_textAutoResize (makeText node fn tx ty 0) = WIDTH_AND_HEIGHT"
  "t_resized (makeText node fn tx ty 0) = None"
  by (simp_all add: makeText_def Let_def)

lemma buildTree_leaf:
  "isTextLeaf node \<Longrightarrow> buildTree env node st = buildTextLeaf env node st"
  by (cases node) (simp add: isTextLeaf_def)

lemma boxedText_single:
  "isSingleLine node \<Longrightarrow> boxedText env node fam fn = Inr t \<Longrightarrow>
   t_textAutoResize t = WIDTH_AND_HEIGHT \<and> t_resized t = None"
  by (auto simp: boxedText_def Let_def align_mode makeText_auto split: sum.splits
           dest!: applyBoldSegments_mode)

lemma plainText_single:
  "isSingleLine node \<Longrightarrow> plainText env node fam fn = Inr t \<Longrightarrow>
   t_textAutoResize t = WIDTH_AND_HEIGHT \<and> t_resized t = None"
  by (auto simp: plainText_def Let_def align_mode makeText_auto hideText_def split: sum.splits if_splits
           dest!: applyBoldSegments_mode)

lemma single_line_test:
  "isSingleLine node \<longleftrightarrow> max (rect_height (rect node)) 1 < 3.5 * fontSize (style node)"
  by (simp add: isSingleLine_def nodeH_def mult.commute)


lemma error_unique: "(e::error) = CannotLoadAnyFont"
  by (cases e)

lemma tryFonts_fail:
  "tryFonts env fns = Inl CannotLoadAnyFont \<longleftrightarrow> list_all (\<lambda>fn. \<not> loadFontAsync env fn) fns"
  by (induction fns) auto

lemma inter_candidate:
  "\<lparr>family = ''Inter'', font_style = ''Regular''\<rparr> \<in> set (fontCandidates fam sty)"
  by (simp add: fontCandidates_def Let_def)

lemma loadBestFont_ok:
  assumes "loadFontAsync env \<lparr>family = ''Inter'', font_style = ''Regular''\<rparr>"
  shows "\<exists>fn. loadBestFont env fam sty = Inr fn"
proof (cases "loadBestFont env fam sty")
  case (Inl e)
  then have "list_all (\<lambda>fn. \<not> loadFontAsync env fn) (fontCandidates fam sty)"
    using error_unique [of e] by (simp add: loadBestFont_def tryFonts_fail)
  with inter_candidate [of fam sty] assms show ?thesis
    by (auto simp: list_all_iff)
next
  case (Inr fn)
  then show ?thesis by blast
qed

lemma segmentsLoop_ok:
  assumes "loadFontAsync env \<lparr>family = ''Inter'', font_style = ''Regular''\<rparr>"
  shows "\<exists>t'. segmentsLoop env fam it segs off t = Inr t'"
proof (induction segs arbitrary: off t)
  case Nil
  then show ?case by simp
next
  case (Cons seg segs)
  obtain bf where bf: "loadBestFont env fam (weightToFigmaStyle ''700'' it) = Inr bf"
    using loadBestFont_ok [OF assms] by blast
  show ?case
    using Cons.IH by (simp add: Let_def bf)
qed

lemma applyBoldSegments_ok:
  assumes "loadFontAsync env \<lparr>family = ''Inter'', font_style = ''Regular''\<rparr>"
  shows "\<exists>t'. applyBoldSegments env fam it segs t = Inr t'"
  using segmentsLoop_ok [OF assms] by (simp add: applyBoldSegments_def split: option.splits)

lemma applyBoldSegments_not_Inl:
  assumes "loadFontAsync env \<lparr>family = ''Inter'', font_style = ''Regular''\<rparr>"
  shows "applyBoldSegments env fam it segs t \<noteq> Inl e"
  using applyBoldSegments_ok [OF assms, of fam it segs t] by auto

lemma boxedText_ok:
  assumes "loadFontAsync env \<lparr>family = ''Inter'', font_style = ''Regular''\<rparr>"
  shows "\<exists>t. boxedText env node fam fn = Inr t"
  by (auto simp: boxedText_def Let_def applyBoldSegments_not_Inl [OF assms] split: sum.splits)

lemma plainText_ok:
  assumes "loadFontAsync env \<lparr>family = ''Inter'', font_style = ''Regular''\<rparr>"
  shows "\<exists>t. plainText env node fam fn = Inr t"
  by (auto simp: plainText_def Let_def applyBoldSegments_not_Inl [OF assms] split: sum.splits)

lemma buildTextLeaf_counts:
  assumes "loadFontAsync env \<lparr>family = ''Inter'', font_style = ''Regular''\<rparr>"
    and "isTextLeaf node"
  shows "\<exists>out. buildTextLeaf env node st =
           (Inr out, st\<lparr>frameCount := frameCount st + (if isBoxedLeaf node then 1 else 0),
                        textCount := textCount st + 1\<rparr>)"
proof -
  obtain fn where fn: "loadBestFont env (mapFontFamily (fontFamily (style node)))
      (weightToFigmaStyle (fontWeight (style node)) (isItalicStyle (style node))) = Inr fn"
    using loadBestFont_ok [OF assms(1)] by blast
  obtain tb where tb: "boxedText env node (mapFontFamily (fontFamily (style node))) fn = Inr tb"
    using boxedText_ok [OF assms(1)] by blast
  obtain tp where tp: "plainText env node (mapFontFamily (fontFamily (style node))) fn = Inr tp"
    using plainText_ok [OF assms(1)] by blast
  show ?thesis
    using assms(2) by (simp add: buildTextLeaf_def Let_def fn tb tp isBoxedLeaf_def)
qed


lemma counted_append:
  "countedFrames (xs @ ys) = countedFrames xs + countedFrames ys"
  "countedTexts (xs @ ys) = countedTexts xs + countedTexts ys"
  by (simp_all add: countedFrames_def countedTexts_def)

lemma traversedAll_Cons: "traversedAll (k # ks) = traversed k @ traversedAll ks"
  by (simp add: traversedAll_def)

lemma leaf_outcome:
  assumes "isTextLeaf node"
  shows "leafThrows env node \<Longrightarrow> buildTextLeaf env node st = (Inl CannotLoadAnyFont, st)"
    and "\<not> leafThrows env node \<Longrightarrow>
         \<exists>out. buildTextLeaf env node st =
           (Inr out, st\<lparr>frameCount := frameCount st + (if isBoxedLeaf node then 1 else 0),
                         textCount := textCount st + 1\<rparr>)"
proof -
  show "leafThrows env node \<Longrightarrow> buildTextLeaf env node st = (Inl CannotLoadAnyFont, st)"
    using assms error_unique
    by (auto simp: leafThrows_def buildTextLeaf_def Let_def split: sum.splits)
  show "\<not> leafThrows env node \<Longrightarrow>
         \<exists>out. buildTextLeaf env node st =
           (Inr out, st\<lparr>frameCount := frameCount st + (if isBoxedLeaf node then 1 else 0),
                         textCount := textCount st + 1\<rparr>)"
    using assms
    by (auto simp: leafThrows_def buildTextLeaf_def Let_def isBoxedLeaf_def
          split: sum.splits if_splits)
qed

lemma built_append:
  "builtNodes env (xs @ ys) = builtNodes env xs @ builtNodes env ys"
  "thrownNodes env (xs @ ys) = thrownNodes env xs @ thrownNodes env ys"
  by (simp_all add: builtNodes_def thrownNodes_def)

lemma throwing_leaf_alone: "leafThrows env k \<Longrightarrow> traversed k = [k]"
  by (cases k) (simp add: leafThrows_def isTextLeaf_def)

lemma tally_trans:
  "tally env xs st st1 \<Longrightarrow> tally env ys st1 st2 \<Longrightarrow> tally env (xs @ ys) st st2"
  by (simp add: tally_def built_append counted_append)

lemma buildChildren_tally:
  assumes "\<And>k st. k \<in> set kids \<Longrightarrow> list_all (\<lambda>n. \<not> svgFallsBack env n) (traversed k) \<Longrightarrow>
             (leafThrows env k \<longrightarrow> buildTree env k st = (Inl CannotLoadAnyFont, st))
             \<and> (\<not> leafThrows env k \<longrightarrow>
                  (\<exists>out st'. buildTree env k st = (Inr out, st') \<and> tally env (traversed k) st st'))"
    and "list_all (\<lambda>n. \<not> svgFallsBack env n) (traversedAll kids)"
  shows "\<exists>outs st'. buildChildren env line kids st = (outs, st')
            \<and> tally env (traversedAll kids) st st'"
  using assms
proof (induction kids arbitrary: st)
  case Nil
  then show ?case
    by (simp add: traversedAll_def tally_def builtNodes_def thrownNodes_def countedFrames_def
          countedTexts_def)
next
  case (Cons k ks)
  from Cons.prems(2) have ok_k: "list_all (\<lambda>n. \<not> svgFallsBack env n) (traversed k)"
    and ok_ks: "list_all (\<lambda>n. \<not> svgFallsBack env n) (traversedAll ks)"
    by (simp_all add: traversedAll_Cons)
  have rest: "\<exists>outs st'. buildChildren env line ks s = (outs, st')
                \<and> tally env (traversedAll ks) s st'" for s
    by (rule Cons.IH [OF _ ok_ks]) (rule Cons.prems(1), simp_all)
  note here = Cons.prems(1) [of k st, OF _ ok_k, simplified]
  show ?case
  proof (cases "leafThrows env k")
    case True
    with here have run: "buildTree env k st = (Inl CannotLoadAnyFont, st)"
      by simp
    let ?s = "st\<lparr>console := console st @ [(line, CannotLoadAnyFont)]\<rparr>"
    obtain outs st' where r: "buildChildren env line ks ?s = (outs, st')"
      and t: "tally env (traversedAll ks) ?s st'"
      using rest [of ?s] by blast
    have "tally env (traversed k) st ?s"
      using True by (simp add: throwing_leaf_alone tally_def builtNodes_def thrownNodes_def
            countedFrames_def countedTexts_def)
    from tally_trans [OF this t] have "tally env (traversedAll (k # ks)) st st'"
      by (simp add: traversedAll_Cons)
    then show ?thesis
      by (simp add: run r)
  next
    case False
    with here obtain out s1 where run: "buildTree env k st = (Inr out, s1)"
      and t1: "tally env (traversed k) st s1"
      by auto
    obtain outs st' where r: "buildChildren env line ks s1 = (outs, st')"
      and t: "tally env (traversedAll ks) s1 st'"
      using rest [of s1] by blast
    from tally_trans [OF t1 t] have "tally env (traversedAll (k # ks)) st st'"
      by (simp add: traversedAll_Cons)
    then show ?thesis
      by (simp add: run r)
  qed
qed

lemma buildTree_tally:
  "list_all (\<lambda>n. \<not> svgFallsBack env n) (traversed node) \<Longrightarrow>
   (leafThrows env node \<longrightarrow> buildTree env node st = (Inl CannotLoadAnyFont, st))
   \<and> (\<not> leafThrows env node \<longrightarrow>
        (\<exists>out st'. buildTree env node st = (Inr out, st') \<and> tally env (traversed node) st st'))"
proof (induction node arbitrary: st)
  case (DomNodeData tag tx segs img svg rc vis sty kids)
  let ?node = "DomNodeData tag tx segs img svg rc vis sty kids"
  show ?case
  proof (cases "truthy tx \<and> kids = []")
    case True
    then have leaf: "isTextLeaf ?node" by (simp add: isTextLeaf_def)
    have run: "buildTree env ?node st = buildTextLeaf env ?node st"
      by (simp add: True)
    have nodes: "traversed ?node = [?node]"
      by (simp add: True)
    show ?thesis
      using leaf_outcome [OF leaf, of env st] leaf
      unfolding run nodes
      by (auto simp: tally_def builtNodes_def thrownNodes_def countedFrames_def
            countedTexts_def isBoxedLeaf_def)
  next
    case nonleaf: False
    then have nl: "\<not> isTextLeaf ?node" by (simp add: isTextLeaf_def)
    then have nt: "\<not> leafThrows env ?node" by (simp add: leafThrows_def)
    show ?thesis
    proof (cases "tag = ''svg''")
      case True
      have run: "buildTree env ?node st = buildSvg env ?node st"
        by (simp add: nonleaf True)
      have nodes: "traversed ?node = [?node]"
        by (simp add: True)
      from DomNodeData.prems have "\<not> svgFallsBack env ?node"
        by (simp add: nodes)
      then show ?thesis
        using nl nt unfolding run nodes
        by (auto simp: buildSvg_def svgFallsBack_def tally_def builtNodes_def thrownNodes_def
              countedFrames_def countedTexts_def isBoxedLeaf_def True
              split: if_splits option.splits)
    next
      case notsvg: False
      show ?thesis
      proof (cases "tag = ''img''")
        case True
        have run: "buildTree env ?node st = buildImg ?node st"
          by (simp add: nonleaf notsvg True)
        have nodes: "traversed ?node = [?node]"
          by (simp add: True)
        show ?thesis
          using nl nt unfolding run nodes
          by (auto simp: buildImg_def tally_def builtNodes_def thrownNodes_def
                countedFrames_def countedTexts_def isBoxedLeaf_def)
      next
        case notimg: False
        let ?line = "''[html-importer] buildTree error:''"
        have nodes: "traversed ?node = ?node # traversedAll kids"
          by (simp add: nonleaf notsvg notimg traversedAll_def)
        have ok: "list_all (\<lambda>n. \<not> svgFallsBack env n) (traversedAll kids)"
          using DomNodeData.prems unfolding nodes by simp
        obtain outs s1 where r: "buildChildren env ?line kids st = (outs, s1)"
          and t: "tally env (traversedAll kids) st s1"
          using buildChildren_tally [OF _ ok, where line = ?line and st = st] DomNodeData.IH
          by blast
        have run: "buildTree env ?node st =
                     (Inr (FRAME (containerFrame ?node) outs),
                      s1\<lparr>frameCount := frameCount s1 + 1\<rparr>)"
          by (simp add: nonleaf notsvg notimg r)
        have "tally env (traversed ?node) st (s1\<lparr>frameCount := frameCount s1 + 1\<rparr>)"
          using t nl nt unfolding nodes
          by (simp add: tally_def builtNodes_def thrownNodes_def countedFrames_def
                countedTexts_def isBoxedLeaf_def)
        then show ?thesis
          using nt run by blast
      qed
    qed
  qed
qed

lemma fonts_never_throw:
  assumes "loadFontAsync env \<lparr>family = ''Inter'', font_style = ''Regular''\<rparr>"
  shows "\<not> leafThrows env node"
  using buildTextLeaf_counts [OF assms, of node emptyState] by (auto simp: leafThrows_def)

lemma all_built:
  assumes "loadFontAsync env \<lparr>family = ''Inter'', font_style = ''Regular''\<rparr>"
  shows "builtNodes env nodes = nodes" "thrownNodes env nodes = []"
  by (simp_all add: builtNodes_def thrownNodes_def fonts_never_throw [OF assms])

lemma no_fonts_throw:
  assumes "isTextLeaf node"
  shows "leafThrows (sampleEnv noFonts) node"
proof -
  have "list_all (\<lambda>fn. \<not> loadFontAsync (sampleEnv noFonts) fn) fns" for fns
    by (simp add: list_all_iff sampleEnv_def noFonts_def)
  then have "loadBestFont (sampleEnv noFonts) fam sty = Inl CannotLoadAnyFont" for fam sty
    by (simp add: loadBestFont_def tryFonts_fail)
  then show ?thesis
    using assms by (simp add: leafThrows_def buildTextLeaf_def Let_def)
qed


lemmas example_defs = helloParagraph_def blueButton_def tallButton_def shortParagraph_def
  oklchBadge_def nestedPage_def sampleImage_def sampleVector_def buttonPage_def
  mixedPage_def leafNode_def boxNode_def plainStyle_def sampleEnv_def allFonts_def noFonts_def

lemmas leaf_defs = isTextLeaf_def isBoxedLeaf_def truthy_def hasBorder_def hasBg_def
  maxBorderWidth_def isTransparent_def

subsection \<open>The single-line test\<close>

lemma makeText_mode:
  "t_textAutoResize (makeText node fn tx ty fw) = (if 0 < fw then HEIGHT else WIDTH_AND_HEIGHT)"
  "t_resized (makeText node fn tx ty fw) = (if 0 < fw then Some (max fw 10, 20) else None)"
  by (simp_all add: makeText_def Let_def)

lemma boxedText_multi:
  "\<not> isSingleLine node \<Longrightarrow> boxedText env node fam fn = Inr t \<Longrightarrow>
   t_textAutoResize t = HEIGHT
   \<and> t_resized t = Some (max (nodeW node - paddingLeft (style node) - paddingRight (style node)) 10, 20)"
  by (auto simp: boxedText_def Let_def align_mode makeText_mode split: sum.splits
           dest!: applyBoldSegments_mode)

lemma plainText_aligned:
  "textAlign (style node) = ''center'' \<or> textAlign (style node) = ''right'' \<Longrightarrow>
   plainText env node fam fn = Inr t \<Longrightarrow>
   t_textAutoResize t = WIDTH_AND_HEIGHT \<and> t_resized t = None"
  by (auto simp: plainText_def Let_def align_mode makeText_auto hideText_def
           split: sum.splits if_splits dest!: applyBoldSegments_mode)

lemma plainText_multi:
  "\<not> isSingleLine node \<Longrightarrow> textAlign (style node) \<noteq> ''center'' \<Longrightarrow>
   textAlign (style node) \<noteq> ''right'' \<Longrightarrow> plainText env node fam fn = Inr t \<Longrightarrow>
   t_textAutoResize t =
     (if 0 < (if isBlockDisplay (display (style node)) then calcFixedWidth node (nodeW node) else 0)
      then HEIGHT else WIDTH_AND_HEIGHT)
   \<and> t_resized t =
     (if 0 < (if isBlockDisplay (display (style node)) then calcFixedWidth node (nodeW node) else 0)
      then Some (max (if isBlockDisplay (display (style node))
                      then calcFixedWidth node (nodeW node) else 0) 10, 20)
      else None)"
  by (auto simp: plainText_def Let_def align_mode makeText_mode hideText_def
           split: sum.splits dest!: applyBoldSegments_mode)

lemma leaf_built:
  "isTextLeaf node \<Longrightarrow> buildTree env node st = (Inr out, st') \<Longrightarrow>
   (isBoxedLeaf node \<longrightarrow>
      (\<exists>t. out = FRAME (boxFrame node) [TEXT t]
           \<and> boxedText env node (mapFontFamily (fontFamily (style node)))
                (projr (loadBestFont env (mapFontFamily (fontFamily (style node)))
                   (weightToFigmaStyle (fontWeight (style node)) (isItalicStyle (style node)))))
              = Inr t))
   \<and> (\<not> isBoxedLeaf node \<longrightarrow>
      (\<exists>t. out = TEXT t
           \<and> plainText env node (mapFontFamily (fontFamily (style node)))
                (projr (loadBestFont env (mapFontFamily (fontFamily (style node)))
                   (weightToFigmaStyle (fontWeight (style node)) (isItalicStyle (style node)))))
              = Inr t))"
  by (auto simp: buildTree_leaf buildTextLeaf_def Let_def isBoxedLeaf_def
           split: sum.splits if_splits)

text \<open>
  Claim C7. A text leaf is single-line exactly when its height \<open>h\<close>, the height of its
  rectangle clamped to at least 1, is below 3.5 times its font size, and \<open>buildTree\<close> lays
  a text leaf out by that test. With \<open>h\<close> below 3.5 times the font size the text node of the
  leaf, boxed or plain, is in the mode \<open>WIDTH_AND_HEIGHT\<close> and was never resized to a fixed
  width. With \<open>h\<close> at or above 3.5 times the font size, so at exactly 3.5 times the font
  size, the multi-line policy applies: the text of a boxed leaf is in the mode \<open>HEIGHT\<close>
  with the width of the frame less its horizontal padding, at least 10, so a boxed leaf is
  auto-width if and only if \<open>h\<close> is below 3.5 times the font size; the text of a plain
  leaf that is neither centred nor right-aligned is in the mode \<open>HEIGHT\<close> with the width
  \<open>calcFixedWidth\<close> gives when the display is a block display and that width is positive,
  and auto-width else. A plain leaf that is centred or right-aligned is auto-width at every
  height.
\<close>

theorem single_line_boundary:
  assumes "isTextLeaf node" and "buildTree env node st = (Inr out, st')"
  shows "\<exists>t. leafText out = Some t
     \<and> (isSingleLine node
          \<longleftrightarrow> max (rect_height (rect node)) 1 < 3.5 * fontSize (style node))
     \<and> (max (rect_height (rect node)) 1 < 3.5 * fontSize (style node)
          \<longrightarrow> t_textAutoResize t = WIDTH_AND_HEIGHT \<and> t_resized t = None)
     \<and> (isBoxedLeaf node
          \<longrightarrow> (t_textAutoResize t = WIDTH_AND_HEIGHT
                 \<longleftrightarrow> max (rect_height (rect node)) 1 < 3.5 * fontSize (style node)))
     \<and> (isBoxedLeaf node
          \<and> \<not> max (rect_height (rect node)) 1 < 3.5 * fontSize (style node)
          \<longrightarrow> t_textAutoResize t = HEIGHT
              \<and> t_resized t
                  = Some (max (max (rect_width (rect node)) 1 - paddingLeft (style node)
                                 - paddingRight (style node)) 10, 20))
     \<and> (\<not> isBoxedLeaf node
          \<and> textAlign (style node) \<noteq> ''center'' \<and> textAlign (style node) \<noteq> ''right''
          \<and> \<not> max (rect_height (rect node)) 1 < 3.5 * fontSize (style node)
          \<and> isBlockDisplay (display (style node))
          \<and> 0 < calcFixedWidth node (max (rect_width (rect node)) 1)
          \<longrightarrow> t_textAutoResize t = HEIGHT
              \<and> t_resized t
                  = Some (max (calcFixedWidth node (max (rect_width (rect node)) 1)) 10, 20))
     \<and> (\<not> isBoxedLeaf node
          \<and> textAlign (style node) \<noteq> ''center'' \<and> textAlign (style node) \<noteq> ''right''
          \<and> \<not> max (rect_height (rect node)) 1 < 3.5 * fontSize (style node)
          \<and> \<not> (isBlockDisplay (display (style node))
                 \<and> 0 < calcFixedWidth node (max (rect_width (rect node)) 1))
          \<longrightarrow> t_textAutoResize t = WIDTH_AND_HEIGHT \<and> t_resized t = None)
     \<and> (\<not> isBoxedLeaf node
          \<and> (textAlign (style node) = ''center'' \<or> textAlign (style node) = ''right'')
          \<longrightarrow> t_textAutoResize t = WIDTH_AND_HEIGHT \<and> t_resized t = None)"
proof (cases "isBoxedLeaf node")
  case True
  with leaf_built [OF assms] obtain t where out: "out = FRAME (boxFrame node) [TEXT t]"
    and t: "boxedText env node (mapFontFamily (fontFamily (style node)))
                (projr (loadBestFont env (mapFontFamily (fontFamily (style node)))
                   (weightToFigmaStyle (fontWeight (style node)) (isItalicStyle (style node)))))
              = Inr t"
    by blast
  have single: "isSingleLine node \<Longrightarrow> t_textAutoResize t = WIDTH_AND_HEIGHT \<and> t_resized t = None"
    using boxedText_single [OF _ t] by blast
  have multi: "\<not> isSingleLine node \<Longrightarrow> t_textAutoResize t = HEIGHT
     \<and> t_resized t = Some (max (nodeW node - paddingLeft (style node) - paddingRight (style node)) 10, 20)"
    using boxedText_multi [OF _ t] by blast
  have leaf: "leafText out = Some t"
    by (simp add: out)
  have test: "(max (rect_height (rect node)) 1 < 3.5 * fontSize (style node)) = isSingleLine node"
    by (simp add: single_line_test)
  show ?thesis
    unfolding test
    by (rule exI [of _ t], cases "isSingleLine node")
       (simp_all add: True leaf single multi nodeW_def)
next
  case False
  with leaf_built [OF assms] obtain t where out: "out = TEXT t"
    and t: "plainText env node (mapFontFamily (fontFamily (style node)))
                (projr (loadBestFont env (mapFontFamily (fontFamily (style node)))
                   (weightToFigmaStyle (fontWeight (style node)) (isItalicStyle (style node)))))
              = Inr t"
    by blast
  have single: "isSingleLine node \<Longrightarrow> t_textAutoResize t = WIDTH_AND_HEIGHT \<and> t_resized t = None"
    using plainText_single [OF _ t] by blast
  have aligned: "textAlign (style node) = ''center'' \<or> textAlign (style node) = ''right'' \<Longrightarrow>
     t_textAutoResize t = WIDTH_AND_HEIGHT \<and> t_resized t = None"
    using plainText_aligned [OF _ t] by blast
  note multi = plainText_multi [OF _ _ _ t]
  have leaf: "leafText out = Some t"
    by (simp add: out)
  have test: "(max (rect_height (rect node)) 1 < 3.5 * fontSize (style node)) = isSingleLine node"
    by (simp add: single_line_test)
  show ?thesis
    unfolding test
    using single aligned multi
    by (intro exI [of _ t], cases "isSingleLine node") (auto simp: False leaf nodeW_def)
qed

lemma tallButton_boxed: "isBoxedLeaf (tallButton h)"
  by (simp add: tallButton_def example_defs leaf_defs colour_defs char_defs string_defs number_defs)

lemma shortParagraph_plain: "isTextLeaf (shortParagraph h)" "\<not> isBoxedLeaf (shortParagraph h)"
  by (simp_all add: shortParagraph_def example_defs leaf_defs colour_defs char_defs string_defs
        number_defs)

lemma built_with_fonts:
  assumes "loadFontAsync env \<lparr>family = ''Inter'', font_style = ''Regular''\<rparr>"
    and "isTextLeaf node"
  shows "buildTree env node emptyState =
           (Inr (projr (fst (buildTree env node emptyState))), snd (buildTree env node emptyState))"
  using buildTextLeaf_counts [OF assms, of emptyState]
  by (auto simp: buildTree_leaf [OF assms(2)])

theorem single_line_boundary_witness:
  "(\<exists>t. leafText (projr (fst (buildTree (sampleEnv allFonts) (tallButton 56) emptyState))) = Some t
        \<and> t_textAutoResize t = HEIGHT \<and> t_resized t = Some (100, 20))
   \<and> (\<exists>t. leafText (projr (fst (buildTree (sampleEnv allFonts) (tallButton 55) emptyState))) = Some t
        \<and> t_textAutoResize t = WIDTH_AND_HEIGHT \<and> t_resized t = None)
   \<and> (\<exists>t. leafText (projr (fst (buildTree (sampleEnv allFonts) (shortParagraph 56) emptyState)))
             = Some t
        \<and> t_textAutoResize t = HEIGHT \<and> t_resized t = Some (100, 20))
   \<and> (\<exists>t. leafText (projr (fst (buildTree (sampleEnv allFonts) (shortParagraph 55) emptyState)))
             = Some t
        \<and> t_textAutoResize t = WIDTH_AND_HEIGHT \<and> t_resized t = None)"
proof -
  let ?env = "sampleEnv allFonts"
  have inter: "loadFontAsync ?env \<lparr>family = ''Inter'', font_style = ''Regular''\<rparr>"
    by (simp add: example_defs)
  have leaf_b: "isTextLeaf (tallButton h)" for h
    using tallButton_boxed [of h] by (simp add: isBoxedLeaf_def)
  note leaf_p = shortParagraph_plain(1)
  have geometry_b: "max (rect_height (rect (tallButton h))) 1 = max h 1"
    "fontSize (style (tallButton h)) = 16" "max (rect_width (rect (tallButton h))) 1 = 100"
    "paddingLeft (style (tallButton h)) = 0" "paddingRight (style (tallButton h)) = 0" for h
    by (simp_all add: tallButton_def example_defs)
  have geometry_p: "max (rect_height (rect (shortParagraph h))) 1 = max h 1"
    "fontSize (style (shortParagraph h)) = 16"
    "textAlign (style (shortParagraph h)) = ''start''"
    "isBlockDisplay (display (style (shortParagraph h)))"
    "calcFixedWidth (shortParagraph h) (max (rect_width (rect (shortParagraph h))) 1) = 100" for h
    by (simp_all add: shortParagraph_def example_defs isBlockDisplay_def calcFixedWidth_def
          string_defs)
  note b56 = single_line_boundary [OF leaf_b built_with_fonts [OF inter leaf_b], of 56]
  note b55 = single_line_boundary [OF leaf_b built_with_fonts [OF inter leaf_b], of 55]
  note p56 = single_line_boundary [OF leaf_p built_with_fonts [OF inter leaf_p], of 56]
  note p55 = single_line_boundary [OF leaf_p built_with_fonts [OF inter leaf_p], of 55]
  have tall_b: "\<exists>t. leafText (projr (fst (buildTree ?env (tallButton 56) emptyState))) = Some t
        \<and> t_textAutoResize t = HEIGHT \<and> t_resized t = Some (100, 20)"
    using b56 tallButton_boxed [of 56] by (auto simp: geometry_b)
  have low_b: "\<exists>t. leafText (projr (fst (buildTree ?env (tallButton 55) emptyState))) = Some t
        \<and> t_textAutoResize t = WIDTH_AND_HEIGHT \<and> t_resized t = None"
    using b55 by (auto simp: geometry_b)
  have tall_p: "\<exists>t. leafText (projr (fst (buildTree ?env (shortParagraph 56) emptyState))) = Some t
        \<and> t_textAutoResize t = HEIGHT \<and> t_resized t = Some (100, 20)"
    using p56 shortParagraph_plain(2) [of 56] by (auto simp: geometry_p)
  have low_p: "\<exists>t. leafText (projr (fst (buildTree ?env (shortParagraph 55) emptyState))) = Some t
        \<and> t_textAutoResize t = WIDTH_AND_HEIGHT \<and> t_resized t = None"
    using p55 by (auto simp: geometry_p)
  show ?thesis
    using tall_b low_b tall_p low_p by blast
qed

subsection \<open>The counters of an import\<close>

lemma onmessage_tally:
  assumes "list_all (\<lambda>n. \<not> svgFallsBack env n) (traversedAll (children data))"
  shows "\<exists>page log. onmessage env data =
           (ImportDone (countedFrames (builtNodes env (traversedAll (children data))))
              (countedTexts (builtNodes env (traversedAll (children data)))), page, log)
         \<and> length log = length (thrownNodes env (traversedAll (children data)))"
proof -
  obtain outs st' where
    r: "buildChildren env ''[html-importer] child error:'' (children data) emptyState = (outs, st')"
    and t: "tally env (traversedAll (children data)) emptyState st'"
    using buildChildren_tally [OF _ assms] buildTree_tally by blast
  then show ?thesis
    by (simp add: onmessage_def tally_def emptyState_def)
qed

lemma counted_sum:
  "countedFrames nodes + countedTexts nodes = length nodes + length (filter isBoxedLeaf nodes)"
  using sum_length_filter_compl [of isTextLeaf nodes]
  by (simp add: countedFrames_def countedTexts_def)

lemma built_thrown_length:
  "length (builtNodes env nodes) + length (thrownNodes env nodes) = length nodes"
  using sum_length_filter_compl [of "leafThrows env" nodes]
  by (simp add: builtNodes_def thrownNodes_def)

lemma buttonPage_nodes: "traversedAll (children buttonPage) = [blueButton]"
  by (simp add: traversedAll_def example_defs truthy_def)

lemma blueButton_boxed: "isBoxedLeaf blueButton"
  by (simp add: example_defs leaf_defs colour_defs char_defs string_defs number_defs)

text \<open>
  Claim C2, as stated, at a page whose only node below the root is a button with a
  background: one node is traversed, and the reply counts one frame and one text.
\<close>

theorem boxed_leaf_counted_twice_counterexample:
  "fst (onmessage (sampleEnv allFonts) buttonPage) = ImportDone 1 1
   \<and> length (traversedAll (children buttonPage)) = 1"
proof -
  have inter: "loadFontAsync (sampleEnv allFonts) \<lparr>family = ''Inter'', font_style = ''Regular''\<rparr>"
    by (simp add: example_defs)
  have ok: "list_all (\<lambda>n. \<not> svgFallsBack (sampleEnv allFonts) n)
              (traversedAll (children buttonPage))"
    by (simp add: buttonPage_nodes svgFallsBack_def blueButton_def leafNode_def)
  have leaf: "isTextLeaf blueButton"
    using blueButton_boxed by (simp add: isBoxedLeaf_def)
  show ?thesis
    using onmessage_tally [OF ok]
    by (auto simp: all_built [OF inter] buttonPage_nodes countedFrames_def countedTexts_def
          blueButton_boxed leaf)
qed

text \<open>
  Claim C2, amended. When no traversed \<open>svg\<close> node ends in the placeholder, every traversed
  node is accounted for, once or twice: a text leaf whose construction throws by a line of
  the console and by no counter, every other traversed node by one counted node, and by two
  when it is a boxed text leaf, its frame and its text. The reply \<open>import-done\<close> counts
  one frame for every node built that is no text leaf or is a boxed text leaf, and one text
  for every text leaf built; so the two counters and the lines of the console add up to the
  number of traversed nodes plus the number of boxed text leaves built.
\<close>

theorem counters_of_import:
  assumes "list_all (\<lambda>n. \<not> svgFallsBack env n) (traversedAll (children data))"
  shows "\<exists>page log. onmessage env data =
           (ImportDone (countedFrames (builtNodes env (traversedAll (children data))))
              (countedTexts (builtNodes env (traversedAll (children data)))), page, log)
         \<and> length log = length (thrownNodes env (traversedAll (children data)))
         \<and> countedFrames (builtNodes env (traversedAll (children data)))
             + countedTexts (builtNodes env (traversedAll (children data)))
             + length log
           = length (traversedAll (children data))
             + length (filter isBoxedLeaf (builtNodes env (traversedAll (children data))))"
proof -
  obtain page log where reply: "onmessage env data =
           (ImportDone (countedFrames (builtNodes env (traversedAll (children data))))
              (countedTexts (builtNodes env (traversedAll (children data)))), page, log)"
    and log: "length log = length (thrownNodes env (traversedAll (children data)))"
    using onmessage_tally [OF assms] by blast
  have "countedFrames (builtNodes env (traversedAll (children data)))
             + countedTexts (builtNodes env (traversedAll (children data)))
             + length log
           = length (traversedAll (children data))
             + length (filter isBoxedLeaf (builtNodes env (traversedAll (children data))))"
    using counted_sum [of "builtNodes env (traversedAll (children data))"]
      built_thrown_length [of env "traversedAll (children data)"] log
    by simp
  with reply log show ?thesis
    by blast
qed

theorem counters_of_import_witness:
  "fst (onmessage (sampleEnv allFonts) mixedPage) = ImportDone 4 2
   \<and> snd (snd (onmessage (sampleEnv allFonts) mixedPage)) = []
   \<and> fst (onmessage (sampleEnv noFonts) mixedPage) = ImportDone 3 0
   \<and> length (snd (snd (onmessage (sampleEnv noFonts) mixedPage))) = 2
   \<and> length (traversedAll (children mixedPage)) = 5
   \<and> length (filter isBoxedLeaf (traversedAll (children mixedPage))) = 1"
proof -
  let ?env = "sampleEnv allFonts"
  let ?section = "boxNode ''section'' [sampleImage, sampleVector (Some ''<svg></svg>'')]"
  have inter: "loadFontAsync ?env \<lparr>family = ''Inter'', font_style = ''Regular''\<rparr>"
    by (simp add: example_defs)
  have nodes: "traversedAll (children mixedPage) =
      [helloParagraph 20, blueButton, ?section, sampleImage, sampleVector (Some ''<svg></svg>'')]"
    by (simp add: traversedAll_def example_defs truthy_def)
  have ok: "list_all (\<lambda>n. \<not> svgFallsBack env n) (traversedAll (children mixedPage))"
    if "createNodeFromSvg env = createNodeFromSvg ?env" for env
    unfolding nodes using that
    by (simp add: svgFallsBack_def example_defs isTextLeaf_def truthy_def)
  have leaves: "isTextLeaf (helloParagraph 20)" "isTextLeaf blueButton"
    "\<not> isTextLeaf ?section"
    "\<not> isTextLeaf sampleImage" "\<not> isTextLeaf (sampleVector (Some ''<svg></svg>''))"
    by (simp_all add: example_defs isTextLeaf_def truthy_def)
  have plain: "\<not> isBoxedLeaf (helloParagraph 20)"
    by (simp add: example_defs leaf_defs colour_defs char_defs string_defs number_defs)
  have unboxed:
    "\<not> isBoxedLeaf ?section"
    "\<not> isBoxedLeaf sampleImage" "\<not> isBoxedLeaf (sampleVector (Some ''<svg></svg>''))"
    by (simp_all add: isBoxedLeaf_def leaves)
  have frames: "countedFrames (traversedAll (children mixedPage)) = 4"
    unfolding nodes countedFrames_def
    by (simp add: leaves plain blueButton_boxed unboxed)
  have texts: "countedTexts (traversedAll (children mixedPage)) = 2"
    unfolding nodes countedTexts_def by (simp add: leaves)
  have boxed: "length (filter isBoxedLeaf (traversedAll (children mixedPage))) = 1"
    unfolding nodes by (simp add: plain blueButton_boxed unboxed)
  have throws: "leafThrows (sampleEnv noFonts) (helloParagraph 20)"
    "leafThrows (sampleEnv noFonts) blueButton"
    "\<not> leafThrows (sampleEnv noFonts) ?section"
    "\<not> leafThrows (sampleEnv noFonts) sampleImage"
    "\<not> leafThrows (sampleEnv noFonts) (sampleVector (Some ''<svg></svg>''))"
    using leaves by (simp_all add: no_fonts_throw) (simp_all add: leafThrows_def)
  have built: "builtNodes (sampleEnv noFonts) (traversedAll (children mixedPage))
                 = [?section, sampleImage, sampleVector (Some ''<svg></svg>'')]"
    and thrown: "thrownNodes (sampleEnv noFonts) (traversedAll (children mixedPage))
                 = [helloParagraph 20, blueButton]"
    unfolding nodes by (simp_all add: builtNodes_def thrownNodes_def throws)
  have frames': "countedFrames [?section, sampleImage, sampleVector (Some ''<svg></svg>'')] = 3"
    and texts': "countedTexts [?section, sampleImage, sampleVector (Some ''<svg></svg>'')] = 0"
    by (simp_all add: countedFrames_def countedTexts_def leaves unboxed)
  have ok_all: "list_all (\<lambda>n. \<not> svgFallsBack ?env n) (traversedAll (children mixedPage))"
    by (rule ok) simp
  have ok_none: "list_all (\<lambda>n. \<not> svgFallsBack (sampleEnv noFonts) n)
                   (traversedAll (children mixedPage))"
    by (rule ok) (simp add: sampleEnv_def)
  have all_fonts: "fst (onmessage ?env mixedPage) = ImportDone 4 2
      \<and> snd (snd (onmessage ?env mixedPage)) = []"
    using counters_of_import [OF ok_all] frames texts
    by (auto simp: all_built [OF inter])
  have no_fonts: "fst (onmessage (sampleEnv noFonts) mixedPage) = ImportDone 3 0
      \<and> length (snd (snd (onmessage (sampleEnv noFonts) mixedPage))) = 2"
    using counters_of_import [OF ok_none] frames' texts'
    by (auto simp: built thrown)
  show ?thesis
    using all_fonts no_fonts boxed nodes by simp
qed


subsection \<open>Paints and transparency\<close>

lemma paint_not_transparent: "toSolidPaint css = Some p \<Longrightarrow> \<not> isTransparent css"
  by (auto simp: toSolidPaint_def isTransparent_def parseColor_def split: option.splits if_splits)

lemma unparsed_not_transparent:
  "css \<noteq> [] \<Longrightarrow> css \<noteq> ''transparent'' \<Longrightarrow> css \<noteq> ''none'' \<Longrightarrow> parseColor css = None \<Longrightarrow>
   \<not> isTransparent css \<and> toSolidPaint css = None"
  by (simp add: isTransparent_def toSolidPaint_def)

lemma boxFrame_fills: "f_fills (boxFrame node) = frameFills (style node)"
  by (simp add: boxFrame_def applyFrameStyle_def Let_def)

lemma no_paint_no_fill:
  "toSolidPaint (backgroundColor sty) = None \<Longrightarrow>
   backgroundImage sty = [] \<or> backgroundImage sty = ''none'' \<Longrightarrow> frameFills sty = []"
  by (auto simp: frameFills_def)

lemma boxed_leaf_frame:
  "isBoxedLeaf node \<Longrightarrow> buildTree env node st = (Inr out, st') \<Longrightarrow>
   \<exists>t. out = FRAME (boxFrame node) [TEXT t]"
  by (auto simp: isBoxedLeaf_def buildTree_leaf buildTextLeaf_def Let_def
           split: sum.splits if_splits)

lemma unparsed_examples:
  "parseColor ''oklch(0.6 0.2 30)'' = None" "parseColor ''#ff0000'' = None"
  "parseColor ''rebeccapurple'' = None"
  by (simp_all add: colour_defs char_defs string_defs number_defs)

text \<open>
  Claim C10. Whenever \<open>toSolidPaint\<close> returns a paint for a colour string, \<open>isTransparent\<close>
  is false for it. The converse fails: for a string that is not empty, not \<open>transparent\<close> and
  not \<open>none\<close> and that \<open>parseColor\<close> does not parse (an \<open>oklch()\<close> colour, a hex colour, a
  keyword), \<open>isTransparent\<close> is false and \<open>toSolidPaint\<close> is \<open>null\<close>. A text leaf with such a
  background colour has \<open>hasBg\<close> true and is boxed; when it has no background image,
  \<open>buildTree\<close> wraps its text in a frame without any fill.
\<close>

theorem paint_implies_opaque:
  "(toSolidPaint css = Some p \<longrightarrow> \<not> isTransparent css)
   \<and> (css \<noteq> [] \<and> css \<noteq> ''transparent'' \<and> css \<noteq> ''none'' \<and> parseColor css = None
        \<longrightarrow> \<not> isTransparent css \<and> toSolidPaint css = None)
   \<and> parseColor ''oklch(0.6 0.2 30)'' = None
   \<and> parseColor ''#ff0000'' = None
   \<and> parseColor ''rebeccapurple'' = None
   \<and> (isTextLeaf node \<and> \<not> isTransparent (backgroundColor (style node))
        \<longrightarrow> hasBg (style node) \<and> isBoxedLeaf node)
   \<and> (isTextLeaf node \<and> \<not> isTransparent (backgroundColor (style node))
        \<and> toSolidPaint (backgroundColor (style node)) = None
        \<and> (backgroundImage (style node) = [] \<or> backgroundImage (style node) = ''none'')
        \<and> buildTree env node st = (Inr out, st')
        \<longrightarrow> (\<exists>frame t. out = FRAME frame [TEXT t] \<and> f_fills frame = []))"
proof -
  have boxed: "isTextLeaf node \<and> \<not> isTransparent (backgroundColor (style node))
                 \<longrightarrow> hasBg (style node) \<and> isBoxedLeaf node"
    by (simp add: isBoxedLeaf_def hasBg_def)
  have frame: "isTextLeaf node \<and> \<not> isTransparent (backgroundColor (style node))
        \<and> toSolidPaint (backgroundColor (style node)) = None
        \<and> (backgroundImage (style node) = [] \<or> backgroundImage (style node) = ''none'')
        \<and> buildTree env node st = (Inr out, st')
        \<longrightarrow> (\<exists>frame t. out = FRAME frame [TEXT t] \<and> f_fills frame = [])"
    using boxed boxed_leaf_frame [of node env st out st'] no_paint_no_fill [of "style node"]
    by (auto simp: boxFrame_fills)
  show ?thesis
    using paint_not_transparent [of css p] unparsed_not_transparent [of css] boxed frame
    by (simp add: unparsed_examples)
qed

lemma badge_facts:
  "isTextLeaf oklchBadge"
  "backgroundColor (style oklchBadge) = ''oklch(0.6 0.2 30)''"
  "backgroundImage (style oklchBadge) = []"
  by (simp_all add: example_defs isTextLeaf_def truthy_def)

lemma red_paint:
  "toSolidPaint ''rgb(255, 0, 0)''
     = Some (SOLID \<lparr>rgb_r = Num 1, rgb_g = Num 0, rgb_b = Num 0\<rparr> (Some (Num 1)))"
  by (simp add: toSolidPaint_def colour_defs char_defs string_defs number_defs)

theorem paint_implies_opaque_witness:
  "\<not> isTransparent ''rgb(255, 0, 0)''
   \<and> \<not> isTransparent ''oklch(0.6 0.2 30)''
   \<and> toSolidPaint ''oklch(0.6 0.2 30)'' = None
   \<and> hasBg (style oklchBadge)
   \<and> isBoxedLeaf oklchBadge
   \<and> (\<exists>frame t. projr (fst (buildTree (sampleEnv allFonts) oklchBadge emptyState))
                    = FRAME frame [TEXT t]
                \<and> f_fills frame = [])"
proof -
  let ?env = "sampleEnv allFonts"
  let ?out = "projr (fst (buildTree ?env oklchBadge emptyState))"
  note red = paint_implies_opaque
               [of "''rgb(255, 0, 0)''"
                   "SOLID \<lparr>rgb_r = Num 1, rgb_g = Num 0, rgb_b = Num 0\<rparr> (Some (Num 1))"]
  note badge = paint_implies_opaque
                 [of "''oklch(0.6 0.2 30)''" undefined oklchBadge ?env emptyState ?out
                     "snd (buildTree ?env oklchBadge emptyState)"]
  from red red_paint have opaque: "\<not> isTransparent ''rgb(255, 0, 0)''"
    by blast
  have unparsed: "''oklch(0.6 0.2 30)'' \<noteq> [] \<and> ''oklch(0.6 0.2 30)'' \<noteq> ''transparent''
                  \<and> ''oklch(0.6 0.2 30)'' \<noteq> ''none'' \<and> parseColor ''oklch(0.6 0.2 30)'' = None"
    using badge by simp
  from badge unparsed
  have solid: "\<not> isTransparent ''oklch(0.6 0.2 30)'' \<and> toSolidPaint ''oklch(0.6 0.2 30)'' = None"
    by blast
  have leaf: "isTextLeaf oklchBadge \<and> \<not> isTransparent (backgroundColor (style oklchBadge))"
    using solid by (simp add: badge_facts)
  from badge leaf have boxed: "hasBg (style oklchBadge) \<and> isBoxedLeaf oklchBadge"
    by blast
  have inter: "loadFontAsync ?env \<lparr>family = ''Inter'', font_style = ''Regular''\<rparr>"
    by (simp add: example_defs)
  have built: "buildTree ?env oklchBadge emptyState =
                 (Inr ?out, snd (buildTree ?env oklchBadge emptyState))"
    using buildTextLeaf_counts [OF inter badge_facts(1), of emptyState]
    by (auto simp: buildTree_leaf [OF badge_facts(1)])
  have hyp: "isTextLeaf oklchBadge \<and> \<not> isTransparent (backgroundColor (style oklchBadge))
        \<and> toSolidPaint (backgroundColor (style oklchBadge)) = None
        \<and> (backgroundImage (style oklchBadge) = [] \<or> backgroundImage (style oklchBadge) = ''none'')
        \<and> buildTree ?env oklchBadge emptyState
            = (Inr ?out, snd (buildTree ?env oklchBadge emptyState))"
    using solid built by (simp add: badge_facts)
  from badge hyp have frame: "\<exists>frame t. ?out = FRAME frame [TEXT t] \<and> f_fills frame = []"
    by blast
  show ?thesis
    using opaque solid boxed frame by blast
qed

subsection \<open>Exceptions of a subtree\<close>

lemma shift_empty [simp]: "shift st emptyState = st" "shift emptyState st = st"
  by (simp_all add: shift_def emptyState_def)

lemma shift_assoc: "shift (shift a b) c = shift a (shift b c)"
  by (simp add: shift_def)

lemma shift_counts [simp]:
  "frameCount (shift a b) = frameCount a + frameCount b"
  "textCount (shift a b) = textCount a + textCount b"
  "console (shift a b) = console a @ console b"
  by (simp_all add: shift_def)

lemma buildTextLeaf_shift:
  "buildTextLeaf env node st =
     (fst (buildTextLeaf env node emptyState), shift st (snd (buildTextLeaf env node emptyState)))"
  by (simp add: buildTextLeaf_def Let_def shift_def emptyState_def split: sum.splits)

lemma buildSvg_shift:
  "buildSvg env node st =
     (fst (buildSvg env node emptyState), shift st (snd (buildSvg env node emptyState)))"
  by (simp add: buildSvg_def shift_def emptyState_def split: option.splits)

lemma buildImg_shift:
  "buildImg node st = (fst (buildImg node emptyState), shift st (snd (buildImg node emptyState)))"
  by (simp add: buildImg_def shift_def emptyState_def)

lemma buildChildren_shift:
  assumes "\<And>k st. k \<in> set kids \<Longrightarrow>
             buildTree env k st =
               (fst (buildTree env k emptyState), shift st (snd (buildTree env k emptyState)))"
  shows "buildChildren env line kids st =
           (fst (buildChildren env line kids emptyState),
            shift st (snd (buildChildren env line kids emptyState)))"
  using assms
proof (induction kids arbitrary: st)
  case Nil
  then show ?case by simp
next
  case (Cons k ks)
  have k: "\<And>s. buildTree env k s =
             (fst (buildTree env k emptyState), shift s (snd (buildTree env k emptyState)))"
    by (rule Cons.prems) simp
  have ks: "\<And>s. buildChildren env line ks s =
             (fst (buildChildren env line ks emptyState),
              shift s (snd (buildChildren env line ks emptyState)))"
    by (rule Cons.IH) (rule Cons.prems, simp)
  obtain r d where rd: "buildTree env k emptyState = (r, d)"
    by (cases "buildTree env k emptyState")
  obtain ns e where nse: "buildChildren env line ks emptyState = (ns, e)"
    by (cases "buildChildren env line ks emptyState")
  have at_st: "buildTree env k st = (r, shift st d)"
    using k [of st] rd by simp
  show ?case
  proof (cases r)
    case (Inl err)
    have "buildChildren env line (k # ks) st
            = buildChildren env line ks ((shift st d)\<lparr>console := console (shift st d) @ [(line, err)]\<rparr>)"
      by (simp add: at_st Inl)
    also have "\<dots> = (ns, shift ((shift st d)\<lparr>console := console (shift st d) @ [(line, err)]\<rparr>) e)"
      using ks [of "(shift st d)\<lparr>console := console (shift st d) @ [(line, err)]\<rparr>"] nse by simp
    finally have lhs: "buildChildren env line (k # ks) st
        = (ns, shift ((shift st d)\<lparr>console := console (shift st d) @ [(line, err)]\<rparr>) e)" .
    have "buildChildren env line (k # ks) emptyState
            = buildChildren env line ks (d\<lparr>console := console d @ [(line, err)]\<rparr>)"
      by (simp add: rd Inl)
    also have "\<dots> = (ns, shift (d\<lparr>console := console d @ [(line, err)]\<rparr>) e)"
      using ks [of "d\<lparr>console := console d @ [(line, err)]\<rparr>"] nse by simp
    finally have rhs: "buildChildren env line (k # ks) emptyState
        = (ns, shift (d\<lparr>console := console d @ [(line, err)]\<rparr>) e)" .
    show ?thesis
      by (simp only: lhs rhs) (simp add: shift_def)
  next
    case (Inr n)
    have lhs: "buildChildren env line (k # ks) st = (n # ns, shift (shift st d) e)"
      using ks [of "shift st d"] nse by (simp add: at_st Inr)
    have rhs: "buildChildren env line (k # ks) emptyState = (n # ns, shift d e)"
      using ks [of d] nse by (simp add: rd Inr)
    show ?thesis
      by (simp only: lhs rhs) (simp add: shift_assoc)
  qed
qed

lemma buildTree_shift:
  "buildTree env node st =
     (fst (buildTree env node emptyState), shift st (snd (buildTree env node emptyState)))"
proof (induction node arbitrary: st)
  case (DomNodeData tag tx segs img svg rc vis sty kids)
  let ?node = "DomNodeData tag tx segs img svg rc vis sty kids"
  let ?line = "''[html-importer] buildTree error:''"
  have kids: "\<And>s. buildChildren env ?line kids s =
           (fst (buildChildren env ?line kids emptyState),
            shift s (snd (buildChildren env ?line kids emptyState)))"
    using buildChildren_shift [of kids env] DomNodeData.IH by blast
  obtain ns e where nse: "buildChildren env ?line kids emptyState = (ns, e)"
    by (cases "buildChildren env ?line kids emptyState")
  have at_st: "buildChildren env ?line kids st = (ns, shift st e)"
    using kids [of st] nse by simp
  show ?case
  proof (cases "truthy tx \<and> kids = []")
    case True
    have "buildTree env ?node s = buildTextLeaf env ?node s" for s
      by (simp add: True)
    then show ?thesis
      using buildTextLeaf_shift [of env ?node st] by simp
  next
    case nonleaf: False
    show ?thesis
    proof (cases "tag = ''svg''")
      case True
      have "buildTree env ?node s = buildSvg env ?node s" for s
        by (simp add: nonleaf True)
      then show ?thesis
        using buildSvg_shift [of env ?node st] by simp
    next
      case notsvg: False
      show ?thesis
      proof (cases "tag = ''img''")
        case True
        have "buildTree env ?node s = buildImg ?node s" for s
          by (simp add: nonleaf notsvg True)
        then show ?thesis
          using buildImg_shift [of ?node st] by simp
      next
        case False
        have "buildTree env ?node s =
                (case buildChildren env ?line kids s of
                   (built, st1) \<Rightarrow>
                     (Inr (FRAME (containerFrame ?node) built),
                      st1\<lparr>frameCount := frameCount st1 + 1\<rparr>))" for s
          by (simp add: nonleaf notsvg False)
        then show ?thesis
          by (simp add: at_st nse shift_def)
      qed
    qed
  qed
qed

lemma failure_keeps_state:
  "fst (buildTree env node st) = Inl err \<Longrightarrow> snd (buildTree env node st) = st"
  by (cases node)
     (auto simp: buildTextLeaf_def buildSvg_def buildImg_def Let_def
           split: if_splits sum.splits option.splits prod.splits)

lemma container_never_throws:
  "\<not> isTextLeaf node \<Longrightarrow> \<exists>out. fst (buildTree env node st) = Inr out"
  by (cases node)
     (auto simp: isTextLeaf_def buildSvg_def buildImg_def split: option.splits prod.splits)

lemma failure_any_state:
  "fst (buildTree env node st) = Inl err \<Longrightarrow> buildTree env node s = (Inl err, s)"
proof -
  assume f: "fst (buildTree env node st) = Inl err"
  then have e: "fst (buildTree env node emptyState) = Inl err"
    using buildTree_shift [of env node st] by simp
  then have "snd (buildTree env node emptyState) = emptyState"
    by (rule failure_keeps_state)
  with e show ?thesis
    using buildTree_shift [of env node s] by simp
qed

lemma failure_is_leaf:
  "fst (buildTree env node st) = Inl err \<Longrightarrow> isTextLeaf node"
  using container_never_throws [of node env st] by auto

lemma loadBestFont_fails_iff:
  "loadBestFont env fam sty = Inl CannotLoadAnyFont
     \<longleftrightarrow> list_all (\<lambda>fn. \<not> loadFontAsync env fn) (fontCandidates fam sty)"
  by (simp add: loadBestFont_def tryFonts_fail)

lemma throwing_leaf:
  assumes "leafThrows env child"
  shows "buildTree env child st = (Inl CannotLoadAnyFont, st)"
proof -
  from assms have leaf: "isTextLeaf child"
    by (simp add: leafThrows_def)
  show ?thesis
    using leaf_outcome(1) [OF leaf assms, of st] by (simp add: buildTree_leaf [OF leaf])
qed

lemma throws_iff:
  "leafThrows env child \<longleftrightarrow> (\<exists>err. fst (buildTree env child st) = Inl err)"
proof
  assume "leafThrows env child"
  then show "\<exists>err. fst (buildTree env child st) = Inl err"
    by (simp add: throwing_leaf)
next
  assume "\<exists>err. fst (buildTree env child st) = Inl err"
  then obtain err where f: "fst (buildTree env child st) = Inl err"
    by blast
  then have leaf: "isTextLeaf child"
    by (rule failure_is_leaf)
  from f have "buildTree env child emptyState = (Inl err, emptyState)"
    by (rule failure_any_state)
  then show "leafThrows env child"
    using leaf by (simp add: leafThrows_def buildTree_leaf [OF leaf, symmetric])
qed

lemma built_alone:
  assumes "\<not> leafThrows env sibling"
  shows "buildTree env sibling st =
           (Inr (builtNode env sibling), shift st (snd (buildTree env sibling emptyState)))"
proof -
  from assms have "\<not> isl (fst (buildTree env sibling emptyState))"
    using throws_iff [of env sibling emptyState] by (auto simp: isl_def)
  then have "fst (buildTree env sibling emptyState) = Inr (builtNode env sibling)"
    by (cases "fst (buildTree env sibling emptyState)") (simp_all add: builtNode_def)
  then show ?thesis
    using buildTree_shift [of env sibling st] by simp
qed

lemma buildChildren_built:
  "buildChildren env line kids st =
     (map (builtNode env) (builtNodes env kids), foldl shift st (map (childEffect env line) kids))"
proof (induction kids arbitrary: st)
  case Nil
  show ?case by (simp add: builtNodes_def)
next
  case (Cons k ks)
  show ?case
  proof (cases "leafThrows env k")
    case True
    have state: "st\<lparr>console := console st @ [(line, CannotLoadAnyFont)]\<rparr>
                   = shift st (childEffect env line k)"
      by (simp add: shift_def childEffect_def True)
    show ?thesis
      by (simp add: throwing_leaf [OF True, where st = st] Cons.IH state builtNodes_def True)
  next
    case False
    have effect: "childEffect env line k = snd (buildTree env k emptyState)"
      by (simp add: childEffect_def False)
    show ?thesis
      by (simp add: built_alone [OF False, where st = st] Cons.IH effect builtNodes_def False)
  qed
qed

lemma never_throws: "\<not> isTextLeaf node \<Longrightarrow> \<not> leafThrows env node"
  by (simp add: leafThrows_def)

lemma container_built:
  assumes "\<not> isTextLeaf node" and "tagName node \<noteq> ''svg''" and "tagName node \<noteq> ''img''"
  shows "buildTree env node st =
           (Inr (FRAME (containerFrame node) (map (builtNode env) (builtNodes env (children node)))),
            (foldl shift st
               (map (childEffect env ''[html-importer] buildTree error:'') (children node)))
              \<lparr>frameCount :=
                 frameCount (foldl shift st
                   (map (childEffect env ''[html-importer] buildTree error:'') (children node)))
                 + 1\<rparr>)"
  using assms
  by (cases node) (auto simp: isTextLeaf_def buildChildren_built)

lemma onmessage_built:
  "onmessage env data =
     (ImportDone
        (frameCount (foldl shift emptyState
           (map (childEffect env ''[html-importer] child error:'') (children data))))
        (textCount (foldl shift emptyState
           (map (childEffect env ''[html-importer] child error:'') (children data)))),
      FRAME (rootFrame env data) (map (builtNode env) (builtNodes env (children data))),
      console (foldl shift emptyState
           (map (childEffect env ''[html-importer] child error:'') (children data))))"
  by (simp add: onmessage_def buildChildren_built)

text \<open>
  Claim C9. \<open>loadBestFont\<close> throws exactly when every candidate of its ladder fails to
  load. A call of \<open>buildTree\<close> throws exactly on a text leaf that throws, and then leaves
  the counters and the console as they were. A node that does not throw is built as it is
  built on its own, whatever the state and whatever its siblings. The loop over the
  children catches the exception of a child: it returns, in their order, the nodes of
  exactly the children that do not throw, and it adds to the state, child by child, the
  console line of a child that throws and what a child that is built adds on its own. A
  node that is no text leaf never throws, and a container is built as its frame around the
  nodes of those of its children that do not throw, so the exception of a descendant ends
  at its parent. The handler replies \<open>import-done\<close> in every case, with the counters the
  loop over the children of the root reaches; the root frame holds the nodes of exactly
  those children that do not throw, and the console a line for each child that throws.
\<close>

theorem failing_subtree_is_skipped:
  "(loadBestFont env fam weightStyle = Inl CannotLoadAnyFont
      \<longleftrightarrow> list_all (\<lambda>fn. \<not> loadFontAsync env fn) (fontCandidates fam weightStyle))
   \<and> (leafThrows env child \<longleftrightarrow> (\<exists>err. fst (buildTree env child st) = Inl err))
   \<and> (leafThrows env child
        \<longrightarrow> isTextLeaf child \<and> buildTree env child st = (Inl CannotLoadAnyFont, st))
   \<and> (\<not> leafThrows env sibling
        \<longrightarrow> buildTree env sibling st =
              (Inr (builtNode env sibling), shift st (snd (buildTree env sibling emptyState))))
   \<and> buildChildren env line kids st =
       (map (builtNode env) (builtNodes env kids),
        foldl shift st (map (childEffect env line) kids))
   \<and> (\<not> isTextLeaf node \<longrightarrow> \<not> leafThrows env node)
   \<and> (\<not> isTextLeaf node \<and> tagName node \<noteq> ''svg'' \<and> tagName node \<noteq> ''img''
        \<longrightarrow> buildTree env node st =
              (Inr (FRAME (containerFrame node)
                      (map (builtNode env) (builtNodes env (children node)))),
               (foldl shift st
                  (map (childEffect env ''[html-importer] buildTree error:'') (children node)))
                 \<lparr>frameCount :=
                    frameCount (foldl shift st
                      (map (childEffect env ''[html-importer] buildTree error:'')
                         (children node)))
                    + 1\<rparr>))
   \<and> onmessage env data =
       (ImportDone
          (frameCount (foldl shift emptyState
             (map (childEffect env ''[html-importer] child error:'') (children data))))
          (textCount (foldl shift emptyState
             (map (childEffect env ''[html-importer] child error:'') (children data)))),
        FRAME (rootFrame env data) (map (builtNode env) (builtNodes env (children data))),
        console (foldl shift emptyState
             (map (childEffect env ''[html-importer] child error:'') (children data))))"
proof (intro conjI impI)
  show "loadBestFont env fam weightStyle = Inl CannotLoadAnyFont
      \<longleftrightarrow> list_all (\<lambda>fn. \<not> loadFontAsync env fn) (fontCandidates fam weightStyle)"
    by (rule loadBestFont_fails_iff)
  show "leafThrows env child \<longleftrightarrow> (\<exists>err. fst (buildTree env child st) = Inl err)"
    by (rule throws_iff)
  show "isTextLeaf child" if "leafThrows env child"
    using that by (simp add: leafThrows_def)
  show "buildTree env child st = (Inl CannotLoadAnyFont, st)" if "leafThrows env child"
    using that by (rule throwing_leaf)
  show "buildTree env sibling st =
          (Inr (builtNode env sibling), shift st (snd (buildTree env sibling emptyState)))"
    if "\<not> leafThrows env sibling"
    using that by (rule built_alone)
  show "buildChildren env line kids st =
       (map (builtNode env) (builtNodes env kids),
        foldl shift st (map (childEffect env line) kids))"
    by (rule buildChildren_built)
  show "\<not> leafThrows env node" if "\<not> isTextLeaf node"
    using that by (rule never_throws)
  show "buildTree env node st =
              (Inr (FRAME (containerFrame node)
                      (map (builtNode env) (builtNodes env (children node)))),
               (foldl shift st
                  (map (childEffect env ''[html-importer] buildTree error:'') (children node)))
                 \<lparr>frameCount :=
                    frameCount (foldl shift st
                      (map (childEffect env ''[html-importer] buildTree error:'')
                         (children node)))
                    + 1\<rparr>)"
    if "\<not> isTextLeaf node \<and> tagName node \<noteq> ''svg'' \<and> tagName node \<noteq> ''img''"
    using that by (simp add: container_built)
  show "onmessage env data =
       (ImportDone
          (frameCount (foldl shift emptyState
             (map (childEffect env ''[html-importer] child error:'') (children data))))
          (textCount (foldl shift emptyState
             (map (childEffect env ''[html-importer] child error:'') (children data)))),
        FRAME (rootFrame env data) (map (builtNode env) (builtNodes env (children data))),
        console (foldl shift emptyState
             (map (childEffect env ''[html-importer] child error:'') (children data))))"
    by (rule onmessage_built)
qed

theorem failing_subtree_is_skipped_witness:
  "loadBestFont (sampleEnv noFonts) ''Inter'' ''Light'' = Inl CannotLoadAnyFont
   \<and> buildTree (sampleEnv noFonts) (helloParagraph 20) emptyState
       = (Inl CannotLoadAnyFont, emptyState)
   \<and> (\<exists>a b. onmessage (sampleEnv noFonts) nestedPage =
         (ImportDone 3 0,
          FRAME (rootFrame (sampleEnv noFonts) nestedPage)
            [FRAME (containerFrame (boxNode ''section'' [helloParagraph 20, sampleImage]))
               [RECTANGLE a],
             SVG b],
          [(''[html-importer] buildTree error:'', CannotLoadAnyFont),
           (''[html-importer] child error:'', CannotLoadAnyFont)])
        \<and> r_name a = ''img (placeholder)'' \<and> s_name b = ''svg-icon'')"
proof -
  let ?env = "sampleEnv noFonts"
  let ?p = "helloParagraph 20"
  let ?section = "boxNode ''section'' [?p, sampleImage]"
  let ?vector = "sampleVector (Some ''<svg></svg>'')"
  let ?BT = "''[html-importer] buildTree error:''"
  let ?CE = "''[html-importer] child error:''"
  note font = failing_subtree_is_skipped [where env = ?env and fam = "''Inter''"
      and weightStyle = "''Light''"]
  note para = failing_subtree_is_skipped [where env = ?env and child = ?p and st = emptyState]
  note img = failing_subtree_is_skipped [where env = ?env and sibling = sampleImage
      and node = sampleImage and st = emptyState]
  note vec = failing_subtree_is_skipped [where env = ?env and sibling = ?vector
      and node = ?vector and st = emptyState]
  note sec = failing_subtree_is_skipped [where env = ?env and node = ?section
      and sibling = ?section and st = emptyState]
  note page = failing_subtree_is_skipped [where env = ?env and data = nestedPage]
  have none: "list_all (\<lambda>fn. \<not> loadFontAsync ?env fn) (fontCandidates ''Inter'' ''Light'')"
    by (simp add: list_all_iff sampleEnv_def noFonts_def)
  from font none have c1: "loadBestFont ?env ''Inter'' ''Light'' = Inl CannotLoadAnyFont"
    by blast
  have leaf: "isTextLeaf ?p"
    by (simp add: example_defs isTextLeaf_def truthy_def)
  have throws: "leafThrows ?env ?p"
    by (rule no_fonts_throw [OF leaf])
  from para throws have c2: "buildTree ?env ?p emptyState = (Inl CannotLoadAnyFont, emptyState)"
    by blast
  have shapes: "\<not> isTextLeaf sampleImage" "\<not> isTextLeaf ?vector" "\<not> isTextLeaf ?section"
    "tagName ?section \<noteq> ''svg''" "tagName ?section \<noteq> ''img''"
    by (simp_all add: example_defs isTextLeaf_def truthy_def)
  from img shapes have t_img: "\<not> leafThrows ?env sampleImage" by blast
  from vec shapes have t_vec: "\<not> leafThrows ?env ?vector" by blast
  from sec shapes have t_sec: "\<not> leafThrows ?env ?section" by blast
  have b_img: "buildTree ?env sampleImage emptyState
                 = (fst (buildImg sampleImage emptyState), \<lparr>frameCount = 1, textCount = 0, console = []\<rparr>)"
    by (simp add: example_defs truthy_def buildImg_def emptyState_def)
  have b_vec: "buildTree ?env ?vector emptyState
                 = (Inr (SVG (svgIcon ?vector ''<svg></svg>'' (24, 24))),
                    \<lparr>frameCount = 1, textCount = 0, console = []\<rparr>)"
    by (simp add: example_defs truthy_def buildSvg_def emptyState_def)
  have n_img: "builtNode ?env sampleImage = projr (fst (buildImg sampleImage emptyState))"
    by (simp add: builtNode_def b_img)
  have n_vec: "builtNode ?env ?vector = SVG (svgIcon ?vector ''<svg></svg>'' (24, 24))"
    by (simp add: builtNode_def b_vec)
  have kids_sec: "children ?section = [?p, sampleImage]"
    by (simp add: boxNode_def)
  have effects:
    "childEffect ?env line ?p = \<lparr>frameCount = 0, textCount = 0, console = [(line, CannotLoadAnyFont)]\<rparr>"
    "childEffect ?env line sampleImage = \<lparr>frameCount = 1, textCount = 0, console = []\<rparr>"
    "childEffect ?env line ?vector = \<lparr>frameCount = 1, textCount = 0, console = []\<rparr>" for line
    by (simp_all add: childEffect_def throws t_img t_vec b_img b_vec)
  from sec shapes have raw_sec: "buildTree ?env ?section emptyState =
      (Inr (FRAME (containerFrame ?section)
              (map (builtNode ?env) (builtNodes ?env (children ?section)))),
       (foldl shift emptyState (map (childEffect ?env ?BT) (children ?section)))
         \<lparr>frameCount :=
            frameCount (foldl shift emptyState (map (childEffect ?env ?BT) (children ?section)))
            + 1\<rparr>)"
    by blast
  have b_sec: "buildTree ?env ?section emptyState =
      (Inr (FRAME (containerFrame ?section) [builtNode ?env sampleImage]),
       \<lparr>frameCount = 2, textCount = 0, console = [(?BT, CannotLoadAnyFont)]\<rparr>)"
    unfolding raw_sec kids_sec
    by (simp add: builtNodes_def throws t_img effects shift_def emptyState_def)
  have n_sec: "builtNode ?env ?section = FRAME (containerFrame ?section) [builtNode ?env sampleImage]"
    by (simp add: builtNode_def b_sec)
  have e_sec: "childEffect ?env line ?section
                 = \<lparr>frameCount = 2, textCount = 0, console = [(?BT, CannotLoadAnyFont)]\<rparr>" for line
    by (simp add: childEffect_def t_sec b_sec)
  have kids_page: "children nestedPage = [?section, ?p, ?vector]"
    by (simp add: nestedPage_def boxNode_def)
  from page have raw_page: "onmessage ?env nestedPage =
       (ImportDone
          (frameCount (foldl shift emptyState (map (childEffect ?env ?CE) (children nestedPage))))
          (textCount (foldl shift emptyState (map (childEffect ?env ?CE) (children nestedPage)))),
        FRAME (rootFrame ?env nestedPage)
          (map (builtNode ?env) (builtNodes ?env (children nestedPage))),
        console (foldl shift emptyState (map (childEffect ?env ?CE) (children nestedPage))))"
    by blast
  have reply: "onmessage ?env nestedPage =
         (ImportDone 3 0,
          FRAME (rootFrame ?env nestedPage)
            [FRAME (containerFrame ?section) [builtNode ?env sampleImage], builtNode ?env ?vector],
          [(?BT, CannotLoadAnyFont), (?CE, CannotLoadAnyFont)])"
    unfolding raw_page kids_page
    by (simp add: builtNodes_def throws t_sec t_vec effects e_sec n_sec shift_def emptyState_def)
  have r: "\<exists>a. builtNode ?env sampleImage = RECTANGLE a \<and> r_name a = ''img (placeholder)''"
    unfolding n_img by (simp add: buildImg_def example_defs truthy_def)
  have s: "\<exists>b. builtNode ?env ?vector = SVG b \<and> s_name b = ''svg-icon''"
    unfolding n_vec by (simp add: svgIcon_def Let_def)
  show ?thesis
    using c1 c2 reply r s by auto
qed


subsection \<open>Text and children of an extracted node\<close>

lemma pseudo_is_leaf:
  "extractPseudoElement env elCs pcs pseudo = Some n \<Longrightarrow> children n = [] \<and> textXorChildren n"
  by (auto simp: extractPseudoElement_def Let_def split: option.splits if_splits)

lemma textChild_leaves: "list_all textXorChildren (textChild env cs r d tr)"
  by (simp add: textChild_def)

lemma svgNode_leaf: "textXorChildren (svgNode env el r parentRect)"
  by (simp add: svgNode_def)

lemma withPseudo_ok:
  "list_all textXorChildren kids \<Longrightarrow> list_all textXorChildren (withPseudo env el cs kids)"
  by (auto simp: withPseudo_def split: option.splits dest: pseudo_is_leaf)

lemma demotedChild_leaf: "textXorChildren (demotedChild env cs r tx segs)"
  by (simp add: demotedChild_def Let_def)

lemma demoteText_ok:
  "list_all textXorChildren kids \<Longrightarrow> demoteText env cs r tx segs kids = (tx', segs', kids') \<Longrightarrow>
   \<not> (truthy tx' \<and> kids' \<noteq> []) \<and> list_all textXorChildren kids'"
  by (auto simp: demoteText_def truthy_def demotedChild_leaf split: if_splits)

lemma finishNode_ok:
  "list_all textXorChildren kids \<Longrightarrow>
   textXorChildren (finishNode env el tag cs r parentRect tx segs isPlaceholder kids)"
proof -
  assume kids: "list_all textXorChildren kids"
  obtain tx' segs' kids' where
    d: "demoteText env cs r tx segs (withPseudo env el cs kids) = (tx', segs', kids')"
    by (cases "demoteText env cs r tx segs (withPseudo env el cs kids)") auto
  from demoteText_ok [OF withPseudo_ok [OF kids] d] show ?thesis
    by (simp add: finishNode_def d)
qed

lemma list_all_concat_map:
  "(\<And>x. x \<in> set xs \<Longrightarrow> list_all P (f x)) \<Longrightarrow> list_all P (concat (map f xs))"
  by (induction xs) auto

lemma serializeDom_exclusive:
  "serializeDom env n parentRect isRoot = Some ir \<Longrightarrow> textXorChildren ir"
proof (induction env n parentRect isRoot arbitrary: ir rule: serializeDom.induct)
  case (1 env el kids parentRect isRoot)
  let ?r = "measuredRect el isRoot"
  let ?cs = "measuredStyle el isRoot"
  from "1.prems" have guards: "tagOf el \<notin> set SKIP_TAGS" "el_style el ''display'' \<noteq> ''none''"
    "el_style el ''visibility'' \<noteq> ''hidden''" "\<not> (dr_width ?r < 1 \<or> dr_height ?r < 1)"
    by (auto split: if_splits)
  show ?case
  proof (cases "tagOf el = ''svg''")
    case True
    with "1.prems" guards show ?thesis
      by (auto simp: svgNode_leaf)
  next
    case False
    let ?mixed = "concat (map (\<lambda>n. case n of
                                   DomText d textRect \<Rightarrow> textChild env ?cs ?r d textRect
                                 | DomElement e ks \<Rightarrow>
                                     if tagOf e \<in> set SKIP_TAGS then []
                                     else (case serializeDom env n ?r False of
                                             Some childData \<Rightarrow> [childData]
                                           | None \<Rightarrow> [])
                                 | DomOther \<Rightarrow> []) kids)"
    let ?elems = "concat (map (\<lambda>n. if isKeptElement n
                                   then (case serializeDom env n ?r False of
                                           Some childData \<Rightarrow> [childData]
                                         | None \<Rightarrow> [])
                                   else []) kids)"
    let ?tx = "ownText el kids"
    let ?B = "hasSignificantTextNodes kids \<and> (elementChildren kids \<noteq> [] \<or> hasBr kids)"
    let ?kidsData = "if truthy ?tx then [] else if ?B then ?mixed else ?elems"
    have child_mixed: "textXorChildren c"
      if "x \<in> set kids" "x = DomElement e ks" "tagOf e \<notin> set SKIP_TAGS"
         "serializeDom env x ?r False = Some c" "\<not> truthy ?tx" "?B" for x e ks c
      using "1.IH"(1) guards False that
      by (auto simp: ownText_def)
    have child_elem: "textXorChildren c"
      if "x \<in> set kids" "isKeptElement x" "serializeDom env x ?r False = Some c"
         "\<not> truthy ?tx" "\<not> ?B" for x c
      using "1.IH"(2) guards False that
      by (auto simp: ownText_def)
    have mixed: "list_all textXorChildren ?mixed" if "\<not> truthy ?tx" "?B"
      by (rule list_all_concat_map)
         (auto simp: textChild_leaves dest: child_mixed [OF _ _ _ _ that]
               split: DomNode.splits option.splits)
    have elems: "list_all textXorChildren ?elems" if "\<not> truthy ?tx" "\<not> ?B"
      by (rule list_all_concat_map)
         (auto dest: child_elem [OF _ _ _ that] split: option.splits)
    have kidsData: "list_all textXorChildren ?kidsData"
      using mixed elems by auto
    have "serializeDom env (DomElement el kids) parentRect isRoot =
            Some (finishNode env el (tagOf el) ?cs ?r parentRect ?tx
                         (snd (mergedText el kids))
                         (snd (formText (tagOf el) el (fst (mergedText el kids)))) ?kidsData)"
      using guards False by (simp add: Let_def ownText_def)
    with "1.prems"
    have result: "ir = finishNode env el (tagOf el) ?cs ?r parentRect ?tx
                         (snd (mergedText el kids))
                         (snd (formText (tagOf el) el (fst (mergedText el kids)))) ?kidsData"
      by simp
    show ?thesis
      unfolding result by (rule finishNode_ok [OF kidsData])
  qed
qed simp_all


lemma serializeDom_text:
  assumes "serializeDom env (DomElement el kids) parentRect isRoot = Some ir"
    and "tagOf el \<noteq> ''svg''" and "truthy (ownText el kids)"
  shows "ir = finishNode env el (tagOf el) (measuredStyle el isRoot) (measuredRect el isRoot)
                parentRect (ownText el kids) (snd (mergedText el kids))
                (snd (formText (tagOf el) el (fst (mergedText el kids)))) []"
  using assms by (auto simp: Let_def ownText_def split: if_splits)

lemma finishNode_demotes:
  assumes "truthy tx" and "withPseudo env el cs [] \<noteq> []"
  shows "node_text (finishNode env el tag cs r parentRect tx segs ph []) = None"
    and "textSegments (finishNode env el tag cs r parentRect tx segs ph []) = None"
    and "children (finishNode env el tag cs r parentRect tx segs ph [])
           = withPseudo env el cs [] @ [demotedChild env cs r tx segs]"
  using assms by (simp_all add: finishNode_def demoteText_def)

lemma finishNode_keeps:
  assumes "withPseudo env el cs [] = []"
  shows "node_text (finishNode env el tag cs r parentRect tx segs ph []) = tx"
    and "children (finishNode env el tag cs r parentRect tx segs ph []) = []"
  using assms by (simp_all add: finishNode_def demoteText_def)

lemma demotedChild_fields:
  "tagName (demotedChild env cs r tx segs) = ''#text''"
  "node_text (demotedChild env cs r tx segs) = tx"
  "textSegments (demotedChild env cs r tx segs) = segs"
  "children (demotedChild env cs r tx segs) = []"
  "rect (demotedChild env cs r tx segs) =
     \<lparr>rect_x = math_round (pf (cs ''paddingLeft'')),
      rect_y = math_round (pf (cs ''paddingTop'')),
      rect_width = math_round (dr_width r - pf (cs ''paddingLeft'') - pf (cs ''paddingRight'')),
      rect_height = math_round (dr_height r - pf (cs ''paddingTop'')
                                  - pf (cs ''paddingBottom''))\<rparr>"
  by (simp_all add: demotedChild_def Let_def)

text \<open>
  Claim C1. In every tree \<open>serializeDom\<close> returns, no node has both a non-empty text and a
  non-empty list of children. When an element (other than \<open>svg\<close>) has a text of its own and
  a pseudo-element is extracted for it, the returned node has no text and no segments, and
  its children are the pseudo-elements followed by one child \<open>#text\<close> that carries the text
  and the segments, has no children, and lies inside the padding box: at the left and top
  padding, with the width and the height of the element less its paddings, each rounded.
  Without a pseudo-element the node keeps its text and has no children.
\<close>

theorem text_or_children:
  "(serializeDom env n parentRect isRoot = Some ir \<longrightarrow> textXorChildren ir)
   \<and> (serializeDom env (DomElement el kids) parentRect isRoot = Some ir
        \<and> tagOf el \<noteq> ''svg'' \<and> truthy (ownText el kids)
        \<and> withPseudo env el (measuredStyle el isRoot) [] \<noteq> []
      \<longrightarrow> node_text ir = None \<and> textSegments ir = None
          \<and> children ir =
              withPseudo env el (measuredStyle el isRoot) []
              @ [demotedChild env (measuredStyle el isRoot) (measuredRect el isRoot)
                   (ownText el kids) (snd (mergedText el kids))])
   \<and> (serializeDom env (DomElement el kids) parentRect isRoot = Some ir
        \<and> tagOf el \<noteq> ''svg'' \<and> truthy (ownText el kids)
        \<and> withPseudo env el (measuredStyle el isRoot) [] = []
      \<longrightarrow> node_text ir = ownText el kids \<and> children ir = [])
   \<and> tagName (demotedChild env cs r tx segs) = ''#text''
   \<and> node_text (demotedChild env cs r tx segs) = tx
   \<and> textSegments (demotedChild env cs r tx segs) = segs
   \<and> children (demotedChild env cs r tx segs) = []
   \<and> rect (demotedChild env cs r tx segs) =
       \<lparr>rect_x = math_round (pf (cs ''paddingLeft'')),
        rect_y = math_round (pf (cs ''paddingTop'')),
        rect_width = math_round (dr_width r - pf (cs ''paddingLeft'') - pf (cs ''paddingRight'')),
        rect_height = math_round (dr_height r - pf (cs ''paddingTop'')
                                    - pf (cs ''paddingBottom''))\<rparr>"
proof -
  have one: "serializeDom env n parentRect isRoot = Some ir \<longrightarrow> textXorChildren ir"
    using serializeDom_exclusive by blast
  have two: "serializeDom env (DomElement el kids) parentRect isRoot = Some ir
        \<and> tagOf el \<noteq> ''svg'' \<and> truthy (ownText el kids)
        \<and> withPseudo env el (measuredStyle el isRoot) [] \<noteq> []
      \<longrightarrow> node_text ir = None \<and> textSegments ir = None
          \<and> children ir =
              withPseudo env el (measuredStyle el isRoot) []
              @ [demotedChild env (measuredStyle el isRoot) (measuredRect el isRoot)
                   (ownText el kids) (snd (mergedText el kids))]"
    using serializeDom_text [of env el kids parentRect isRoot ir]
    by (auto simp: finishNode_demotes)
  have three: "serializeDom env (DomElement el kids) parentRect isRoot = Some ir
        \<and> tagOf el \<noteq> ''svg'' \<and> truthy (ownText el kids)
        \<and> withPseudo env el (measuredStyle el isRoot) [] = []
      \<longrightarrow> node_text ir = ownText el kids \<and> children ir = []"
    using serializeDom_text [of env el kids parentRect isRoot ir]
    by (auto simp: finishNode_keeps)
  show ?thesis
    using one two three by (simp add: demotedChild_fields)
qed

lemmas dom_defs = okButtonData_def okButtonText_def buttonStyle_def dotStyle_def pageRect_def
  directCanvas_def tagOf_def SKIP_TAGS_def measuredRect_def measuredStyle_def fixedConverted_def

lemma math_round_numeral: "math_round 2 = 2" "math_round 8 = 8" "math_round 0 = 0"
  "math_round 12 = 12" "math_round 4 = 4" "math_round 76 = 76" "math_round 32 = 32"
  by (simp_all add: math_round_def)

lemma okButton_text: "ownText okButtonData okButtonText = Some ''OK''"
  by (simp add: dom_defs ownText_def formText_def mergedText_def elementChildren_def
        isKeptElement_def hasBr_def truthy_def char_defs string_defs)

lemma okButton_tag: "tagOf okButtonData = ''button''"
  by (simp add: dom_defs char_defs)

lemma okButton_pseudo:
  "map tagName (withPseudo directCanvas okButtonData (measuredStyle okButtonData True) [])
     = [''::before'']"
  by (simp add: dom_defs withPseudo_def extractPseudoElement_def Let_def pf_def
        number_defs char_defs string_defs)

lemma okButton_serialized:
  "serializeDom directCanvas okButton pageRect True
     = Some (the (serializeDom directCanvas okButton pageRect True))"
proof -
  have "dr_width (measuredRect okButtonData True) = 100"
       "dr_height (measuredRect okButtonData True) = 40"
       "el_style okButtonData ''display'' = ''inline-block''"
       "el_style okButtonData ''visibility'' = ''visible''"
    by (simp_all add: dom_defs)
  then show ?thesis
    by (simp add: okButton_def okButton_tag SKIP_TAGS_def Let_def)
qed

lemma okButton_padding:
  "pf (measuredStyle okButtonData True ''paddingLeft'') = 12"
  "pf (measuredStyle okButtonData True ''paddingRight'') = 12"
  "pf (measuredStyle okButtonData True ''paddingTop'') = 4"
  "pf (measuredStyle okButtonData True ''paddingBottom'') = 4"
  "dr_width (measuredRect okButtonData True) = 100"
  "dr_height (measuredRect okButtonData True) = 40"
  by (simp_all add: dom_defs pf_def number_defs char_defs string_defs)

theorem text_or_children_witness:
  "textXorChildren (the (serializeDom directCanvas okButton pageRect True))
   \<and> node_text (the (serializeDom directCanvas okButton pageRect True)) = None
   \<and> map tagName (children (the (serializeDom directCanvas okButton pageRect True)))
       = [''::before'', ''#text'']
   \<and> node_text (last (children (the (serializeDom directCanvas okButton pageRect True))))
       = Some ''OK''
   \<and> rect (last (children (the (serializeDom directCanvas okButton pageRect True))))
       = \<lparr>rect_x = 12, rect_y = 4, rect_width = 76, rect_height = 32\<rparr>"
proof -
  let ?ir = "the (serializeDom directCanvas okButton pageRect True)"
  let ?cs = "measuredStyle okButtonData True"
  let ?r = "measuredRect okButtonData True"
  let ?segs = "snd (mergedText okButtonData okButtonText)"
  note inst = text_or_children
                [of directCanvas okButton pageRect True ?ir okButtonData okButtonText
                    ?cs ?r "Some ''OK''" ?segs]
  have ser: "serializeDom directCanvas okButton pageRect True = Some ?ir"
    by (rule okButton_serialized)
  from inst ser have excl: "textXorChildren ?ir"
    by blast
  have pseudo: "withPseudo directCanvas okButtonData ?cs [] \<noteq> []"
    using okButton_pseudo by auto
  have hyp: "serializeDom directCanvas (DomElement okButtonData okButtonText) pageRect True = Some ?ir
        \<and> tagOf okButtonData \<noteq> ''svg'' \<and> truthy (ownText okButtonData okButtonText)
        \<and> withPseudo directCanvas okButtonData ?cs [] \<noteq> []"
    using ser pseudo by (simp add: okButton_def okButton_tag okButton_text truthy_def)
  from inst hyp
  have demoted: "node_text ?ir = None"
    and kids: "children ?ir = withPseudo directCanvas okButtonData ?cs []
                 @ [demotedChild directCanvas ?cs ?r (ownText okButtonData okButtonText) ?segs]"
    unfolding okButton_def by blast+
  from inst have child:
    "tagName (demotedChild directCanvas ?cs ?r (Some ''OK'') ?segs) = ''#text''"
    "node_text (demotedChild directCanvas ?cs ?r (Some ''OK'') ?segs) = Some ''OK''"
    "rect (demotedChild directCanvas ?cs ?r (Some ''OK'') ?segs) =
       \<lparr>rect_x = math_round (pf (?cs ''paddingLeft'')),
        rect_y = math_round (pf (?cs ''paddingTop'')),
        rect_width = math_round (dr_width ?r - pf (?cs ''paddingLeft'')
                                   - pf (?cs ''paddingRight'')),
        rect_height = math_round (dr_height ?r - pf (?cs ''paddingTop'')
                                    - pf (?cs ''paddingBottom''))\<rparr>"
    by blast+
  have tags: "map tagName (children ?ir) = [''::before'', ''#text'']"
    by (simp add: kids okButton_pseudo okButton_text child(1))
  have last_text: "node_text (last (children ?ir)) = Some ''OK''"
    by (simp add: kids okButton_text child(2))
  have last_rect: "rect (last (children ?ir))
                     = \<lparr>rect_x = 12, rect_y = 4, rect_width = 76, rect_height = 32\<rparr>"
    by (simp add: kids okButton_text child(3) okButton_padding math_round_numeral)
  show ?thesis
    using excl demoted tags last_text last_rect by blast
qed

end
